theory Spec2Isabelle
  imports Complex_Main "HOL-Library.AList"
begin

section \<open>Python values and errors\<close>

text \<open>
  Exceptions of the Python sources are values: a function that may raise returns
  \<open>py_error + 'a\<close>, with \<open>Inl\<close> for the exception.
\<close>

datatype py_error = AttributeError | TypeError | ValueError | KeyError
  | ZeroDivisionError | IndexError | OverflowError

text \<open>
  A float64 sample of the numpy history arrays: \<open>NaN\<close> is the missing marker
  \<open>np.nan\<close>, \<open>Fin v\<close> a finite number. Finite floats are idealised as reals.
\<close>

datatype fnum = NaN | Fin real

fun isnan :: "fnum \<Rightarrow> bool" where
  "isnan NaN = True"
| "isnan (Fin v) = False"

section \<open>Config.py\<close>

definition DEBUG :: bool where "DEBUG = True"
definition FRAME_TO_PITCH :: nat where "FRAME_TO_PITCH = 10"

text \<open>
  \<open>Config.py\<close> binds no name \<open>sys\<close> (it has no \<open>import sys\<close>), so evaluating
  the expression \<open>Config.sys.stderr\<close>, an argument of the debug prints of
  \<open>Dove_object.py\<close> and \<open>Servo.py\<close>, raises AttributeError.
\<close>

definition Config_sys_stderr :: "py_error + unit" where
  "Config_sys_stderr = Inl AttributeError"

section \<open>Dove\_object.py\<close>

text \<open>\<open>s_median\<close>: the median of the samples that are not NaN, None when there are none.
  \<open>np.median\<close> takes the middle of the sorted values, the mean of the two middle ones
  when their number is even.\<close>

fun finite_samples :: "fnum list \<Rightarrow> real list" where
  "finite_samples [] = []"
| "finite_samples (NaN # xs) = finite_samples xs"
| "finite_samples (Fin v # xs) = v # finite_samples xs"

definition np_median :: "real list \<Rightarrow> real" where
  "np_median vs =
     (let s = sort vs; n = length s
      in if odd n then s ! (n div 2) else (s ! (n div 2 - 1) + s ! (n div 2)) / 2)"

definition s_median :: "fnum list \<Rightarrow> real option" where
  "s_median arr =
     (let filtered_data = finite_samples arr
      in if length filtered_data = 0 then None else Some (np_median filtered_data))"

record dove =
  is_valid :: bool
  x_center :: real
  y_center :: "fnum list"
  height :: "fnum list"
  index :: nat

text \<open>The fields \<open>Dove.__init__\<close> assigns (lines 53 to 57 of the source).\<close>

definition Dove_fields :: "bool \<Rightarrow> real \<Rightarrow> dove" where
  "Dove_fields valid x =
     \<lparr> is_valid = valid, x_center = x,
       y_center = replicate FRAME_TO_PITCH NaN,
       height = replicate FRAME_TO_PITCH NaN,
       index = 0 \<rparr>"

text \<open>The constructor: the assignments, then the debug print when \<open>Config.DEBUG\<close>.\<close>

definition Dove_init :: "bool \<Rightarrow> real \<Rightarrow> py_error + dove" where
  "Dove_init valid x =
     (let self = Dove_fields valid x
      in if DEBUG then (case Config_sys_stderr of Inl e \<Rightarrow> Inl e | Inr u \<Rightarrow> Inr self)
         else Inr self)"

text \<open>
  \<open>update_dove\<close>. A numpy store at an index beyond the array raises IndexError
  (the index is never negative: it starts at 0 and is reduced modulo the window).
\<close>

definition update_dove :: "bool \<Rightarrow> real \<Rightarrow> fnum \<Rightarrow> fnum \<Rightarrow> dove \<Rightarrow> py_error + dove" where
  "update_dove valid x y h self =
     (let s1 = self\<lparr>is_valid := valid\<rparr>
      in if \<not> valid then
           (if index s1 < length (y_center s1) then
              (let s2 = s1\<lparr>y_center := (y_center s1)[index s1 := NaN]\<rparr>
               in if index s2 < length (height s2) then
                    (let s3 = s2\<lparr>height := (height s2)[index s2 := NaN]\<rparr>
                     in Inr (s3\<lparr>index := (index s3 + 1) mod FRAME_TO_PITCH\<rparr>))
                  else Inl IndexError)
            else Inl IndexError)
         else
           (let s2 = s1\<lparr>x_center := x\<rparr>
            in if index s2 < length (y_center s2) then
                 (let s3 = s2\<lparr>y_center := (y_center s2)[index s2 := y]\<rparr>
                  in if index s3 < length (height s3) then
                       (let s4 = s3\<lparr>height := (height s3)[index s3 := h]\<rparr>
                        in Inr (s4\<lparr>index := (index s4 + 1) mod FRAME_TO_PITCH\<rparr>))
                     else Inl IndexError)
               else Inl IndexError))"

definition is_dove :: "dove \<Rightarrow> bool" where
  "is_dove self = is_valid self"

definition get_center :: "dove \<Rightarrow> real \<times> real option" where
  "get_center self = (x_center self, s_median (y_center self))"

definition get_height :: "dove \<Rightarrow> real option" where
  "get_height self = s_median (height self)"

text \<open>The shape every tracker built by the constructor's assignments keeps.\<close>

definition dove_wf :: "dove \<Rightarrow> bool" where
  "dove_wf d \<longleftrightarrow>
     length (y_center d) = FRAME_TO_PITCH \<and> length (height d) = FRAME_TO_PITCH
     \<and> index d < FRAME_TO_PITCH"

text \<open>One call of \<open>update_dove\<close>, as the perception thread makes it.\<close>

datatype frame = Frame bool real fnum fnum

fun frame_ok :: "frame \<Rightarrow> bool" where
  "frame_ok (Frame valid x y h) = (valid \<longrightarrow> \<not> isnan y \<and> \<not> isnan h)"

fun apply_frame :: "dove \<Rightarrow> frame \<Rightarrow> py_error + dove" where
  "apply_frame d (Frame valid x y h) = update_dove valid x y h d"

fun run_frames :: "dove \<Rightarrow> frame list \<Rightarrow> py_error + dove" where
  "run_frames d [] = Inr d"
| "run_frames d (f # fs) =
     (case apply_frame d f of Inl e \<Rightarrow> Inl e | Inr d' \<Rightarrow> run_frames d' fs)"

text \<open>The invariant of the tracker: after a valid update the slot written last holds
  a number in both histories.\<close>

definition dove_inv :: "dove \<Rightarrow> bool" where
  "dove_inv d \<longleftrightarrow> dove_wf d \<and>
     (is_valid d \<longrightarrow>
        \<not> isnan (y_center d ! ((index d + FRAME_TO_PITCH - 1) mod FRAME_TO_PITCH))
      \<and> \<not> isnan (height d ! ((index d + FRAME_TO_PITCH - 1) mod FRAME_TO_PITCH)))"

section \<open>angles\_map.py: the linkage solve\<close>

text \<open>The linkage constants of \<open>Config.py\<close>. Floats are idealised as reals: the
  decimal literals stand for the rationals they denote, \<open>math.cos\<close>, \<open>math.sin\<close>,
  \<open>math.acos\<close> and the square root for the real functions.\<close>

definition l1 :: real where "l1 = 7.4"
definition l2 :: real where "l2 = 1.64"
definition l3 :: real where "l3 = 1.55"
definition l4 :: real where "l4 = 7.9"
definition l5 :: real where "l5 = 3.2"
definition lim :: real where "lim = 12"
definition s_cal :: int where "s_cal = 90"

text \<open>\<open>math.radians\<close>, \<open>math.degrees\<close>, Python's \<open>round\<close> (to the nearest integer,
  a tie to the even one) and \<open>math.acos\<close>, which raises ValueError outside [-1, 1].\<close>

definition radians :: "real \<Rightarrow> real" where "radians d = d * pi / 180"
definition degrees :: "real \<Rightarrow> real" where "degrees r = r * 180 / pi"

definition py_round :: "real \<Rightarrow> int" where
  "py_round x = (let f = \<lfloor>x\<rfloor>; r = x - of_int f
                 in if r < 1/2 then f else if 1/2 < r then f + 1
                    else if even f then f else f + 1)"

definition math_acos :: "real \<Rightarrow> py_error + real" where
  "math_acos x = (if -1 \<le> x \<and> x \<le> 1 then Inr (arccos x) else Inl ValueError)"

text \<open>Lines 37 to 52 of \<open>ang_conv\<close>: the argument handed to \<open>math.acos\<close>.\<close>

definition ang_conv_root :: "real \<Rightarrow> py_error + real" where
  "ang_conv_root alpha_deg =
     (let alpha = radians alpha_deg;
          A = (l2 - l5 * cos alpha) / l3;
          B = -1 * (l1 + l5 * sin alpha) / l3;
          BS = B\<^sup>2;
          C = (l4 / l3)\<^sup>2 - 1;
          D = A\<^sup>2 + BS
      in if D = 0 then Inl ZeroDivisionError
         else
           (let E = A * (BS - C) / D;
                F = (0.25 * (BS - C)\<^sup>2 - BS) / D;
                discriminant = E\<^sup>2 - 4 * F;
                discriminant = (if discriminant < 0 then 0 else discriminant);
                root_val = (- E + sqrt discriminant) / 2
            in Inr root_val))"

definition ang_conv :: "real \<Rightarrow> py_error + int" where
  "ang_conv alpha_deg =
     (case ang_conv_root alpha_deg of
        Inl e \<Rightarrow> Inl e
      | Inr root_val \<Rightarrow>
          (case math_acos root_val of
             Inl e \<Rightarrow> Inl e
           | Inr angle_radians \<Rightarrow>
               (let angle_degrees = degrees angle_radians;
                    angle_degrees = (if alpha_deg < lim then angle_degrees * -1
                                     else angle_degrees)
                in Inr (py_round angle_degrees + s_cal))))"

section \<open>angles\_map.py: the two maps\<close>

text \<open>
  A dict is an association list in insertion order: \<open>map_of\<close> looks a key up,
  \<open>AList.update\<close> stores a value (in place for a key already there, at the end for a
  new one). The alpha lists hold the integer alphas and the interpolated floats, both
  as reals.
\<close>

type_synonym alpha_to_beta = "(int \<times> int) list"
type_synonym beta_to_alpha = "(int \<times> real list) list"

text \<open>The body of the first loop (lines 86 to 93), for a conversion function
  \<open>conv\<close>.\<close>

definition record_alpha ::
  "(real \<Rightarrow> py_error + int) \<Rightarrow> int \<Rightarrow> alpha_to_beta \<times> beta_to_alpha
     \<Rightarrow> py_error + alpha_to_beta \<times> beta_to_alpha" where
  "record_alpha conv alpha m =
     (case conv (of_int alpha) of
        Inl e \<Rightarrow> Inl e
      | Inr beta \<Rightarrow>
          (let alpha_to_beta_map = AList.update alpha beta (fst m)
           in case map_of (snd m) beta of
                Some alphas \<Rightarrow>
                  Inr (alpha_to_beta_map, AList.update beta (alphas @ [of_int alpha]) (snd m))
              | None \<Rightarrow>
                  Inr (alpha_to_beta_map, AList.update beta [of_int alpha] (snd m))))"

fun populate_maps ::
  "(real \<Rightarrow> py_error + int) \<Rightarrow> int list \<Rightarrow> alpha_to_beta \<times> beta_to_alpha
     \<Rightarrow> py_error + alpha_to_beta \<times> beta_to_alpha" where
  "populate_maps conv [] m = Inr m"
| "populate_maps conv (alpha # rest) m =
     (case record_alpha conv alpha m of
        Inl e \<Rightarrow> Inl e
      | Inr m' \<Rightarrow> populate_maps conv rest m')"

text \<open>
  Where the rounding of binary64 decides what the code computes, the model rounds:
  \<open>fl64 x\<close> is the binary64 number nearest to \<open>x\<close> (53 bits of significand, a tie to
  the even one), for \<open>x\<close> in the normal range of binary64.
\<close>

definition fl64 :: "real \<Rightarrow> real" where
  "fl64 x =
     (if x = 0 then 0
      else (let e = \<lfloor>log 2 \<bar>x\<bar>\<rfloor>; ulp = 2 powr (of_int e - 52)
            in of_int (py_round (x / ulp)) * ulp))"

text \<open>The weighted averages of lines 107 to 116; \<open>zip\<close> stops at the shorter list. The
  two weights are quotients of ints, rounded; each product and the sum are rounded.\<close>

definition weighted_alphas :: "int \<Rightarrow> int \<Rightarrow> int \<Rightarrow> real list \<Rightarrow> real list \<Rightarrow> real list" where
  "weighted_alphas lower_beta higher_beta beta lower_alphas higher_alphas =
     (let weight_lower =
            fl64 (real_of_int (higher_beta - beta) / real_of_int (higher_beta - lower_beta));
          weight_higher =
            fl64 (real_of_int (beta - lower_beta) / real_of_int (higher_beta - lower_beta))
      in map (\<lambda>(alpha_low, alpha_high).
                fl64 (fl64 (weight_lower * alpha_low) + fl64 (weight_higher * alpha_high)))
           (zip lower_alphas higher_alphas))"

text \<open>The body of the second loop (lines 101 to 116). \<open>max\<close> and \<open>min\<close> of an empty
  generator raise ValueError, a missing key KeyError.\<close>

definition fill_beta :: "int \<Rightarrow> beta_to_alpha \<Rightarrow> py_error + beta_to_alpha" where
  "fill_beta beta m =
     (if map_of m beta \<noteq> None then Inr m
      else
        (let lows = filter (\<lambda>k. k < beta) (map fst m);
             highs = filter (\<lambda>k. k > beta) (map fst m)
         in if lows = [] then Inl ValueError
            else if highs = [] then Inl ValueError
            else
              (let lower_beta = Max (set lows);
                   higher_beta = Min (set highs)
               in if higher_beta - lower_beta = 0 then Inl ZeroDivisionError
                  else
                    (case map_of m lower_beta of
                       None \<Rightarrow> Inl KeyError
                     | Some lower_alphas \<Rightarrow>
                         (case map_of m higher_beta of
                            None \<Rightarrow> Inl KeyError
                          | Some higher_alphas \<Rightarrow>
                              Inr (AList.update beta
                                     (weighted_alphas lower_beta higher_beta beta
                                        lower_alphas higher_alphas) m))))))"

fun interpolate_missing :: "int list \<Rightarrow> beta_to_alpha \<Rightarrow> py_error + beta_to_alpha" where
  "interpolate_missing [] m = Inr m"
| "interpolate_missing (beta # rest) m =
     (case fill_beta beta m of
        Inl e \<Rightarrow> Inl e
      | Inr m' \<Rightarrow> interpolate_missing rest m')"

text \<open>\<open>alpha_beta_maps\<close>, for a conversion function; the line it prints is left out.
  \<open>range(-16, 46)\<close> is \<open>alpha_range\<close>; \<open>min\<close> of no keys raises ValueError.\<close>

definition alpha_range :: "int list" where
  "alpha_range = [-16..45]"

definition alpha_beta_maps_with ::
  "(real \<Rightarrow> py_error + int) \<Rightarrow> py_error + alpha_to_beta \<times> beta_to_alpha" where
  "alpha_beta_maps_with conv =
     (case populate_maps conv alpha_range ([], []) of
        Inl e \<Rightarrow> Inl e
      | Inr m \<Rightarrow>
          (if map fst (snd m) = [] then Inl ValueError
           else
             (let min_beta = Min (set (map fst (snd m)));
                  max_beta = Max (set (map fst (snd m)))
              in case interpolate_missing [min_beta..max_beta] (snd m) of
                   Inl e \<Rightarrow> Inl e
                 | Inr beta_to_alpha_map \<Rightarrow> Inr (fst m, beta_to_alpha_map))))"

definition alpha_beta_maps :: "py_error + alpha_to_beta \<times> beta_to_alpha" where
  "alpha_beta_maps = alpha_beta_maps_with ang_conv"

text \<open>For the proofs: the alphas a conversion \<open>f\<close> sends to \<open>beta\<close>, in the order of
  the list walked.\<close>

definition direct_alphas :: "(int \<Rightarrow> int) \<Rightarrow> int list \<Rightarrow> int \<Rightarrow> real list" where
  "direct_alphas f xs beta = map real_of_int (filter (\<lambda>a. f a = beta) xs)"

definition populated :: "(int \<Rightarrow> int) \<Rightarrow> int list \<Rightarrow> alpha_to_beta \<times> beta_to_alpha \<Rightarrow> bool" where
  "populated f xs m \<longleftrightarrow>
     (\<forall>a. map_of (fst m) a = (if a \<in> set xs then Some (f a) else None))
     \<and> (\<forall>b. map_of (snd m) b =
            (if direct_alphas f xs b = [] then None else Some (direct_alphas f xs b)))"


definition nearest_higher :: "int set \<Rightarrow> int \<Rightarrow> int" where
  "nearest_higher R b = Min {r \<in> R. b < r}"

definition filled_below :: "(int \<Rightarrow> int) \<Rightarrow> int list \<Rightarrow> int \<Rightarrow> beta_to_alpha \<Rightarrow> bool" where
  "filled_below f xs b m \<longleftrightarrow>
     fst ` set m = f ` set xs \<union> {Min (f ` set xs) ..< b}
     \<and> (\<forall>k \<in> f ` set xs. map_of m k = Some (direct_alphas f xs k))
     \<and> (\<forall>k. Min (f ` set xs) \<le> k \<and> k < b \<and> k \<notin> f ` set xs
            \<longrightarrow> (\<exists>la. map_of m (k - 1) = Some la \<and> la \<noteq> []
                   \<and> map_of m k =
                       Some (weighted_alphas (k - 1) (nearest_higher (f ` set xs) k) k la
                               (direct_alphas f xs (nearest_higher (f ` set xs) k)))))"

text \<open>For the proofs: the beta \<open>ang_conv\<close> returns for an integer alpha.\<close>

definition beta_of :: "int \<Rightarrow> int" where
  "beta_of a = (case ang_conv (of_int a) of Inr b \<Rightarrow> b | Inl e \<Rightarrow> 0)"

text \<open>For the examples: \<open>ang_conv\<close> as a table, the betas the source returns for alpha
  from -16 to 45 when run on binary64 floats (computed outside this theory). Beyond the
  table nothing is known and the model stops with ValueError; \<open>alpha_beta_maps\<close> never
  asks there.\<close>

definition beta_table :: "int list" where
  "beta_table =
     [20, 24, 28, 31, 34, 37, 40, 43, 46, 48, 51, 53, 56, 58, 61, 63,
      65, 67, 70, 72, 74, 76, 78, 80, 83, 85, 87, 89, 91, 93, 95, 97, 99,
      102, 104, 106, 108, 110, 112, 115, 117, 119, 121, 124, 126, 129,
      131, 134, 136, 139, 142, 145, 149, 153, 157, 162, 175, 175, 175,
      176, 176, 176]"






section \<open>Servo.py\<close>

text \<open>The constants of \<open>Config.py\<close> that \<open>Servo.py\<close> reads.\<close>

definition TIMEOUT_S :: real where "TIMEOUT_S = 15"
definition TOP_AIM :: real where "TOP_AIM = 160"
definition BOTTOM_AIM :: real where "BOTTOM_AIM = 200"
definition LEFT_AIM :: real where "LEFT_AIM = 310"
definition RIGHT_AIM :: real where "RIGHT_AIM = 330"
definition MAX_DUTY :: real where "MAX_DUTY = 15"
definition MIN_DUTY :: real where "MIN_DUTY = 0"
definition RIGHT_DUTY :: real where "RIGHT_DUTY = 7.1"
definition STATIC_DUTY :: real where "STATIC_DUTY = 7.5"
definition LEFT_DUTY :: real where "LEFT_DUTY = 7.9"
definition PITCH_DEG_DOWN :: int where "PITCH_DEG_DOWN = 65"
definition FOV_deg :: real where "FOV_deg = 16.7"
definition HEIGHT_PIXEL :: real where "HEIGHT_PIXEL = 360"
definition REAL_DOVE_HEIGHT :: real where "REAL_DOVE_HEIGHT = 0.2"
definition GRAVITY_CONSTANT :: real where "GRAVITY_CONSTANT = 9.81"
definition INITIAL_V :: real where "INITIAL_V = 5.2"

text \<open>
  The two budgets \<open>timeout\<close> and \<open>undetected_to\<close> are decremented by the float
  \<open>ROLL_TIME_AIM\<close> until they are no longer positive, so the number of iterations
  depends on the rounding of binary64. For them the model rounds with \<open>fl64\<close> as well
  (the budgets stay far from overflow and from the subnormal numbers), and the literal
  \<open>0.1\<close> is the binary64 number nearest to one tenth.
\<close>

definition fsub :: "real \<Rightarrow> real \<Rightarrow> real" where
  "fsub a b = fl64 (a - b)"

definition ROLL_TIME_AIM :: real where "ROLL_TIME_AIM = fl64 0.1"

definition deg_to_duty :: "real \<Rightarrow> real" where
  "deg_to_duty deg = deg * (MAX_DUTY - MIN_DUTY) / 180 + MIN_DUTY"

text \<open>
  \<open>real_alpha_calc_balistics\<close>. Its argument \<open>alpha_deg\<close> is the list the caller passes
  (\<open>min\<close> of an empty list raises ValueError); the float NaN returned is \<open>NaN\<close>. The two
  lines it prints are left out. The intermediate values are named as in the source.

  Inside the range of binary64 the floats are idealised as reals, so the model follows
  the code up to rounding (and not where rounding is all that is left: for \<open>E\<close> below
  about \<open>1e-16\<close> the code's \<open>1 - dis ** 0.5\<close> is 0.0). At the ends of the range
  the code takes other paths, and the model follows binary64 there: a product or
  a quotient that rounds beyond the largest float is an infinity (\<open>overflows\<close>), one
  that is at most half the least positive float is 0.0 (\<open>underflows\<close>), a float
  division by 0.0 raises ZeroDivisionError, and a float power of a finite number that
  rounds beyond the largest float raises OverflowError. \<open>math.radians\<close> multiplies by
  the binary64 constant nearest to \<open>pi / 180\<close> and rounds (\<open>radians64\<close>), so
  \<open>FOV\<close> and \<open>alpha\<close> are binary64 numbers: \<open>math.radians(90)\<close> is not \<open>pi / 2\<close>,
  and its cosine is about \<open>6e-17\<close>, not zero. The sine, cosine, tangent and arc tangent
  of \<open>math\<close> are the real functions.
\<close>

definition overflows :: "real \<Rightarrow> bool" where
  "overflows x \<longleftrightarrow> 2 ^ 1024 - 2 ^ 970 \<le> \<bar>x\<bar>"

definition underflows :: "real \<Rightarrow> bool" where
  "underflows x \<longleftrightarrow> \<bar>x\<bar> \<le> 1 / 2 ^ 1075"

definition radians64 :: "real \<Rightarrow> real" where
  "radians64 d = fl64 (d * fl64 (fl64 pi / 180))"

definition ballistic_D :: "real \<Rightarrow> real" where
  "ballistic_D OB =
     (let FOV = radians64 FOV_deg
      in (REAL_DOVE_HEIGHT * HEIGHT_PIXEL) / (2 * OB * tan (FOV / 2)))"

definition ballistic_E :: "real \<Rightarrow> real" where
  "ballistic_E OB = (GRAVITY_CONSTANT * ballistic_D OB) / (INITIAL_V\<^sup>2)"

definition ballistic_dis :: "real \<Rightarrow> real \<Rightarrow> real" where
  "ballistic_dis alpha OB =
     1.0 - 2.0 * ballistic_E OB * sin alpha - (ballistic_E OB * cos alpha)\<^sup>2"

definition ballistic_real_alpha :: "real \<Rightarrow> real \<Rightarrow> real" where
  "ballistic_real_alpha alpha OB =
     degrees (arctan ((1 - sqrt (ballistic_dis alpha OB)) / (ballistic_E OB * cos alpha)))"

text \<open>
  The branches at the ends of the range, in the order of the source:
  the divisor of line 61 is 0.0 (\<open>OB\<close> is zero, or so small that the product is);
  \<open>2 * OB\<close> is an infinity, so \<open>D\<close> and \<open>E\<close> are 0.0, \<open>dis\<close> is 1.0 and line 70
  divides 0.0 by 0.0;
  \<open>GRAVITY_CONSTANT * D\<close> is an infinity, so \<open>E\<close> is one, \<open>dis\<close> is minus infinity or
  NaN, and NaN is returned from line 68 or from line 76;
  the square of line 65 is beyond the largest float;
  the divisor of line 70 is 0.0.
\<close>

definition real_alpha_calc_balistics :: "real list \<Rightarrow> real \<Rightarrow> py_error + fnum" where
  "real_alpha_calc_balistics alpha_deg OB =
     (let FOV = radians64 FOV_deg
      in if alpha_deg = [] then Inl ValueError
         else
           (let alpha = radians64 (Min (set alpha_deg))
            in if underflows (2 * OB * tan (FOV / 2)) then Inl ZeroDivisionError
               else if overflows (2 * OB) then Inl ZeroDivisionError
               else if overflows (GRAVITY_CONSTANT * ballistic_D OB) then Inr NaN
               else
                 (let E = ballistic_E OB
                  in if overflows ((E * cos alpha)\<^sup>2) then Inl OverflowError
                     else
                       (let dis = ballistic_dis alpha OB
                        in if dis < 0 then Inr NaN
                           else if underflows (E * cos alpha) then Inl ZeroDivisionError
                           else
                             (let real_alpha = ballistic_real_alpha alpha OB
                              in if real_alpha > 45 then Inr NaN
                                 else Inr (Fin real_alpha))))))"

text \<open>
  What the controller does to the world: duty cycles sent to the two PWM channels,
  sleeps, and lines printed, in order.
\<close>

datatype event = PitchDuty real | RollDuty real | Sleep real | Print string

text \<open>
  The \<open>Servo\<close> object with the record of its effects. The tracked \<open>Dove\<close> is shared
  with the detection thread, which updates it while the controller runs: \<open>env t\<close> is
  the tracker as the controller's \<open>t\<close>-th read finds it, and \<open>reads\<close> counts the
  reads made so far, so two reads may see two different trackers.
\<close>

record servo =
  pitch_deg :: int
  alpha_to_beta_map :: alpha_to_beta
  beta_to_alpha_map :: beta_to_alpha
  events :: "event list"
  reads :: nat

definition emit :: "event \<Rightarrow> servo \<Rightarrow> servo" where
  "emit e s = s\<lparr>events := events s @ [e]\<rparr>"

definition observe :: "(nat \<Rightarrow> dove) \<Rightarrow> servo \<Rightarrow> dove \<times> servo" where
  "observe env s = (env (reads s), s\<lparr>reads := reads s + 1\<rparr>)"

text \<open>\<open>Dove.print_dove\<close>: the first line is printed, the second \<open>print\<close> evaluates
  \<open>Config.sys.stderr\<close>.\<close>

definition print_dove :: "dove \<Rightarrow> servo \<Rightarrow> py_error + servo" where
  "print_dove self s =
     (let s1 = emit (Print ''Dove status:'') s
      in case Config_sys_stderr of
           Inl e \<Rightarrow> Inl e
         | Inr u \<Rightarrow>
             (let s2 = emit (Print ''is valid: '') s1
              in if is_valid self
                 then Inr (emit (Print ''height: '')
                        (emit (Print ''y_center: '') (emit (Print ''x_center: '') s2)))
                 else Inr s2))"

text \<open>The inner loop of both aiming methods (lines 126 to 130 and 165 to 169): poll the
  tracker every \<open>ROLL_TIME_AIM\<close> while the grace budget lasts. None is a loop that
  never ends.\<close>

partial_function (option) reacquire :: "(nat \<Rightarrow> dove) \<Rightarrow> real \<Rightarrow> servo \<Rightarrow> (real \<times> servo) option" where
  "reacquire env undetected_to s =
     (if undetected_to > 0 then
        (case observe env s of
           (d, s1) \<Rightarrow>
             if is_dove d then Some (undetected_to, s1)
             else reacquire env (fsub undetected_to ROLL_TIME_AIM) (emit (Sleep ROLL_TIME_AIM) s1))
      else Some (undetected_to, s))"

text \<open>Lines 125 to 133 (and 164 to 172): True when the target is given up for gone.\<close>

definition lost_check :: "(nat \<Rightarrow> dove) \<Rightarrow> real \<Rightarrow> servo \<Rightarrow> (bool \<times> servo) option" where
  "lost_check env undetected_to s =
     (case observe env s of
        (d1, s1) \<Rightarrow>
          if \<not> is_dove d1 then
            Option.bind (reacquire env undetected_to s1)
              (\<lambda>(u, s2).
                 case observe env s2 of
                   (d2, s3) \<Rightarrow>
                     if \<not> is_dove d2 then Some (True, emit (Print ''Dove gone!'') s3)
                     else Some (False, s3))
          else Some (False, s1))"

text \<open>The loop of \<open>Aim_side\<close> (lines 123 to 141) and what follows it; \<open>xc\<close> is the
  local \<open>x_center\<close>.\<close>

partial_function (option) Aim_side_loop ::
  "(nat \<Rightarrow> dove) \<Rightarrow> real \<Rightarrow> real \<Rightarrow> real \<Rightarrow> servo \<Rightarrow> (py_error + bool \<times> servo) option" where
  "Aim_side_loop env xc timeout undetected_to s =
     (if (xc < LEFT_AIM \<or> xc > RIGHT_AIM) \<and> timeout > 0 then
        (case observe env s of
           (d0, s0) \<Rightarrow>
             (case print_dove d0 s0 of
                Inl e \<Rightarrow> Some (Inl e)
              | Inr s1 \<Rightarrow>
                  Option.bind (lost_check env undetected_to s1)
                    (\<lambda>(gone, s2).
                       if gone then Some (Inr (False, s2))
                       else
                         (let duty = (if xc < LEFT_AIM then RIGHT_DUTY else LEFT_DUTY);
                              s3 = emit (RollDuty duty) s2;
                              s4 = emit (Sleep ROLL_TIME_AIM) s3;
                              s5 = emit (RollDuty STATIC_DUTY) s4
                          in case observe env s5 of
                               (d, s6) \<Rightarrow>
                                 Aim_side_loop env (fst (get_center d))
                                   (fsub timeout ROLL_TIME_AIM) 5 s6))))
      else if timeout \<le> 0 then Some (Inr (False, emit (Print ''Aim Failed!'') s))
      else Some (Inr (True, emit (Print ''Roll Aim success!'') s)))"

definition Aim_side :: "(nat \<Rightarrow> dove) \<Rightarrow> servo \<Rightarrow> (py_error + bool \<times> servo) option" where
  "Aim_side env s =
     (case observe env s of
        (d, s1) \<Rightarrow> Aim_side_loop env (fst (get_center d)) TIMEOUT_S 5 s1)"

text \<open>The loop of \<open>Aim_pitch\<close> (lines 163 to 182) and what follows it; \<open>yc\<close> is the
  local \<open>y_center\<close>, None or a number. \<open>None < TOP_AIM\<close> raises TypeError.\<close>

partial_function (option) Aim_pitch_loop ::
  "(nat \<Rightarrow> dove) \<Rightarrow> real option \<Rightarrow> real \<Rightarrow> real \<Rightarrow> servo \<Rightarrow> (py_error + bool \<times> servo) option" where
  "Aim_pitch_loop env yc timeout undetected_to s =
     (if (case yc of None \<Rightarrow> True | Some y \<Rightarrow> y < TOP_AIM \<or> y > BOTTOM_AIM)
         \<and> timeout > 0 then
        Option.bind (lost_check env undetected_to s)
          (\<lambda>(gone, s1).
             if gone then Some (Inr (False, s1))
             else
               (case yc of
                  None \<Rightarrow> Some (Inl TypeError)
                | Some y \<Rightarrow>
                    (let s2 = s1\<lparr>pitch_deg := pitch_deg s1 + (if y < TOP_AIM then 1 else -1)\<rparr>
                     in case map_of (alpha_to_beta_map s2) (-16) of
                          None \<Rightarrow> Some (Inl KeyError)
                        | Some lo \<Rightarrow>
                            if pitch_deg s2 < lo
                            then Some (Inr (False, emit (Print ''not in pitch range'') s2))
                            else
                              (case map_of (alpha_to_beta_map s2) 45 of
                                 None \<Rightarrow> Some (Inl KeyError)
                               | Some hi \<Rightarrow>
                                   if pitch_deg s2 > hi
                                   then Some (Inr (False, emit (Print ''not in pitch range'') s2))
                                   else
                                     (let s3 = emit (PitchDuty (deg_to_duty (of_int (pitch_deg s2)))) s2;
                                          s4 = emit (Sleep ROLL_TIME_AIM) s3
                                      in case observe env s4 of
                                           (d, s5) \<Rightarrow>
                                             Aim_pitch_loop env (snd (get_center d))
                                               (fsub timeout ROLL_TIME_AIM) 5 s5)))))
      else if timeout \<le> 0 then Some (Inr (False, emit (Print ''Aim Failed!'') s))
      else Some (Inr (True, emit (Print ''Pitch Aim success!'') s)))"

definition Aim_pitch :: "(nat \<Rightarrow> dove) \<Rightarrow> servo \<Rightarrow> (py_error + bool \<times> servo) option" where
  "Aim_pitch env s =
     (case observe env s of
        (d, s1) \<Rightarrow> Aim_pitch_loop env (snd (get_center d)) TIMEOUT_S 5 s1)"

text \<open>What a Python function returns: a bool, or None when it falls off its end.\<close>

datatype py_ret = PyBool bool | PyNone

definition final_pitch_aim :: "real \<Rightarrow> servo \<Rightarrow> py_error + py_ret \<times> servo" where
  "final_pitch_aim height_px s =
     (case map_of (beta_to_alpha_map s) (pitch_deg s) of
        None \<Rightarrow> Inl KeyError
      | Some naive_alpha \<Rightarrow>
          (case real_alpha_calc_balistics naive_alpha height_px of
             Inl e \<Rightarrow> Inl e
           | Inr NaN \<Rightarrow> Inr (PyBool False, s)
           | Inr (Fin real_alpha) \<Rightarrow>
               (case map_of (alpha_to_beta_map s) (py_round real_alpha) of
                  None \<Rightarrow> Inl KeyError
                | Some beta \<Rightarrow>
                    (let s1 = s\<lparr>pitch_deg := beta\<rparr>
                     in Inr (PyNone, emit (PitchDuty (deg_to_duty (of_int (pitch_deg s1)))) s1)))))"

text \<open>A tracker for the examples, as the reads of the controller find it: at the first
  read the fields the constructor assigns for an absent target, from the second read on
  the tracker after one \<open>update_dove(True, 0, 100, 5)\<close>.\<close>

definition target_back :: "nat \<Rightarrow> dove" where
  "target_back t =
     (if t = 0 then Dove_fields False 0
      else (case update_dove True 0 (Fin 100) (Fin 5) (Dove_fields False 0) of
              Inr d \<Rightarrow> d
            | Inl e \<Rightarrow> Dove_fields False 0))"

text \<open>A servo for the examples: the pitch of the constructor, the forward map with the
  betas of \<open>beta_table\<close>, and of the inverse map the entry of that pitch.\<close>

definition servo0 :: servo where
  "servo0 = \<lparr> pitch_deg = PITCH_DEG_DOWN, alpha_to_beta_map = zip alpha_range beta_table,
               beta_to_alpha_map = [(65, [0])], events = [], reads = 0 \<rparr>"

text \<open>For the proofs: \<open>s'\<close> comes from \<open>s\<close> by reads of the tracker and sleeps of
  \<open>ROLL_TIME_AIM\<close> only.\<close>

definition waited_only :: "servo \<Rightarrow> servo \<Rightarrow> bool" where
  "waited_only s s' \<longleftrightarrow>
     pitch_deg s' = pitch_deg s
     \<and> alpha_to_beta_map s' = alpha_to_beta_map s
     \<and> beta_to_alpha_map s' = beta_to_alpha_map s
     \<and> (\<exists>n. events s' = events s @ replicate n (Sleep ROLL_TIME_AIM))
     \<and> reads s \<le> reads s'"

text \<open>For the proofs: the number of iterations of a loop
  \<open>while t > 0: ...; t -= ROLL_TIME_AIM\<close> that nothing else ends.\<close>

partial_function (option) budget_ticks :: "real \<Rightarrow> nat option" where
  "budget_ticks t = (if t > 0 then Option.bind (budget_ticks (fsub t ROLL_TIME_AIM)) (\<lambda>n. Some (Suc n)) else Some 0)"

section \<open>The tracker: frame effect of an update\<close>

lemma Dove_fields_wf: "dove_wf (Dove_fields valid x)"
  by (simp add: dove_wf_def Dove_fields_def FRAME_TO_PITCH_def)

lemma update_dove_invalid_eq:
  assumes "dove_wf d"
  shows "update_dove False x y h d =
     Inr (d\<lparr>is_valid := False, y_center := (y_center d)[index d := NaN],
            height := (height d)[index d := NaN],
            index := (index d + 1) mod FRAME_TO_PITCH\<rparr>)"
  using assms by (simp add: update_dove_def dove_wf_def Let_def)

lemma update_dove_valid_eq:
  assumes "dove_wf d"
  shows "update_dove True x y h d =
     Inr (d\<lparr>is_valid := True, x_center := x, y_center := (y_center d)[index d := y],
            height := (height d)[index d := h],
            index := (index d + 1) mod FRAME_TO_PITCH\<rparr>)"
  using assms by (simp add: update_dove_def dove_wf_def Let_def)

lemma update_dove_wf:
  assumes "dove_wf d"
  shows "\<exists>d'. update_dove valid x y h d = Inr d' \<and> dove_wf d'"
proof (cases valid)
  case True
  then show ?thesis
    using assms update_dove_valid_eq [OF assms, of x y h]
    by (simp add: dove_wf_def FRAME_TO_PITCH_def)
next
  case False
  then show ?thesis
    using assms update_dove_invalid_eq [OF assms, of x y h]
    by (simp add: dove_wf_def FRAME_TO_PITCH_def)
qed

text \<open>
  C6. On a tracker of the constructor's shape, \<open>update_dove(False, ...)\<close> raises
  nothing, leaves \<open>x_center\<close> as it was, writes NaN into the y history and the height
  history at the write index, leaves the other slots, and advances the index by one modulo
  the window; \<open>update_dove(True, x, ...)\<close> sets \<open>x_center\<close> to \<open>x\<close>.
\<close>

theorem update_dove_frame_effect:
  assumes "dove_wf d"
  shows "(\<exists>d'. update_dove False x y h d = Inr d'
            \<and> x_center d' = x_center d
            \<and> y_center d' = (y_center d)[index d := NaN]
            \<and> y_center d' ! index d = NaN
            \<and> height d' = (height d)[index d := NaN]
            \<and> height d' ! index d = NaN
            \<and> index d' = (index d + 1) mod FRAME_TO_PITCH
            \<and> is_valid d' = False)
       \<and> (\<exists>d'. update_dove True x y h d = Inr d' \<and> x_center d' = x)"
  using assms update_dove_invalid_eq [OF assms, of x y h]
    update_dove_valid_eq [OF assms, of x y h]
  by (simp add: dove_wf_def)

theorem update_dove_frame_effect_witness:
  "dove_wf (Dove_fields False 7)
   \<and> (\<exists>d'. update_dove False 50 (Fin 100) (Fin 5) (Dove_fields False 7) = Inr d'
            \<and> x_center d' = 7 \<and> y_center d' ! 0 = NaN \<and> height d' ! 0 = NaN
            \<and> index d' = 1)
   \<and> (\<exists>d'. update_dove True 50 (Fin 100) (Fin 5) (Dove_fields False 7) = Inr d'
            \<and> x_center d' = 50)"
proof -
  have i: "index (Dove_fields False 7) = 0"
    by (simp add: Dove_fields_def)
  have x: "x_center (Dove_fields False 7) = 7"
    by (simp add: Dove_fields_def)
  show ?thesis
    using update_dove_frame_effect [OF Dove_fields_wf, of 50 "Fin 100" "Fin 5" False 7]
    by (auto simp add: Dove_fields_wf i x FRAME_TO_PITCH_def)
qed

section \<open>The tracker: a present target has medians\<close>

lemma finite_samples_nonempty:
  "i < length xs \<Longrightarrow> \<not> isnan (xs ! i) \<Longrightarrow> finite_samples xs \<noteq> []"
proof (induction xs arbitrary: i rule: finite_samples.induct)
  case 1
  then show ?case by simp
next
  case (2 xs)
  then show ?case by (cases i) auto
next
  case (3 v xs)
  then show ?case by simp
qed

lemma s_median_some:
  "i < length xs \<Longrightarrow> \<not> isnan (xs ! i) \<Longrightarrow> s_median xs \<noteq> None"
  using finite_samples_nonempty [of i xs] by (simp add: s_median_def Let_def)

lemma prev_slot: "i < FRAME_TO_PITCH \<Longrightarrow> (Suc i mod FRAME_TO_PITCH + FRAME_TO_PITCH - Suc 0) mod FRAME_TO_PITCH = i"
proof (cases "Suc i < FRAME_TO_PITCH")
  case True
  then show ?thesis by simp
next
  case False
  assume "i < FRAME_TO_PITCH"
  with False have "Suc i = FRAME_TO_PITCH" by simp
  then show ?thesis by (auto simp add: FRAME_TO_PITCH_def)
qed


lemma Dove_fields_inv: "dove_inv (Dove_fields False x)"
  by (simp add: dove_inv_def Dove_fields_wf) (simp add: Dove_fields_def)

lemma update_dove_inv:
  assumes "dove_inv d" and "valid \<longrightarrow> \<not> isnan y \<and> \<not> isnan h"
  shows "\<exists>d'. update_dove valid x y h d = Inr d' \<and> dove_inv d'"
proof -
  have wf: "dove_wf d" using assms(1) by (simp add: dove_inv_def)
  obtain d' where d': "update_dove valid x y h d = Inr d'" "dove_wf d'"
    using update_dove_wf [OF wf] by blast
  have "is_valid d' \<longrightarrow>
        \<not> isnan (y_center d' ! ((index d' + FRAME_TO_PITCH - 1) mod FRAME_TO_PITCH))
      \<and> \<not> isnan (height d' ! ((index d' + FRAME_TO_PITCH - 1) mod FRAME_TO_PITCH))"
  proof (cases valid)
    case True
    then show ?thesis
      using d'(1) assms(2) wf update_dove_valid_eq [OF wf, of x y h]
      by (auto simp add: prev_slot dove_wf_def)
  next
    case False
    then show ?thesis
      using d'(1) update_dove_invalid_eq [OF wf, of x y h] by auto
  qed
  with d' show ?thesis by (auto simp add: dove_inv_def)
qed

lemma run_frames_inv:
  "dove_inv d \<Longrightarrow> list_all frame_ok fs \<Longrightarrow> \<exists>d'. run_frames d fs = Inr d' \<and> dove_inv d'"
proof (induction fs arbitrary: d)
  case Nil
  then show ?case by simp
next
  case (Cons f fs)
  obtain valid x y h where f: "f = Frame valid x y h" by (cases f)
  from Cons.prems f have ok: "valid \<longrightarrow> \<not> isnan y \<and> \<not> isnan h" by simp
  obtain d1 where d1: "update_dove valid x y h d = Inr d1" "dove_inv d1"
    using update_dove_inv [OF Cons.prems(1) ok] by blast
  from Cons.IH [OF d1(2)] Cons.prems(2) obtain d' where "run_frames d1 fs = Inr d'" "dove_inv d'"
    by auto
  with d1 f show ?case by simp
qed

lemma dove_inv_medians:
  assumes "dove_inv d" "is_dove d"
  shows "snd (get_center d) \<noteq> None \<and> get_height d \<noteq> None"
proof -
  let ?p = "(index d + FRAME_TO_PITCH - 1) mod FRAME_TO_PITCH"
  have p: "?p < FRAME_TO_PITCH" by (simp add: FRAME_TO_PITCH_def)
  from assms have a: "\<not> isnan (y_center d ! ?p)" "\<not> isnan (height d ! ?p)"
    and l: "length (y_center d) = FRAME_TO_PITCH" "length (height d) = FRAME_TO_PITCH"
    by (simp_all add: dove_inv_def is_dove_def dove_wf_def)
  show ?thesis
    using s_median_some [of ?p "y_center d"] s_median_some [of ?p "height d"] a l p
    by (simp add: get_center_def get_height_def)
qed

text \<open>
  C10. Start from the fields the constructor assigns (with the default
  \<open>is_valid = False\<close>) and apply any finite sequence of \<open>update_dove\<close> calls whose
  valid frames carry numbers for \<open>y_center\<close> and \<open>height\<close>: no call raises, and in the
  tracker reached, whenever \<open>is_dove()\<close> is true, the median of \<open>get_center()\<close> and
  \<open>get_height()\<close> are not None.
\<close>

theorem is_dove_medians_defined:
  assumes "list_all frame_ok fs"
  shows "\<exists>d. run_frames (Dove_fields False x0) fs = Inr d
          \<and> (is_dove d \<longrightarrow> snd (get_center d) \<noteq> None \<and> get_height d \<noteq> None)"
  using run_frames_inv [OF Dove_fields_inv assms, of x0] dove_inv_medians by blast


theorem is_dove_medians_defined_witness:
  "list_all frame_ok [Frame True 50 (Fin 100) (Fin 5)]
   \<and> (\<exists>d. run_frames (Dove_fields False 0) [Frame True 50 (Fin 100) (Fin 5)] = Inr d
          \<and> is_dove d \<and> snd (get_center d) \<noteq> None \<and> get_height d \<noteq> None)"
proof -
  have ok: "list_all frame_ok [Frame True 50 (Fin 100) (Fin 5)]" by simp
  obtain d where d: "run_frames (Dove_fields False 0) [Frame True 50 (Fin 100) (Fin 5)] = Inr d"
    and m: "is_dove d \<longrightarrow> snd (get_center d) \<noteq> None \<and> get_height d \<noteq> None"
    using is_dove_medians_defined [OF ok, of 0] by blast
  have "is_dove d"
    using d by (auto simp add: update_dove_valid_eq [OF Dove_fields_wf] is_dove_def)
  with ok d m show ?thesis by blast
qed

section \<open>The linkage solve returns on the whole alpha range\<close>

lemma sin_range_bound:
  assumes "-16 \<le> d" "d \<le> 45"
  shows "- (3/8) \<le> sin (radians d)"
proof (cases "0 \<le> d")
  case True
  have "radians d \<le> pi" using assms True pi_gt_zero by (simp add: radians_def)
  moreover have "0 \<le> radians d" using True by (simp add: radians_def)
  ultimately have "0 \<le> sin (radians d)" by (simp add: sin_ge_zero)
  then show ?thesis by simp
next
  case False
  then have "\<bar>d\<bar> \<le> 16" using assms by simp
  then have "\<bar>radians d\<bar> \<le> 16 * pi / 180"
    by (simp add: radians_def abs_mult)
  also have "\<dots> \<le> 16 * 4 / 180" using pi_less_4 by simp
  finally have "\<bar>radians d\<bar> \<le> 3/8" by simp
  moreover have "\<bar>sin (radians d)\<bar> \<le> \<bar>radians d\<bar>" by (rule abs_sin_x_le_abs_x)
  ultimately show ?thesis by linarith
qed


lemma quadratic_root_unit:
  fixes A BS C r :: real
  assumes BS: "0 < BS"
    and D: "D = A\<^sup>2 + BS"
    and E: "E = A * (BS - C) / D"
    and F: "F = (0.25 * (BS - C)\<^sup>2 - BS) / D"
    and disc: "0 \<le> E\<^sup>2 - 4 * F"
    and r: "r = (- E + sqrt (E\<^sup>2 - 4 * F)) / 2"
  shows "-1 \<le> r \<and> r \<le> 1"
proof -
  have Dpos: "0 < D" using BS D by (simp add: add_nonneg_pos)
  have "2 * r + E = sqrt (E\<^sup>2 - 4 * F)" using r by simp
  then have "(2 * r + E)\<^sup>2 = E\<^sup>2 - 4 * F"
    using disc by (simp only: real_sqrt_pow2)
  then have q: "r\<^sup>2 + E * r + F = 0"
    by (simp add: power2_eq_square algebra_simps)
  have ED: "E * D = A * (BS - C)" using E Dpos by simp
  have FD: "F * D = 0.25 * (BS - C)\<^sup>2 - BS" using F Dpos by simp
  have "D * (r\<^sup>2 + E * r + F) = 0" using q by simp
  then have "D * r\<^sup>2 + (E * D) * r + F * D = 0"
    by (simp add: algebra_simps)
  then have "(A\<^sup>2 + BS) * r\<^sup>2 + A * (BS - C) * r + (0.25 * (BS - C)\<^sup>2 - BS) = 0"
    using ED FD D by simp
  moreover have "(A * r + (BS - C) / 2)\<^sup>2 - BS * (1 - r\<^sup>2)
      = (A\<^sup>2 + BS) * r\<^sup>2 + A * (BS - C) * r + (0.25 * (BS - C)\<^sup>2 - BS)"
    by (simp add: power2_eq_square field_simps)
  ultimately have "(A * r + (BS - C) / 2)\<^sup>2 = BS * (1 - r\<^sup>2)"
    by simp
  moreover have "0 \<le> (A * r + (BS - C) / 2)\<^sup>2" by simp
  ultimately have "0 \<le> BS * (1 - r\<^sup>2)" by simp
  then have "0 \<le> 1 - r\<^sup>2" using BS by (simp add: zero_le_mult_iff)
  then have "r\<^sup>2 \<le> 1" by simp
  then have "\<bar>r\<bar> \<le> 1" by (simp add: abs_square_le_1)
  then show ?thesis by linarith
qed

lemma clamped_root_unit:
  fixes A B C :: real
  assumes b: "4 \<le> \<bar>B\<bar>" "\<bar>B\<bar> \<le> 7"
    and C: "21 \<le> C" "C \<le> 32"
    and D: "D = A\<^sup>2 + B\<^sup>2"
    and E: "E = A * (B\<^sup>2 - C) / D"
  shows "-1 \<le> - E / 2 \<and> - E / 2 \<le> 1"
proof -
  have Dpos: "0 < D" using b D by (simp add: add_nonneg_pos)
  have B2: "B\<^sup>2 = \<bar>B\<bar> * \<bar>B\<bar>" by (simp add: power2_eq_square)
  have "(\<bar>B\<bar> - 2)\<^sup>2 \<le> 5\<^sup>2"
    using b by (intro power_mono) simp_all
  then have u: "B\<^sup>2 - C \<le> 4 * \<bar>B\<bar>"
    using C B2 by (simp add: power2_eq_square algebra_simps)
  have "6\<^sup>2 \<le> (\<bar>B\<bar> + 2)\<^sup>2"
    using b by (intro power_mono) simp_all
  then have l: "- (4 * \<bar>B\<bar>) \<le> B\<^sup>2 - C"
    using C B2 by (simp add: power2_eq_square algebra_simps)
  from u l have k: "\<bar>B\<^sup>2 - C\<bar> \<le> 4 * \<bar>B\<bar>" by (simp add: abs_le_iff)
  have "0 \<le> (\<bar>A\<bar> - \<bar>B\<bar>)\<^sup>2" by simp
  then have ab: "2 * (\<bar>A\<bar> * \<bar>B\<bar>) \<le> A\<^sup>2 + B\<^sup>2"
    by (simp add: power2_eq_square algebra_simps)
  have "\<bar>A * (B\<^sup>2 - C)\<bar> = \<bar>A\<bar> * \<bar>B\<^sup>2 - C\<bar>" by (simp add: abs_mult)
  also have "\<dots> \<le> \<bar>A\<bar> * (4 * \<bar>B\<bar>)" using k by (simp add: mult_left_mono)
  also have "\<dots> \<le> 2 * D" using ab D by simp
  finally have "\<bar>A * (B\<^sup>2 - C)\<bar> \<le> 2 * D" .
  moreover have "\<bar>E\<bar> = \<bar>A * (B\<^sup>2 - C)\<bar> / D"
    using E Dpos by (simp add: abs_divide)
  ultimately have "\<bar>E\<bar> \<le> 2" using Dpos by (simp add: pos_divide_le_eq)
  then show ?thesis by linarith
qed


lemma ang_conv_root_range:
  assumes "-16 \<le> d" "d \<le> 45"
  shows "\<exists>root. ang_conv_root d = Inr root \<and> -1 \<le> root \<and> root \<le> 1"
proof -
  define A where "A = (l2 - l5 * cos (radians d)) / l3"
  define B where "B = -1 * (l1 + l5 * sin (radians d)) / l3"
  define C where "C = (l4 / l3)\<^sup>2 - 1"
  define D where "D = A\<^sup>2 + B\<^sup>2"
  define E where "E = A * (B\<^sup>2 - C) / D"
  define F where "F = (0.25 * (B\<^sup>2 - C)\<^sup>2 - B\<^sup>2) / D"
  define root where "root = (- E + sqrt (if E\<^sup>2 - 4 * F < 0 then 0 else E\<^sup>2 - 4 * F)) / 2"
  have s1: "- (3/8) \<le> sin (radians d)" using assms by (rule sin_range_bound)
  have s2: "sin (radians d) \<le> 1" by simp
  define x where "x = (l1 + l5 * sin (radians d)) / l3"
  have x1: "4 \<le> x" using s1 by (simp add: x_def l1_def l5_def l3_def)
  have x2: "x \<le> 7"
    by (simp add: x_def l1_def l5_def l3_def) (use s2 in linarith)
  have "B = - x" by (simp add: B_def x_def minus_divide_left)
  then have absB: "\<bar>B\<bar> = x" using x1 by simp
  have b1: "4 \<le> \<bar>B\<bar>" using absB x1 by simp
  have b2: "\<bar>B\<bar> \<le> 7" using absB x2 by simp
  have c: "21 \<le> C" "C \<le> 32"
    by (simp_all add: C_def l4_def l3_def power2_eq_square)
  have BS: "0 < B\<^sup>2" using b1 by auto
  have Dpos: "0 < D" using BS by (simp add: D_def add_nonneg_pos)
  have rng: "-1 \<le> root \<and> root \<le> 1"
  proof (cases "E\<^sup>2 - 4 * F < 0")
    case True
    then have "root = - E / 2" by (simp add: root_def)
    then show ?thesis
      using clamped_root_unit [OF b1 b2 c D_def E_def] by simp
  next
    case False
    then have "root = (- E + sqrt (E\<^sup>2 - 4 * F)) / 2" by (simp add: root_def)
    moreover from False have "0 \<le> E\<^sup>2 - 4 * F" by simp
    ultimately show ?thesis
      using quadratic_root_unit [OF BS D_def E_def F_def] by blast
  qed
  have "ang_conv_root d = Inr root"
    using Dpos
    unfolding ang_conv_root_def Let_def
      A_def [symmetric] B_def [symmetric] C_def [symmetric] D_def [symmetric]
      E_def [symmetric] F_def [symmetric] root_def [symmetric]
    by simp
  with rng show ?thesis by blast
qed

lemma ang_conv_total:
  assumes "-16 \<le> d" "d \<le> 45"
  shows "\<exists>beta. ang_conv d = Inr beta"
proof -
  obtain root where "ang_conv_root d = Inr root" "-1 \<le> root" "root \<le> 1"
    using ang_conv_root_range [OF assms] by blast
  then show ?thesis
    by (simp add: ang_conv_def math_acos_def Let_def)
qed

text \<open>
  C5. For every integer alpha from -16 to 45, with the linkage constants of
  \<open>Config.py\<close>, \<open>ang_conv\<close> raises nothing: the divisor \<open>D\<close> is not zero, the argument
  of \<open>math.acos\<close> (computed with a negative discriminant replaced by 0) lies in
  [-1, 1], and the call returns an integer beta. As a function of the model it is
  deterministic and without effect.
\<close>

theorem ang_conv_returns_beta:
  "\<forall>alpha \<in> {-16 .. 45 :: int}.
     (\<exists>root. ang_conv_root (of_int alpha) = Inr root \<and> -1 \<le> root \<and> root \<le> 1)
     \<and> (\<exists>beta. ang_conv (of_int alpha) = Inr beta)"
proof
  fix alpha :: int
  assume "alpha \<in> {-16 .. 45}"
  then have "-16 \<le> (of_int alpha :: real)" "(of_int alpha :: real) \<le> 45"
    by simp_all
  then show "(\<exists>root. ang_conv_root (of_int alpha) = Inr root \<and> -1 \<le> root \<and> root \<le> 1)
     \<and> (\<exists>beta. ang_conv (of_int alpha) = Inr beta)"
    using ang_conv_root_range ang_conv_total by blast
qed

theorem ang_conv_returns_beta_witness:
  "(0::int) \<in> {-16 .. 45}
   \<and> (\<exists>root. ang_conv_root (of_int 0) = Inr root \<and> -1 \<le> root \<and> root \<le> 1)
   \<and> (\<exists>beta. ang_conv (of_int 0) = Inr beta)"
  using bspec [OF ang_conv_returns_beta, of 0] by simp

section \<open>The maps after the first loop\<close>

lemma direct_alphas_snoc:
  "direct_alphas f (xs @ [a]) b =
     (if f a = b then direct_alphas f xs b @ [real_of_int a] else direct_alphas f xs b)"
  by (simp add: direct_alphas_def)

lemma record_alpha_populated:
  assumes "populated f xs m" and "conv (of_int a) = Inr (f a)"
  shows "\<exists>m'. record_alpha conv a m = Inr m' \<and> populated f (xs @ [a]) m'"
proof (cases "map_of (snd m) (f a)")
  case None
  then have e: "direct_alphas f xs (f a) = []"
    using assms(1) by (auto simp add: populated_def split: if_splits)
  have "record_alpha conv a m = Inr (AList.update a (f a) (fst m), AList.update (f a) [of_int a] (snd m))"
    using assms(2) None by (simp add: record_alpha_def)
  moreover have "populated f (xs @ [a]) (AList.update a (f a) (fst m), AList.update (f a) [of_int a] (snd m))"
    using assms(1) e
    by (auto simp add: populated_def update_conv' direct_alphas_snoc)
  ultimately show ?thesis by simp
next
  case (Some alphas)
  then have e: "direct_alphas f xs (f a) = alphas"
    using assms(1) by (auto simp add: populated_def split: if_splits)
  have "record_alpha conv a m =
      Inr (AList.update a (f a) (fst m), AList.update (f a) (alphas @ [of_int a]) (snd m))"
    using assms(2) Some by (simp add: record_alpha_def)
  moreover have "populated f (xs @ [a])
      (AList.update a (f a) (fst m), AList.update (f a) (alphas @ [of_int a]) (snd m))"
    using assms(1) e
    by (auto simp add: populated_def update_conv' direct_alphas_snoc)
  ultimately show ?thesis by simp
qed

lemma populate_maps_populated:
  assumes "populated f xs m" and "\<forall>a \<in> set ys. conv (of_int a) = Inr (f a)"
  shows "\<exists>m'. populate_maps conv ys m = Inr m' \<and> populated f (xs @ ys) m'"
  using assms
proof (induction ys arbitrary: xs m)
  case Nil
  then show ?case by simp
next
  case (Cons a ys)
  from Cons.prems obtain m1 where m1: "record_alpha conv a m = Inr m1" "populated f (xs @ [a]) m1"
    using record_alpha_populated [of f xs m conv a] by auto
  from Cons.IH [OF m1(2)] Cons.prems(2)
  obtain m' where "populate_maps conv ys m1 = Inr m'" "populated f ((xs @ [a]) @ ys) m'"
    by auto
  with m1 show ?case by simp
qed

lemma populated_empty: "populated f [] ([], [])"
  by (simp add: populated_def direct_alphas_def)


section \<open>The second loop\<close>



lemma weighted_alphas_nonempty:
  "la \<noteq> [] \<Longrightarrow> ha \<noteq> [] \<Longrightarrow> weighted_alphas L H b la ha \<noteq> []"
  by (cases la; cases ha) (simp_all add: weighted_alphas_def Let_def)

lemma direct_alphas_empty_iff: "direct_alphas f xs b = [] \<longleftrightarrow> b \<notin> f ` set xs"
  by (auto simp add: direct_alphas_def filter_empty_conv)

lemma direct_alphas_nonempty:
  "k \<in> f ` set xs \<Longrightarrow> direct_alphas f xs k \<noteq> []"
  by (simp add: direct_alphas_empty_iff)

lemma nearest_higher_skip:
  assumes "b \<notin> R"
  shows "nearest_higher R (b - 1) = nearest_higher R b"
proof -
  have "{r \<in> R. b - 1 < r} = {r \<in> R. b < r}"
    using assms by (auto simp add: order_less_le)
  then show ?thesis by (simp add: nearest_higher_def)
qed

lemma nearest_higher_in:
  assumes "finite R" "hi \<in> R" "b < hi"
  shows "nearest_higher R b \<in> R \<and> b < nearest_higher R b"
proof -
  have "finite {r \<in> R. b < r}" "{r \<in> R. b < r} \<noteq> {}" using assms by auto
  then have "Min {r \<in> R. b < r} \<in> {r \<in> R. b < r}" by (rule Min_in)
  then show ?thesis by (simp add: nearest_higher_def)
qed

lemma filled_below_keys:
  "filled_below f xs b m \<Longrightarrow> fst ` set m = f ` set xs \<union> {Min (f ` set xs) ..< b}"
  by (simp add: filled_below_def)

lemma filled_below_direct:
  "filled_below f xs b m \<Longrightarrow> k \<in> f ` set xs \<Longrightarrow> map_of m k = Some (direct_alphas f xs k)"
  unfolding filled_below_def by blast

lemma filled_below_chained:
  "filled_below f xs b m \<Longrightarrow> Min (f ` set xs) \<le> k \<Longrightarrow> k < b \<Longrightarrow> k \<notin> f ` set xs
     \<Longrightarrow> \<exists>la. map_of m (k - 1) = Some la \<and> la \<noteq> []
            \<and> map_of m k =
                Some (weighted_alphas (k - 1) (nearest_higher (f ` set xs) k) k la
                        (direct_alphas f xs (nearest_higher (f ` set xs) k)))"
  unfolding filled_below_def by blast

lemma filled_belowI:
  assumes "fst ` set m = f ` set xs \<union> {Min (f ` set xs) ..< b}"
    and "\<And>k. k \<in> f ` set xs \<Longrightarrow> map_of m k = Some (direct_alphas f xs k)"
    and "\<And>k. Min (f ` set xs) \<le> k \<Longrightarrow> k < b \<Longrightarrow> k \<notin> f ` set xs
           \<Longrightarrow> \<exists>la. map_of m (k - 1) = Some la \<and> la \<noteq> []
                  \<and> map_of m k =
                      Some (weighted_alphas (k - 1) (nearest_higher (f ` set xs) k) k la
                              (direct_alphas f xs (nearest_higher (f ` set xs) k)))"
  shows "filled_below f xs b m"
  unfolding filled_below_def using assms by blast

lemma fill_beta_present:
  assumes inv: "filled_below f xs b m" and b: "b \<in> f ` set xs"
  shows "fill_beta b m = Inr m \<and> filled_below f xs (b + 1) m"
proof -
  have "map_of m b = Some (direct_alphas f xs b)"
    using filled_below_direct [OF inv b] .
  then have "fill_beta b m = Inr m" by (simp add: fill_beta_def)
  moreover have "filled_below f xs (b + 1) m"
  proof (rule filled_belowI)
    show "fst ` set m = f ` set xs \<union> {Min (f ` set xs) ..< b + 1}"
      using filled_below_keys [OF inv] b by auto
  next
    fix k assume "k \<in> f ` set xs"
    then show "map_of m k = Some (direct_alphas f xs k)"
      using filled_below_direct [OF inv] by blast
  next
    fix k assume k: "Min (f ` set xs) \<le> k" "k < b + 1" "k \<notin> f ` set xs"
    with b have "k < b" by (cases "k = b") auto
    with k show "\<exists>la. map_of m (k - 1) = Some la \<and> la \<noteq> []
                  \<and> map_of m k =
                      Some (weighted_alphas (k - 1) (nearest_higher (f ` set xs) k) k la
                              (direct_alphas f xs (nearest_higher (f ` set xs) k)))"
      using filled_below_chained [OF inv] by blast
  qed
  ultimately show ?thesis by simp
qed

lemma in_set_nonempty: "x \<in> set l \<Longrightarrow> l \<noteq> []"
  by (cases l) simp_all

text \<open>A beta with no alpha: the nearest lower key of the dict is \<open>b - 1\<close>, a real key or
  the beta filled one step before; the nearest higher key is a real one.\<close>

lemma fill_beta_absent:
  assumes xs: "xs \<noteq> []"
    and inv: "filled_below f xs b m"
    and nb: "b \<notin> f ` set xs"
    and lo: "Min (f ` set xs) \<le> b" and hi: "b \<le> Max (f ` set xs)"
  shows "\<exists>m'. fill_beta b m = Inr m' \<and> filled_below f xs (b + 1) m'"
proof -
  define R where "R = f ` set xs"
  have fin: "finite R" and ne: "R \<noteq> {}" using xs by (simp_all add: R_def)
  have loR: "Min R \<in> R" and hiR: "Max R \<in> R" using fin ne by simp_all
  have lob: "Min R < b" using lo nb loR by (cases "Min R = b") (auto simp add: R_def)
  have bhi: "b < Max R" using hi nb hiR by (cases "Max R = b") (auto simp add: R_def)
  have keys: "set (map fst m) = R \<union> {Min R ..< b}"
    using filled_below_keys [OF inv] by (simp add: R_def)
  have absent: "map_of m b = None"
    using keys nb by (simp add: map_of_eq_None_iff R_def)
  have lows: "set (filter (\<lambda>k. k < b) (map fst m)) = {k \<in> R \<union> {Min R ..< b}. k < b}"
    using keys by auto
  have lows_ne: "filter (\<lambda>k. k < b) (map fst m) \<noteq> []"
  proof -
    have "b - 1 \<in> set (filter (\<lambda>k. k < b) (map fst m))"
      unfolding lows using lob by auto
    then show ?thesis by (rule in_set_nonempty)
  qed
  have lower: "Max (set (filter (\<lambda>k. k < b) (map fst m))) = b - 1"
    unfolding lows using fin lob by (intro Max_eqI) auto
  have highs: "set (filter (\<lambda>k. b < k) (map fst m)) = {r \<in> R. b < r}"
    using keys by auto
  have highs_ne: "filter (\<lambda>k. b < k) (map fst m) \<noteq> []"
  proof -
    have "Max R \<in> set (filter (\<lambda>k. b < k) (map fst m))"
      unfolding highs using hiR bhi by simp
    then show ?thesis by (rule in_set_nonempty)
  qed
  have higher: "Min (set (filter (\<lambda>k. b < k) (map fst m))) = nearest_higher R b"
    unfolding highs by (simp add: nearest_higher_def)
  have H: "nearest_higher R b \<in> R" "b < nearest_higher R b"
    using nearest_higher_in [OF fin hiR bhi] by simp_all
  have mH: "map_of m (nearest_higher R b) = Some (direct_alphas f xs (nearest_higher R b))"
    using filled_below_direct [OF inv] H(1) by (simp add: R_def)
  have dH: "direct_alphas f xs (nearest_higher R b) \<noteq> []"
    using H(1) by (simp add: R_def direct_alphas_nonempty)
  have "\<exists>la. map_of m (b - 1) = Some la \<and> la \<noteq> []"
  proof (cases "b - 1 \<in> R")
    case True
    then have "map_of m (b - 1) = Some (direct_alphas f xs (b - 1))"
      using filled_below_direct [OF inv] by (simp add: R_def)
    moreover have "direct_alphas f xs (b - 1) \<noteq> []"
      using True by (simp add: R_def direct_alphas_nonempty)
    ultimately show ?thesis by simp
  next
    case False
    have lo1: "Min R \<le> b - 1" using lob by simp
    obtain la' where la': "la' \<noteq> []"
      "map_of m (b - 1) =
         Some (weighted_alphas (b - 1 - 1) (nearest_higher R (b - 1)) (b - 1) la'
                 (direct_alphas f xs (nearest_higher R (b - 1))))"
      using filled_below_chained [OF inv, of "b - 1"] lo1 False by (auto simp add: R_def)
    have "nearest_higher R (b - 1) = nearest_higher R b"
      using nearest_higher_skip [of b R] nb by (simp add: R_def)
    then have "direct_alphas f xs (nearest_higher R (b - 1)) \<noteq> []" using dH by simp
    then show ?thesis using la' weighted_alphas_nonempty by blast
  qed
  then obtain la where la: "map_of m (b - 1) = Some la" "la \<noteq> []" by blast
  define w where "w = weighted_alphas (b - 1) (nearest_higher R b) b la
                         (direct_alphas f xs (nearest_higher R b))"
  have nz: "nearest_higher R b - (b - 1) \<noteq> 0" using H(2) by simp
  have res: "fill_beta b m = Inr (AList.update b w m)"
    unfolding fill_beta_def Let_def w_def
    using absent lows_ne highs_ne lower higher la mH nz
    by simp
  have "filled_below f xs (b + 1) (AList.update b w m)"
  proof (rule filled_belowI)
    show "fst ` set (AList.update b w m) = f ` set xs \<union> {Min (f ` set xs) ..< b + 1}"
      using keys lob by (auto simp add: dom_update R_def)
  next
    fix k assume "k \<in> f ` set xs"
    then show "map_of (AList.update b w m) k = Some (direct_alphas f xs k)"
      using filled_below_direct [OF inv, of k] nb by (auto simp add: update_conv')
  next
    fix k assume k: "Min (f ` set xs) \<le> k" "k < b + 1" "k \<notin> f ` set xs"
    show "\<exists>la. map_of (AList.update b w m) (k - 1) = Some la \<and> la \<noteq> []
            \<and> map_of (AList.update b w m) k =
                Some (weighted_alphas (k - 1) (nearest_higher (f ` set xs) k) k la
                        (direct_alphas f xs (nearest_higher (f ` set xs) k)))"
    proof (cases "k = b")
      case True
      then show ?thesis using la by (simp add: update_conv' w_def R_def)
    next
      case False
      with k have "k < b" by simp
      with k False show ?thesis
        using filled_below_chained [OF inv, of k] by (simp add: update_conv')
    qed
  qed
  with res show ?thesis by blast
qed

lemma fill_beta_step:
  assumes "xs \<noteq> []" "filled_below f xs b m"
    and "Min (f ` set xs) \<le> b" "b \<le> Max (f ` set xs)"
  shows "\<exists>m'. fill_beta b m = Inr m' \<and> filled_below f xs (b + 1) m'"
proof (cases "b \<in> f ` set xs")
  case True
  then show ?thesis using fill_beta_present [OF assms(2)] by blast
next
  case False
  then show ?thesis using fill_beta_absent [OF assms(1,2) False assms(3,4)] by blast
qed

lemma interpolate_missing_filled:
  assumes "xs \<noteq> []" "filled_below f xs b m"
    and "Min (f ` set xs) \<le> b" "b \<le> Max (f ` set xs) + 1"
  shows "\<exists>m'. interpolate_missing [b .. Max (f ` set xs)] m = Inr m'
              \<and> filled_below f xs (Max (f ` set xs) + 1) m'"
  using assms(2-4)
proof (induction "nat (Max (f ` set xs) + 1 - b)" arbitrary: b m)
  case 0
  then have "b = Max (f ` set xs) + 1" by simp
  with 0 show ?case by simp
next
  case (Suc n)
  then have le: "b \<le> Max (f ` set xs)" by simp
  obtain m1 where m1: "fill_beta b m = Inr m1" "filled_below f xs (b + 1) m1"
    using fill_beta_step [OF assms(1) Suc.prems(1,2) le] by blast
  have "n = nat (Max (f ` set xs) + 1 - (b + 1))" using Suc.hyps(2) by simp
  from Suc.hyps(1) [OF this m1(2)] Suc.prems le
  obtain m' where "interpolate_missing [b + 1 .. Max (f ` set xs)] m1 = Inr m'"
    "filled_below f xs (Max (f ` set xs) + 1) m'"
    by auto
  moreover have "[b .. Max (f ` set xs)] = b # [b + 1 .. Max (f ` set xs)]"
    using le by (simp add: upto.simps)
  ultimately show ?case using m1 by simp
qed

lemma populated_filled:
  assumes "populated f xs m"
  shows "filled_below f xs (Min (f ` set xs)) (snd m)"
proof (rule filled_belowI)
  have "fst ` set (snd m) = dom (map_of (snd m))" by (simp add: dom_map_of_conv_image_fst)
  also have "\<dots> = f ` set xs"
    using assms by (auto simp add: populated_def direct_alphas_empty_iff dom_def)
  finally show "fst ` set (snd m) = f ` set xs \<union> {Min (f ` set xs) ..< Min (f ` set xs)}"
    by simp
next
  fix k assume "k \<in> f ` set xs"
  then show "map_of (snd m) k = Some (direct_alphas f xs k)"
    using assms by (simp add: populated_def direct_alphas_empty_iff)
next
  fix k assume "Min (f ` set xs) \<le> k" "k < Min (f ` set xs)"
  then show "\<exists>la. map_of (snd m) (k - 1) = Some la \<and> la \<noteq> []
            \<and> map_of (snd m) k =
                Some (weighted_alphas (k - 1) (nearest_higher (f ` set xs) k) k la
                        (direct_alphas f xs (nearest_higher (f ` set xs) k)))"
    by simp
qed

lemma alpha_range_set: "set alpha_range = {-16 .. 45}"
  unfolding alpha_range_def by (rule set_upto)

lemma alpha_range_nonempty: "alpha_range \<noteq> []"
proof -
  have "(0::int) \<in> set alpha_range" unfolding alpha_range_set by simp
  then show ?thesis by (rule in_set_nonempty)
qed

lemma alpha_beta_maps_with_result:
  assumes "\<forall>a \<in> {-16 .. 45 :: int}. conv (of_int a) = Inr (f a)"
  shows "\<exists>a2b b2a. alpha_beta_maps_with conv = Inr (a2b, b2a)
           \<and> (\<forall>a. map_of a2b a = (if a \<in> {-16 .. 45} then Some (f a) else None))
           \<and> filled_below f alpha_range (Max (f ` {-16 .. 45}) + 1) b2a"
proof -
  note ne = alpha_range_nonempty
  have cv: "\<forall>a \<in> set alpha_range. conv (of_int a) = Inr (f a)"
    using assms by (simp only: alpha_range_set)
  obtain m where m: "populate_maps conv alpha_range ([], []) = Inr m"
    "populated f alpha_range m"
    using populate_maps_populated [OF populated_empty cv] by auto
  have f0: "filled_below f alpha_range (Min (f ` set alpha_range)) (snd m)"
    using populated_filled [OF m(2)] .
  have keys: "set (map fst (snd m)) = f ` set alpha_range"
    using filled_below_keys [OF f0] by simp
  then have kne: "map fst (snd m) \<noteq> []" using ne by (metis image_is_empty set_empty)
  have "Min (f ` set alpha_range) \<le> Max (f ` set alpha_range)"
    using ne by simp
  then have "Min (f ` set alpha_range) \<le> Max (f ` set alpha_range) + 1" by simp
  from interpolate_missing_filled [OF ne f0 order_refl this]
  obtain m' where m': "interpolate_missing
      [Min (f ` set alpha_range) .. Max (f ` set alpha_range)] (snd m) = Inr m'"
    "filled_below f alpha_range (Max (f ` set alpha_range) + 1) m'"
    by blast
  have "alpha_beta_maps_with conv = Inr (fst m, m')"
    unfolding alpha_beta_maps_with_def Let_def using m(1) kne m'(1)
    by (simp add: filled_below_keys [OF f0])
  moreover have "\<forall>a. map_of (fst m) a = (if a \<in> {-16 .. 45} then Some (f a) else None)"
    using m(2) by (simp add: populated_def alpha_range_set)
  ultimately show ?thesis using m'(2) by (simp add: alpha_range_set)
qed


lemma ang_conv_beta_of:
  "\<forall>a \<in> {-16 .. 45 :: int}. ang_conv (of_int a) = Inr (beta_of a)"
proof
  fix a :: int
  assume "a \<in> {-16 .. 45}"
  then have "-16 \<le> (of_int a :: real)" "(of_int a :: real) \<le> 45" by simp_all
  then obtain b where "ang_conv (of_int a) = Inr b" using ang_conv_total by blast
  then show "ang_conv (of_int a) = Inr (beta_of a)" by (simp add: beta_of_def)
qed

lemma alpha_beta_maps_result:
  "\<exists>a2b b2a. alpha_beta_maps = Inr (a2b, b2a)
     \<and> (\<forall>a. map_of a2b a = (if a \<in> {-16 .. 45} then Some (beta_of a) else None))
     \<and> filled_below beta_of alpha_range (Max (beta_of ` {-16 .. 45}) + 1) b2a"
  unfolding alpha_beta_maps_def
  by (rule alpha_beta_maps_with_result [OF ang_conv_beta_of])

lemma direct_alphas_member:
  "a \<in> set xs \<Longrightarrow> real_of_int a \<in> set (direct_alphas f xs (f a))"
  by (simp add: direct_alphas_def)

section \<open>Round trip through the two maps\<close>

text \<open>
  C1. \<open>alpha_beta_maps()\<close> returns, and for every integer alpha from -16 to 45 the
  forward map has an entry \<open>beta\<close> for alpha and the list of the inverse map at
  \<open>beta\<close> holds alpha.
\<close>

theorem alpha_round_trip:
  "\<forall>alpha \<in> {-16 .. 45 :: int}.
     \<exists>a2b b2a beta alphas. alpha_beta_maps = Inr (a2b, b2a)
       \<and> map_of a2b alpha = Some beta
       \<and> map_of b2a beta = Some alphas
       \<and> real_of_int alpha \<in> set alphas"
proof
  fix alpha :: int
  assume a: "alpha \<in> {-16 .. 45}"
  obtain a2b b2a where r: "alpha_beta_maps = Inr (a2b, b2a)"
    "\<forall>a. map_of a2b a = (if a \<in> {-16 .. 45} then Some (beta_of a) else None)"
    "filled_below beta_of alpha_range (Max (beta_of ` {-16 .. 45}) + 1) b2a"
    using alpha_beta_maps_result by blast
  have "map_of a2b alpha = Some (beta_of alpha)" using r(2) a by simp
  moreover have "beta_of alpha \<in> beta_of ` set alpha_range"
    using a by (simp add: alpha_range_set)
  then have "map_of b2a (beta_of alpha) = Some (direct_alphas beta_of alpha_range (beta_of alpha))"
    using filled_below_direct [OF r(3)] by blast
  moreover have "real_of_int alpha \<in> set (direct_alphas beta_of alpha_range (beta_of alpha))"
    using a by (intro direct_alphas_member) (simp add: alpha_range_set)
  ultimately show "\<exists>a2b b2a beta alphas. alpha_beta_maps = Inr (a2b, b2a)
       \<and> map_of a2b alpha = Some beta
       \<and> map_of b2a beta = Some alphas
       \<and> real_of_int alpha \<in> set alphas"
    using r(1) by blast
qed

theorem alpha_round_trip_witness:
  "(0::int) \<in> {-16 .. 45}
   \<and> (\<exists>a2b b2a beta alphas. alpha_beta_maps = Inr (a2b, b2a)
       \<and> map_of a2b 0 = Some beta
       \<and> map_of b2a beta = Some alphas
       \<and> real_of_int 0 \<in> set alphas)"
  using bspec [OF alpha_round_trip, of 0] by simp

section \<open>The inverse map has no gaps\<close>




section \<open>Aim\_side\<close>

lemma Aim_side_loop_in_band:
  assumes "LEFT_AIM \<le> xc" "xc \<le> RIGHT_AIM" "0 < timeout"
  shows "Aim_side_loop env xc timeout u s = Some (Inr (True, emit (Print ''Roll Aim success!'') s))"
  using assms by (subst Aim_side_loop.simps) simp

lemma Aim_side_loop_first_pulse:
  assumes "xc < LEFT_AIM \<or> RIGHT_AIM < xc" "0 < timeout"
  shows "Aim_side_loop env xc timeout u s = Some (Inl AttributeError)"
  using assms
  by (subst Aim_side_loop.simps)
    (simp add: observe_def print_dove_def Config_sys_stderr_def Let_def)

text \<open>
  C9. If the \<open>x_center\<close> that \<open>Aim_side\<close> reads lies in the dead band
  \<open>[LEFT_AIM, RIGHT_AIM]\<close>, the call returns True at once: its only effects are the one
  read of the tracker and the line it prints, with no roll command and no sleep. Nothing
  is assumed of the presence flag or of the y history.
\<close>

theorem Aim_side_in_band:
  assumes "LEFT_AIM \<le> x_center (env (reads s))" "x_center (env (reads s)) \<le> RIGHT_AIM"
  shows "Aim_side env s =
     Some (Inr (True, s\<lparr>events := events s @ [Print ''Roll Aim success!''],
                          reads := reads s + 1\<rparr>))"
  using assms
  by (simp add: Aim_side_def observe_def get_center_def Aim_side_loop_in_band TIMEOUT_S_def
      emit_def)

theorem Aim_side_in_band_witness:
  "LEFT_AIM \<le> x_center (Dove_fields False 320) \<and> x_center (Dove_fields False 320) \<le> RIGHT_AIM
   \<and> is_dove (Dove_fields False 320) = False
   \<and> snd (get_center (Dove_fields False 320)) = None
   \<and> Aim_side (\<lambda>t. Dove_fields False 320) servo0 =
       Some (Inr (True, servo0\<lparr>events := [Print ''Roll Aim success!''], reads := 1\<rparr>))"
proof -
  have b: "LEFT_AIM \<le> x_center (Dove_fields False 320)"
    "x_center (Dove_fields False 320) \<le> RIGHT_AIM"
    by (simp_all add: Dove_fields_def LEFT_AIM_def RIGHT_AIM_def)
  have n: "finite_samples (replicate k NaN) = []" for k
    by (induction k) simp_all
  have "snd (get_center (Dove_fields False 320)) = None"
    by (simp add: get_center_def s_median_def Dove_fields_def n)
  moreover have "is_dove (Dove_fields False 320) = False"
    by (simp add: is_dove_def Dove_fields_def)
  moreover have "events servo0 = []" "reads servo0 = 0" by (simp_all add: servo0_def)
  ultimately show ?thesis
    using b Aim_side_in_band [of "\<lambda>t. Dove_fields False 320" servo0, OF b]
    by simp
qed


text \<open>
  C3. A target that is present and left of the dead band at every read: the first
  iteration of the loop of \<open>Aim_side\<close> calls \<open>dove.print_dove()\<close>, whose second
  \<open>print\<close> evaluates \<open>Config.sys.stderr\<close>, and the call ends with AttributeError
  instead of returning False when the budget is used up.
\<close>

theorem Aim_side_out_of_band_raises:
  "Aim_side (\<lambda>t. Dove_fields True 0) servo0 = Some (Inl AttributeError)"
proof -
  have "x_center (Dove_fields True 0) < LEFT_AIM"
    by (simp add: Dove_fields_def LEFT_AIM_def)
  then show ?thesis
    by (simp add: Aim_side_def observe_def get_center_def Aim_side_loop_first_pulse
        TIMEOUT_S_def)
qed

section \<open>Aim\_pitch\<close>

lemma waited_only_refl: "waited_only s s"
  by (auto simp add: waited_only_def intro: exI [of _ 0])

lemma waited_only_read: "waited_only s s' \<Longrightarrow> waited_only s (s'\<lparr>reads := Suc (reads s')\<rparr>)"
  by (auto simp add: waited_only_def)

lemma waited_only_sleep:
  "waited_only s (emit (Sleep ROLL_TIME_AIM) (s\<lparr>reads := reads s + 1\<rparr>))"
  by (auto simp add: waited_only_def emit_def intro: exI [of _ 1])

lemma waited_only_trans:
  assumes "waited_only s s'" "waited_only s' s''"
  shows "waited_only s s''"
proof -
  obtain n where n: "events s' = events s @ replicate n (Sleep ROLL_TIME_AIM)"
    using assms(1) by (auto simp add: waited_only_def)
  obtain k where k: "events s'' = events s' @ replicate k (Sleep ROLL_TIME_AIM)"
    using assms(2) by (auto simp add: waited_only_def)
  have "events s'' = events s @ replicate (n + k) (Sleep ROLL_TIME_AIM)"
    using n k by (simp add: replicate_add)
  then show ?thesis using assms by (auto simp add: waited_only_def)
qed

lemma reacquire_waited_only:
  assumes "reacquire env u s = Some r"
  shows "waited_only s (snd r)"
proof (rule reacquire.raw_induct [where P = "\<lambda>env u s r. waited_only s (snd r)", OF _ assms])
  fix f :: "(nat \<Rightarrow> dove) \<Rightarrow> real \<Rightarrow> servo \<Rightarrow> (real \<times> servo) option"
    and env u s r
  assume IH: "\<And>e u s r. f e u s = Some r \<Longrightarrow> waited_only s (snd r)"
    and body: "(if 0 < u then
        (case observe env s of
           (d, s1) \<Rightarrow>
             if is_dove d then Some (u, s1)
             else f env (fsub u ROLL_TIME_AIM) (emit (Sleep ROLL_TIME_AIM) s1))
      else Some (u, s)) = Some r"
  show "waited_only s (snd r)"
  proof (cases "0 < u")
    case False
    with body show ?thesis by (auto simp add: waited_only_refl)
  next
    case True
    show ?thesis
    proof (cases "is_dove (env (reads s))")
      case present: True
      with True body show ?thesis
        by (auto simp add: observe_def waited_only_read waited_only_refl)
    next
      case absent: False
      with True body
      have "f env (fsub u ROLL_TIME_AIM)
              (emit (Sleep ROLL_TIME_AIM) (s\<lparr>reads := reads s + 1\<rparr>)) = Some r"
        by (simp add: observe_def)
      then have "waited_only (emit (Sleep ROLL_TIME_AIM) (s\<lparr>reads := reads s + 1\<rparr>)) (snd r)"
        by (rule IH)
      then show ?thesis using waited_only_sleep waited_only_trans by blast
    qed
  qed
qed

lemma lost_check_waited_only:
  assumes "lost_check env u s = Some (False, s1)"
  shows "waited_only s s1"
proof (cases "is_dove (env (reads s))")
  case True
  then have "s1 = s\<lparr>reads := reads s + 1\<rparr>"
    using assms by (simp add: lost_check_def observe_def)
  then show ?thesis by (simp add: waited_only_read waited_only_refl)
next
  case False
  then obtain r where r: "reacquire env u (s\<lparr>reads := reads s + 1\<rparr>) = Some r"
    and s1: "s1 = (snd r)\<lparr>reads := reads (snd r) + 1\<rparr>"
    using assms
    by (auto simp add: lost_check_def observe_def Option.bind_eq_Some_conv emit_def
        split: if_splits prod.splits)
  have "waited_only s (s\<lparr>reads := reads s + 1\<rparr>)"
    by (simp add: waited_only_read waited_only_refl)
  moreover have "waited_only (s\<lparr>reads := reads s + 1\<rparr>) (snd r)"
    using reacquire_waited_only [OF r] .
  moreover have "waited_only (snd r) s1"
    unfolding s1 by (simp add: waited_only_read waited_only_refl)
  ultimately show ?thesis using waited_only_trans by blast
qed

lemma Aim_pitch_loop_step:
  assumes y: "y < TOP_AIM \<or> y > BOTTOM_AIM" and t: "0 < timeout"
    and present: "lost_check env u s = Some (False, s1)"
    and lo: "map_of (alpha_to_beta_map s1) (-16) = Some lo"
    and hi: "map_of (alpha_to_beta_map s1) 45 = Some hi"
    and p: "p = pitch_deg s1 + (if y < TOP_AIM then 1 else -1)"
  shows "Aim_pitch_loop env (Some y) timeout u s =
     (if p < lo \<or> hi < p
      then Some (Inr (False, s1\<lparr>pitch_deg := p,
                              events := events s1 @ [Print ''not in pitch range'']\<rparr>))
      else Aim_pitch_loop env (snd (get_center (env (reads s1))))
             (fsub timeout ROLL_TIME_AIM) 5
             (s1\<lparr>pitch_deg := p,
                 events := events s1 @ [PitchDuty (deg_to_duty (of_int p)), Sleep ROLL_TIME_AIM],
                 reads := reads s1 + 1\<rparr>))"
  using assms
  by (subst Aim_pitch_loop.simps) (auto simp add: Let_def emit_def observe_def)

lemma Aim_pitch_loop_timeout:
  assumes "timeout \<le> 0"
  shows "Aim_pitch_loop env yc timeout u s =
     Some (Inr (False, s\<lparr>events := events s @ [Print ''Aim Failed!'']\<rparr>))"
  using assms by (subst Aim_pitch_loop.simps) (simp add: emit_def)


text \<open>
  One iteration of the loop of \<open>Aim_pitch\<close> that reaches the step with a number for the
  median (\<open>y\<close> outside \<open>[TOP_AIM, BOTTOM_AIM]\<close>, budget left, and the target present or
  seen again within the grace period, which only reads and sleeps): the pitch becomes
  \<open>p\<close>, the old pitch plus one when \<open>y < TOP_AIM\<close> and minus one otherwise. If \<open>p\<close> is
  outside \<open>[alpha_to_beta_map[-16], alpha_to_beta_map[45]]\<close> the call returns False at
  once, having printed \<open>not in pitch range\<close> and sent no duty cycle; otherwise it sends
  the duty cycle of \<open>p\<close>, sleeps and goes on with the next iteration. A used-up budget
  also returns False, but after printing \<open>Aim Failed!\<close>.
\<close>

lemma Aim_pitch_tick:
  assumes y: "y < TOP_AIM \<or> BOTTOM_AIM < y"
    and t: "0 < timeout"
    and present: "lost_check env u s = Some (False, s1)"
    and lo: "map_of (alpha_to_beta_map s) (-16) = Some lo"
    and hi: "map_of (alpha_to_beta_map s) 45 = Some hi"
  shows "\<exists>p. p = pitch_deg s + (if y < TOP_AIM then 1 else - 1)
     \<and> \<bar>p - pitch_deg s\<bar> = 1
     \<and> (\<exists>n. events s1 = events s @ replicate n (Sleep ROLL_TIME_AIM))
     \<and> (if p < lo \<or> hi < p
        then Aim_pitch_loop env (Some y) timeout u s =
             Some (Inr (False, s1\<lparr>pitch_deg := p,
                                    events := events s1 @ [Print ''not in pitch range'']\<rparr>))
        else Aim_pitch_loop env (Some y) timeout u s =
             Aim_pitch_loop env (snd (get_center (env (reads s1))))
               (fsub timeout ROLL_TIME_AIM) 5
               (s1\<lparr>pitch_deg := p,
                   events := events s1 @ [PitchDuty (deg_to_duty (of_int p)), Sleep ROLL_TIME_AIM],
                   reads := reads s1 + 1\<rparr>))
     \<and> Aim_pitch_loop env (Some y) 0 u s =
         Some (Inr (False, s\<lparr>events := events s @ [Print ''Aim Failed!'']\<rparr>))"
proof -
  have w: "waited_only s s1" using lost_check_waited_only [OF present] .
  then have lo1: "map_of (alpha_to_beta_map s1) (-16) = Some lo"
    and hi1: "map_of (alpha_to_beta_map s1) 45 = Some hi"
    and p1: "pitch_deg s1 = pitch_deg s"
    and ev: "\<exists>n. events s1 = events s @ replicate n (Sleep ROLL_TIME_AIM)"
    using lo hi by (simp_all add: waited_only_def)
  define p where "p = pitch_deg s + (if y < TOP_AIM then 1 else - 1)"
  have p': "p = pitch_deg s1 + (if y < TOP_AIM then 1 else - 1)"
    by (simp add: p_def p1)
  have one: "\<bar>p - pitch_deg s\<bar> = 1" by (simp add: p_def)
  have y': "y < TOP_AIM \<or> y > BOTTOM_AIM" using y by simp
  note step = Aim_pitch_loop_step [OF y' t present lo1 hi1 p']
  have tmo: "Aim_pitch_loop env (Some y) 0 u s =
         Some (Inr (False, s\<lparr>events := events s @ [Print ''Aim Failed!'']\<rparr>))"
    by (rule Aim_pitch_loop_timeout) simp
  show ?thesis
    by (rule exI [of _ p]) (use one ev step tmo in \<open>simp add: p_def\<close>)
qed

lemma map_of_zip_upto:
  "i \<le> k \<Longrightarrow> k \<le> j \<Longrightarrow> nat (k - i) < length ys
     \<Longrightarrow> map_of (zip [i..j] ys) k = Some (ys ! nat (k - i))"
proof (induction "nat (k - i)" arbitrary: i ys)
  case 0
  then have "k = i" by simp
  moreover obtain y ys' where "ys = y # ys'" using 0 by (cases ys) auto
  moreover have "[i..j] = i # [i + 1..j]" using 0 by (simp add: upto_rec1)
  ultimately show ?case by simp
next
  case (Suc n)
  then have lt: "i < k" by simp
  obtain y ys' where ys: "ys = y # ys'" using Suc by (cases ys) auto
  have up: "[i..j] = i # [i + 1..j]" using Suc lt by (simp add: upto_rec1)
  have n: "n = nat (k - (i + 1))" using Suc(2) by simp
  have "nat (k - (i + 1)) < length ys'" using Suc(2,5) ys by simp
  from Suc(1) [OF n _ Suc(4) this] lt
  have "map_of (zip [i + 1..j] ys') k = Some (ys' ! nat (k - (i + 1)))" by simp
  moreover have "nat (k - i) = Suc (nat (k - (i + 1)))" using lt by simp
  ultimately show ?case using lt by (simp add: up ys)
qed

lemma length_beta_table: "length beta_table = 62"
  by (simp add: beta_table_def)

lemma servo0_forward:
  assumes "-16 \<le> k" "k \<le> 45"
  shows "map_of (alpha_to_beta_map servo0) k = Some (beta_table ! nat (k + 16))"
  using assms map_of_zip_upto [of "-16" k 45 beta_table]
  by (simp add: servo0_def alpha_range_def length_beta_table)

lemma Aim_pitch_tick_example:
  "(100 < TOP_AIM \<or> BOTTOM_AIM < 100) \<and> (0::real) < 15
   \<and> lost_check (\<lambda>t. Dove_fields True 0) 5 (servo0\<lparr>pitch_deg := 176\<rparr>)
        = Some (False, servo0\<lparr>pitch_deg := 176, reads := 1\<rparr>)
   \<and> map_of (alpha_to_beta_map (servo0\<lparr>pitch_deg := 176\<rparr>)) (-16) = Some 20
   \<and> map_of (alpha_to_beta_map (servo0\<lparr>pitch_deg := 176\<rparr>)) 45 = Some 176
   \<and> Aim_pitch_loop (\<lambda>t. Dove_fields True 0) (Some 100) 15 5 (servo0\<lparr>pitch_deg := 176\<rparr>) =
        Some (Inr (False, servo0\<lparr>pitch_deg := 177,
                                 events := [Print ''not in pitch range''], reads := 1\<rparr>))"
proof -
  have y: "100 < TOP_AIM \<or> BOTTOM_AIM < 100" by (simp add: TOP_AIM_def)
  have t: "(0::real) < 15" by simp
  have present: "lost_check (\<lambda>t. Dove_fields True 0) 5 (servo0\<lparr>pitch_deg := 176\<rparr>)
        = Some (False, servo0\<lparr>pitch_deg := 176, reads := 1\<rparr>)"
    by (simp add: lost_check_def observe_def is_dove_def Dove_fields_def servo0_def)
  have lo: "map_of (alpha_to_beta_map (servo0\<lparr>pitch_deg := 176\<rparr>)) (-16) = Some 20"
    and hi: "map_of (alpha_to_beta_map (servo0\<lparr>pitch_deg := 176\<rparr>)) 45 = Some 176"
    by (simp_all add: servo0_forward) (simp_all add: beta_table_def)
  have e: "events (servo0\<lparr>pitch_deg := 176\<rparr>) = []" "reads (servo0\<lparr>pitch_deg := 176\<rparr>) = 0"
    "pitch_deg (servo0\<lparr>pitch_deg := 176\<rparr>) = 176" "events servo0 = []"
    by (simp_all add: servo0_def)
  show ?thesis
    using Aim_pitch_tick [OF y t present lo hi] y present lo hi
    by (simp add: TOP_AIM_def e)
qed

section \<open>The ballistic correction\<close>

lemma pi_ge_three: "3 \<le> pi"
proof -
  have "sin (pi / 6) \<le> pi / 6" by (rule sin_x_le_x) simp
  then show ?thesis by (simp add: sin_30)
qed

lemma py_round_near: "\<bar>real_of_int (py_round y) - y\<bar> \<le> 1 / 2"
proof -
  have "real_of_int \<lfloor>y\<rfloor> \<le> y" "y < real_of_int \<lfloor>y\<rfloor> + 1" by linarith+
  then show ?thesis by (auto simp add: py_round_def Let_def)
qed

text \<open>Rounding to binary64 moves a number by at most half a unit in the last place.\<close>

lemma fl64_near: "\<bar>fl64 x - x\<bar> \<le> \<bar>x\<bar> / 2 ^ 53"
proof (cases "x = 0")
  case True
  then show ?thesis by (simp add: fl64_def)
next
  case False
  define e where "e = \<lfloor>log 2 \<bar>x\<bar>\<rfloor>"
  define ulp :: real where "ulp = 2 powr (of_int e - 52)"
  have up: "0 < ulp" by (simp add: ulp_def)
  have fl: "fl64 x = of_int (py_round (x / ulp)) * ulp"
    using False by (simp add: fl64_def Let_def e_def ulp_def)
  have "2 powr (of_int e) \<le> 2 powr (log 2 \<bar>x\<bar>)"
    unfolding e_def by (intro powr_mono) simp_all
  also have "\<dots> = \<bar>x\<bar>" using False by simp
  finally have pe: "2 powr (of_int e) \<le> \<bar>x\<bar>" .
  have "ulp = 2 powr (of_int e) / 2 ^ 52"
    by (simp add: ulp_def powr_diff powr_realpow [symmetric])
  then have ul: "ulp \<le> \<bar>x\<bar> / 2 ^ 52" using pe by (simp add: divide_right_mono)
  have "fl64 x - x = (of_int (py_round (x / ulp)) - x / ulp) * ulp"
    using up by (simp add: fl field_simps)
  then have "\<bar>fl64 x - x\<bar> = \<bar>of_int (py_round (x / ulp)) - x / ulp\<bar> * ulp"
    using up by (simp add: abs_mult)
  also have "\<dots> \<le> 1 / 2 * ulp"
    using py_round_near [of "x / ulp"] up by (intro mult_right_mono) simp_all
  also have "\<dots> \<le> 1 / 2 * (\<bar>x\<bar> / 2 ^ 52)" using ul by simp
  also have "\<dots> = \<bar>x\<bar> / 2 ^ 53" by simp
  finally show ?thesis .
qed

lemma fl64_between:
  assumes "0 \<le> a" "a \<le> x" "x \<le> b"
  shows "a * (999999 / 1000000) \<le> fl64 x" "fl64 x \<le> b * (1000001 / 1000000)"
proof -
  have x0: "0 \<le> x" using assms by simp
  have n: "\<bar>fl64 x - x\<bar> \<le> x / 2 ^ 53" using fl64_near [of x] x0 by simp
  have "x / 2 ^ 53 \<le> x / 1000000" using x0 by (intro divide_left_mono) simp_all
  with n have d: "x - x / 1000000 \<le> fl64 x" "fl64 x \<le> x + x / 1000000"
    by linarith+
  have "a * (999999 / 1000000) \<le> x - x / 1000000" using assms by simp
  with d(1) show "a * (999999 / 1000000) \<le> fl64 x" by linarith
  have "x + x / 1000000 \<le> b * (1000001 / 1000000)" using assms by simp
  with d(2) show "fl64 x \<le> b * (1000001 / 1000000)" by linarith
qed

lemma radians64_fov_bounds:
  "139 / 500 \<le> radians64 FOV_deg" "radians64 FOV_deg \<le> 19 / 50"
proof -
  have p: "3 \<le> pi" "pi \<le> 4" using pi_ge_three pi_less_4 by simp_all
  have c0: "2999997 / 1000000 \<le> fl64 pi" "fl64 pi \<le> 4000004 / 1000000"
    using fl64_between [of 3 pi 4] p by simp_all
  have q: "2999997 / 180000000 \<le> fl64 pi / 180" "fl64 pi / 180 \<le> 4000004 / 180000000"
    using c0 by simp_all
  define c where "c = fl64 (fl64 pi / 180)"
  have c: "16666 / 1000000 \<le> c" "c \<le> 2223 / 100000"
    using fl64_between [OF _ q] by (simp_all add: c_def)
  have m: "167 / 10 * (16666 / 1000000) \<le> 167 / 10 * c"
    "167 / 10 * c \<le> 167 / 10 * (2223 / 100000)"
    using c by simp_all
  have r: "radians64 FOV_deg = fl64 (167 / 10 * c)"
    by (simp add: radians64_def FOV_deg_def c_def)
  show "139 / 500 \<le> radians64 FOV_deg" unfolding r using fl64_between [OF _ m] by simp
  show "radians64 FOV_deg \<le> 19 / 50" unfolding r using fl64_between [OF _ m] by simp
qed

lemma half_fov_bounds:
  "139 / 1000 \<le> radians64 FOV_deg / 2" "radians64 FOV_deg / 2 \<le> 19 / 100"
  using radians64_fov_bounds by simp_all

lemma fact_three: "fact 3 = (6::real)"
  by (simp add: fact_numeral)

lemma sin_series_three: "(\<Sum>m<3. sin_coeff m * x ^ m) = (x::real)"
  by (simp add: numeral_3_eq_3 sin_coeff_def)

lemma sin_lower_cubic:
  fixes x :: real
  assumes "0 \<le> x"
  shows "x - x ^ 3 / 6 \<le> sin x"
proof -
  have ax: "\<bar>x\<bar> = x" using assms by simp
  have "\<bar>sin x - (\<Sum>m<3. sin_coeff m * x ^ m)\<bar> \<le> inverse (fact 3) * \<bar>x\<bar> ^ 3"
    by (rule Maclaurin_sin_bound)
  then have "\<bar>sin x - x\<bar> \<le> inverse 6 * x ^ 3"
    by (simp only: sin_series_three fact_three ax)
  then have "\<bar>sin x - x\<bar> \<le> x ^ 3 / 6"
    by (simp add: field_simps)
  then show ?thesis by linarith
qed

lemma tan_half_fov_lower: "1 / 8 \<le> tan (radians64 FOV_deg / 2)"
proof -
  define x where "x = radians64 FOV_deg / 2"
  have lo: "139 / 1000 \<le> x" and hi: "x \<le> 19 / 100"
    using half_fov_bounds by (simp_all add: x_def)
  have x0: "0 < x" using lo by simp
  have xpi: "x < pi / 2" using hi pi_ge_three by simp
  have "x ^ 3 \<le> (19 / 100) ^ 3" using hi x0 by (intro power_mono) simp_all
  then have "x - x ^ 3 / 6 \<ge> 139 / 1000 - (19 / 100) ^ 3 / 6" using lo by linarith
  moreover have "(1::real) / 8 \<le> 139 / 1000 - (19 / 100) ^ 3 / 6"
    by (simp add: power3_eq_cube)
  ultimately have s: "1 / 8 \<le> sin x" using sin_lower_cubic [of x] x0 by simp
  have c: "0 < cos x" using x0 xpi by (simp add: cos_gt_zero)
  have "sin x * cos x \<le> sin x * 1"
    using s cos_le_one [of x] by (intro mult_left_mono) simp_all
  then have "sin x \<le> sin x / cos x"
    using c by (simp add: pos_le_divide_eq)
  then have "1 / 8 \<le> sin x / cos x" using s by linarith
  then have "1 / 8 \<le> tan x" by (simp only: tan_def)
  then show ?thesis by (simp only: x_def)
qed

lemma tan_half_fov_pos: "0 < tan (radians64 FOV_deg / 2)"
  using tan_half_fov_lower by simp


lemma tan_half_fov_upper: "tan (radians64 FOV_deg / 2) \<le> 1"
proof -
  have "radians64 FOV_deg / 2 \<le> pi / 4"
    using half_fov_bounds(2) pi_ge_three by simp
  moreover have "- (pi / 2) < radians64 FOV_deg / 2"
    using half_fov_bounds(1) pi_ge_three by simp
  ultimately have "tan (radians64 FOV_deg / 2) \<le> tan (pi / 4)"
    using pi_ge_three by (intro tan_mono_le) simp_all
  then show ?thesis by (simp add: tan_45)
qed

lemma ballistic_D_eq: "ballistic_D OB = 36 / (OB * tan (radians64 FOV_deg / 2))"
  by (simp add: ballistic_D_def Let_def REAL_DOVE_HEIGHT_def HEIGHT_PIXEL_def)

lemma ballistic_E_eq:
  "ballistic_E OB = 981 * 72 / (5408 * (OB * tan (radians64 FOV_deg / 2)))"
  by (simp add: ballistic_E_def ballistic_D_eq GRAVITY_CONSTANT_def INITIAL_V_def
      power2_eq_square)

lemma ballistic_D_bounds:
  assumes "0 < OB"
  shows "36 / OB \<le> ballistic_D OB" "ballistic_D OB \<le> 288 / OB"
proof -
  define t where "t = tan (radians64 FOV_deg / 2)"
  have t: "1 / 8 \<le> t" "t \<le> 1" using tan_half_fov_lower tan_half_fov_upper by (simp_all add: t_def)
  then have tp: "0 < t" by simp
  have p: "0 < OB * t" using assms tp by simp
  have "OB * t \<le> OB" using assms t(2) by simp
  then have "36 / OB \<le> 36 / (OB * t)" using p by (intro divide_left_mono) simp_all
  then show "36 / OB \<le> ballistic_D OB" by (simp add: ballistic_D_eq t_def)
  have "OB / 8 \<le> OB * t" using assms t(1) by simp
  then have "36 / (OB * t) \<le> 36 / (OB / 8)" using assms p by (intro divide_left_mono) simp_all
  then show "ballistic_D OB \<le> 288 / OB" by (simp add: ballistic_D_eq t_def)
qed

lemma ballistic_E_D: "ballistic_E OB = 981 / 2704 * ballistic_D OB"
  by (simp add: ballistic_E_def GRAVITY_CONSTANT_def INITIAL_V_def power2_eq_square)

lemma ballistic_E_large_target: "0 < ballistic_E 200 \<and> ballistic_E 200 \<le> 1"
proof -
  have "36 / 200 \<le> ballistic_D 200" "ballistic_D 200 \<le> 288 / 200"
    using ballistic_D_bounds [of 200] by simp_all
  then show ?thesis by (simp add: ballistic_E_D)
qed

lemma ballistic_E_small_target: "13 \<le> ballistic_E 1 \<and> ballistic_E 1 \<le> 105"
proof -
  have "36 / 1 \<le> ballistic_D 1" "ballistic_D 1 \<le> 288 / 1"
    using ballistic_D_bounds [of 1] by simp_all
  then show ?thesis by (simp add: ballistic_E_D)
qed

lemma level_shot_angle:
  assumes "0 < E" "E \<le> 1"
  shows "0 \<le> degrees (arctan ((1 - sqrt (1 - E\<^sup>2)) / E))"
    and "degrees (arctan ((1 - sqrt (1 - E\<^sup>2)) / E)) \<le> 45"
proof -
  have e2: "E\<^sup>2 \<le> 1" using assms by (simp add: power_le_one)
  have s1: "sqrt (1 - E\<^sup>2) \<le> 1" using e2 by simp
  have "(1 - E)\<^sup>2 \<le> 1 - E\<^sup>2"
  proof -
    have "1 - E\<^sup>2 - (1 - E)\<^sup>2 = 2 * E * (1 - E)" by (simp add: power2_eq_square algebra_simps)
    moreover have "0 \<le> 2 * E * (1 - E)" using assms by simp
    ultimately show ?thesis by linarith
  qed
  then have s2: "1 - E \<le> sqrt (1 - E\<^sup>2)" by (rule real_le_rsqrt)
  have r0: "0 \<le> (1 - sqrt (1 - E\<^sup>2)) / E" using s1 assms by simp
  have r1: "(1 - sqrt (1 - E\<^sup>2)) / E \<le> 1" using s2 assms by (simp add: divide_le_eq)
  have "0 \<le> arctan ((1 - sqrt (1 - E\<^sup>2)) / E)" using r0 by simp
  then show "0 \<le> degrees (arctan ((1 - sqrt (1 - E\<^sup>2)) / E))"
    by (simp add: degrees_def)
  have "arctan ((1 - sqrt (1 - E\<^sup>2)) / E) \<le> arctan 1" using r1 by (simp only: arctan_le_iff)
  then have "arctan ((1 - sqrt (1 - E\<^sup>2)) / E) \<le> pi / 4" by (simp only: arctan_one)
  then show "degrees (arctan ((1 - sqrt (1 - E\<^sup>2)) / E)) \<le> 45"
    by (simp add: degrees_def field_simps)
qed

lemma level_shot_large_target:
  "ballistic_dis 0 200 \<ge> 0 \<and> 0 \<le> ballistic_real_alpha 0 200 \<and> ballistic_real_alpha 0 200 \<le> 45"
proof -
  note e = ballistic_E_large_target
  have "(ballistic_E 200)\<^sup>2 \<le> 1" using e by (simp add: power_le_one)
  then have d: "ballistic_dis 0 200 \<ge> 0" by (simp add: ballistic_dis_def)
  have "ballistic_real_alpha 0 200
      = degrees (arctan ((1 - sqrt (1 - (ballistic_E 200)\<^sup>2)) / ballistic_E 200))"
    by (simp add: ballistic_real_alpha_def ballistic_dis_def)
  with d level_shot_angle [of "ballistic_E 200"] e show ?thesis by simp
qed

lemma radians64_zero: "radians64 0 = 0"
  by (simp add: radians64_def fl64_def)

text \<open>A level shot at a target 200 pixels high returns the solved angle.\<close>

lemma real_alpha_calc_balistics_large_target:
  "real_alpha_calc_balistics [0] 200 = Inr (Fin (ballistic_real_alpha 0 200))"
proof -
  define t where "t = tan (radians64 FOV_deg / 2)"
  have t: "1 / 8 \<le> t" "t \<le> 1" using tan_half_fov_lower tan_half_fov_upper by (simp_all add: t_def)
  have "50 \<le> 2 * 200 * t" using t(1) by simp
  then have "50 \<le> \<bar>2 * 200 * t\<bar>" by simp
  moreover have "(1::real) / 2 ^ 1075 < 50" by simp
  ultimately have u1: "\<not> underflows (2 * 200 * t)"
    unfolding underflows_def by linarith
  have o1: "\<not> overflows (2 * 200)" by (simp add: overflows_def)
  have D: "36 / 200 \<le> ballistic_D 200" "ballistic_D 200 \<le> 288 / 200"
    using ballistic_D_bounds [of 200] by simp_all
  then have "\<bar>GRAVITY_CONSTANT * ballistic_D 200\<bar> \<le> 100"
    by (simp add: GRAVITY_CONSTANT_def abs_mult)
  moreover have "(100::real) < 2 ^ 1024 - 2 ^ 970" by simp
  ultimately have o2: "\<not> overflows (GRAVITY_CONSTANT * ballistic_D 200)"
    unfolding overflows_def by linarith
  note e = ballistic_E_large_target
  have "(ballistic_E 200)\<^sup>2 \<le> 1" using e by (simp add: power_le_one)
  then have "\<bar>(ballistic_E 200)\<^sup>2\<bar> \<le> 1" by simp
  moreover have "(1::real) < 2 ^ 1024 - 2 ^ 970" by simp
  ultimately have o3: "\<not> overflows ((ballistic_E 200)\<^sup>2)"
    unfolding overflows_def by linarith
  have "1 / 100 \<le> ballistic_E 200" using D(1) by (simp add: ballistic_E_D)
  then have "1 / 100 \<le> \<bar>ballistic_E 200\<bar>" by simp
  moreover have "(1::real) / 2 ^ 1075 < 1 / 100" by simp
  ultimately have u2: "\<not> underflows (ballistic_E 200)"
    unfolding underflows_def by linarith
  note l = level_shot_large_target
  have d: "\<not> ballistic_dis 0 200 < 0" using l by simp
  have a: "\<not> 45 < ballistic_real_alpha 0 200" using l by simp
  show ?thesis
    using u1 o1 o2 o3 u2 d a
    by (simp add: real_alpha_calc_balistics_def Let_def radians64_zero t_def)
qed

text \<open>A level shot at a target one pixel high is too far: NaN.\<close>

lemma real_alpha_calc_balistics_small_target:
  "real_alpha_calc_balistics [0] 1 = Inr NaN"
proof -
  define t where "t = tan (radians64 FOV_deg / 2)"
  have t: "1 / 8 \<le> t" "t \<le> 1" using tan_half_fov_lower tan_half_fov_upper by (simp_all add: t_def)
  have "1 / 4 \<le> \<bar>2 * 1 * t\<bar>" using t(1) by simp
  moreover have "(1::real) / 2 ^ 1075 < 1 / 4" by simp
  ultimately have u1: "\<not> underflows (2 * 1 * t)"
    unfolding underflows_def by linarith
  have o1: "\<not> overflows (2 * 1)" by (simp add: overflows_def)
  have D: "36 / 1 \<le> ballistic_D 1" "ballistic_D 1 \<le> 288 / 1"
    using ballistic_D_bounds [of 1] by simp_all
  then have "\<bar>GRAVITY_CONSTANT * ballistic_D 1\<bar> \<le> 10000"
    by (simp add: GRAVITY_CONSTANT_def abs_mult)
  moreover have "(10000::real) < 2 ^ 1024 - 2 ^ 970" by simp
  ultimately have o2: "\<not> overflows (GRAVITY_CONSTANT * ballistic_D 1)"
    unfolding overflows_def by linarith
  note e = ballistic_E_small_target
  have "(ballistic_E 1)\<^sup>2 \<le> 105\<^sup>2" using e by (intro power_mono) simp_all
  then have "\<bar>(ballistic_E 1)\<^sup>2\<bar> \<le> 105\<^sup>2" by simp
  moreover have "(105::real)\<^sup>2 < 2 ^ 1024 - 2 ^ 970" by simp
  ultimately have o3: "\<not> overflows ((ballistic_E 1)\<^sup>2)"
    unfolding overflows_def by linarith
  have "13\<^sup>2 \<le> (ballistic_E 1)\<^sup>2" using e by (intro power_mono) simp_all
  then have d: "ballistic_dis 0 1 < 0" by (simp add: ballistic_dis_def)
  show ?thesis
    using u1 o1 o2 o3 d
    by (simp add: real_alpha_calc_balistics_def Let_def radians64_zero t_def)
qed

text \<open>A level shot at a target of \<open>2 ^ -665\<close> pixels (about \<open>6.5e-201\<close>): the square of
  line 65 overflows before the discriminant is tested.\<close>

lemma real_alpha_calc_balistics_tiny_target:
  "real_alpha_calc_balistics [0] (1 / 2 ^ 665) = Inl OverflowError"
proof -
  define t where "t = tan (radians64 FOV_deg / 2)"
  define OB :: real where "OB = 1 / 2 ^ 665"
  have OB: "0 < OB" by (simp add: OB_def)
  have t: "1 / 8 \<le> t" "t \<le> 1" using tan_half_fov_lower tan_half_fov_upper by (simp_all add: t_def)
  have "2 * OB * (1 / 8) \<le> 2 * OB * t" using t(1) OB by (intro mult_left_mono) simp_all
  then have "OB / 4 \<le> \<bar>2 * OB * t\<bar>" by simp
  moreover have "(1::real) / 2 ^ 1075 < OB / 4" by (simp add: OB_def)
  ultimately have u1: "\<not> underflows (2 * OB * t)"
    unfolding underflows_def by linarith
  have o1: "\<not> overflows (2 * OB)" by (simp add: overflows_def OB_def)
  have D: "36 / OB \<le> ballistic_D OB" "ballistic_D OB \<le> 288 / OB"
    using ballistic_D_bounds [OF OB] by simp_all
  have "0 \<le> ballistic_D OB" using D(1) OB by (meson divide_nonneg_pos order_trans zero_le_numeral less_imp_le)
  then have "\<bar>GRAVITY_CONSTANT * ballistic_D OB\<bar> \<le> 10 * (288 / OB)"
    using D(2) by (simp add: GRAVITY_CONSTANT_def abs_mult)
  moreover have "10 * (288 / OB) < 2 ^ 1024 - 2 ^ 970" by (simp add: OB_def)
  ultimately have o2: "\<not> overflows (GRAVITY_CONSTANT * ballistic_D OB)"
    unfolding overflows_def by linarith
  have "981 / 2704 * (36 / OB) \<le> ballistic_E OB"
    using D(1) by (simp add: ballistic_E_D)
  moreover have "(2::real) ^ 668 \<le> 981 / 2704 * (36 / OB)" by (simp add: OB_def)
  ultimately have e: "2 ^ 668 \<le> ballistic_E OB" by linarith
  have "(2 ^ 668)\<^sup>2 \<le> (ballistic_E OB)\<^sup>2" using e by (intro power_mono) simp_all
  moreover have "(2::real) ^ 1024 - 2 ^ 970 \<le> (2 ^ 668)\<^sup>2" by simp
  ultimately have "2 ^ 1024 - 2 ^ 970 \<le> \<bar>(ballistic_E OB)\<^sup>2\<bar>" by simp
  then have o3: "overflows ((ballistic_E OB)\<^sup>2)" by (simp only: overflows_def)
  have "real_alpha_calc_balistics [0] OB = Inl OverflowError"
    using u1 o1 o2 o3
    by (simp add: real_alpha_calc_balistics_def Let_def radians64_zero t_def)
  then show ?thesis by (simp only: OB_def)
qed

text \<open>A level shot at a target of \<open>2 ^ -1040\<close> pixels, a subnormal float: \<open>D\<close> and
  \<open>E\<close> are infinities and NaN is returned.\<close>

lemma real_alpha_calc_balistics_subnormal_target:
  "real_alpha_calc_balistics [0] (1 / 2 ^ 1040) = Inr NaN"
proof -
  define t where "t = tan (radians64 FOV_deg / 2)"
  define OB :: real where "OB = 1 / 2 ^ 1040"
  have OB: "0 < OB" by (simp add: OB_def)
  have t: "1 / 8 \<le> t" "t \<le> 1" using tan_half_fov_lower tan_half_fov_upper by (simp_all add: t_def)
  have "2 * OB * (1 / 8) \<le> 2 * OB * t" using t(1) OB by (intro mult_left_mono) simp_all
  then have "OB / 4 \<le> \<bar>2 * OB * t\<bar>" by simp
  moreover have "(1::real) / 2 ^ 1075 < OB / 4" by (simp add: OB_def)
  ultimately have u1: "\<not> underflows (2 * OB * t)"
    unfolding underflows_def by linarith
  have o1: "\<not> overflows (2 * OB)" by (simp add: overflows_def OB_def)
  have D: "36 / OB \<le> ballistic_D OB" using ballistic_D_bounds [OF OB] by simp
  have "(2::real) ^ 1024 \<le> 36 / OB" by (simp add: OB_def)
  with D have "2 ^ 1024 \<le> ballistic_D OB" by linarith
  then have "2 ^ 1024 - 2 ^ 970 \<le> \<bar>GRAVITY_CONSTANT * ballistic_D OB\<bar>"
    by (simp add: GRAVITY_CONSTANT_def abs_mult)
  then have o2: "overflows (GRAVITY_CONSTANT * ballistic_D OB)" by (simp only: overflows_def)
  have "real_alpha_calc_balistics [0] OB = Inr NaN"
    using u1 o1 o2
    by (simp add: real_alpha_calc_balistics_def Let_def t_def)
  then show ?thesis by (simp only: OB_def)
qed

text \<open>A level shot at a target of \<open>2 ^ 1023\<close> pixels: \<open>2 * OB\<close> is an infinity,
  \<open>E\<close> is 0.0 and line 70 divides by it.\<close>

lemma real_alpha_calc_balistics_huge_target:
  "real_alpha_calc_balistics [0] (2 ^ 1023) = Inl ZeroDivisionError"
proof -
  define t where "t = tan (radians64 FOV_deg / 2)"
  have t: "1 / 8 \<le> t" using tan_half_fov_lower by (simp add: t_def)
  have "2 * 2 ^ 1023 * (1 / 8) \<le> 2 * 2 ^ 1023 * t" using t by (intro mult_left_mono) simp_all
  then have "1 \<le> \<bar>2 * 2 ^ 1023 * t\<bar>" by simp
  moreover have "(1::real) / 2 ^ 1075 < 1" by simp
  ultimately have u1: "\<not> underflows (2 * 2 ^ 1023 * t)"
    unfolding underflows_def by linarith
  have o1: "overflows (2 * 2 ^ 1023)" by (simp add: overflows_def)
  show ?thesis
    using u1 o1 by (simp add: real_alpha_calc_balistics_def Let_def t_def)
qed



section \<open>final\_pitch\_aim\<close>

lemma py_round_lower: "real_of_int n \<le> x \<Longrightarrow> n \<le> py_round x"
proof -
  assume "real_of_int n \<le> x"
  then have "n \<le> \<lfloor>x\<rfloor>" by (simp add: le_floor_iff)
  then show ?thesis by (simp add: py_round_def Let_def)
qed

lemma py_round_upper: "x \<le> real_of_int n \<Longrightarrow> py_round x \<le> n"
proof -
  assume x: "x \<le> real_of_int n"
  then have f: "\<lfloor>x\<rfloor> \<le> n" by (simp add: floor_le_iff)
  show ?thesis
  proof (cases "\<lfloor>x\<rfloor> = n")
    case True
    then have "x = real_of_int n" using x by (metis of_int_floor_le order_antisym)
    then show ?thesis by (simp add: py_round_def Let_def)
  next
    case False
    with f have "\<lfloor>x\<rfloor> + 1 \<le> n" by simp
    then show ?thesis by (simp add: py_round_def Let_def)
  qed
qed

lemma final_pitch_aim_never_True:
  "final_pitch_aim h s \<noteq> Inr (PyBool True, s')"
  by (simp add: final_pitch_aim_def Let_def split: option.splits sum.splits fnum.splits)

lemma final_pitch_aim_success:
  assumes "map_of (beta_to_alpha_map s) (pitch_deg s) = Some naive_alpha"
    and "real_alpha_calc_balistics naive_alpha h = Inr (Fin real_alpha)"
    and "map_of (alpha_to_beta_map s) (py_round real_alpha) = Some beta"
  shows "final_pitch_aim h s =
     Inr (PyNone, s\<lparr>pitch_deg := beta,
                        events := events s @ [PitchDuty (deg_to_duty (of_int beta))]\<rparr>)"
  using assms by (simp add: final_pitch_aim_def Let_def emit_def)

text \<open>
  C7. On a call whose ballistic correction succeeds (pitch 65, naive angle 0, a target
  200 pixels high), \<open>final_pitch_aim\<close> commands the corrected angle and falls off its
  end: it returns None, not True.
\<close>

theorem final_pitch_aim_returns_None:
  "\<exists>beta. final_pitch_aim 200 servo0 =
     Inr (PyNone, servo0\<lparr>pitch_deg := beta,
                             events := [PitchDuty (deg_to_duty (of_int beta))]\<rparr>)"
proof -
  obtain r where r: "real_alpha_calc_balistics [0] 200 = Inr (Fin r)" "0 \<le> r" "r \<le> 45"
    using real_alpha_calc_balistics_large_target level_shot_large_target by blast
  have k: "-16 \<le> py_round r" "py_round r \<le> 45"
    using py_round_lower [of 0 r] py_round_upper [of r 45] r by simp_all
  have m: "map_of (beta_to_alpha_map servo0) (pitch_deg servo0) = Some [0]"
    by (simp add: servo0_def PITCH_DEG_DOWN_def)
  have "final_pitch_aim 200 servo0 =
     Inr (PyNone, servo0\<lparr>pitch_deg := beta_table ! nat (py_round r + 16),
            events := events servo0
              @ [PitchDuty (deg_to_duty (of_int (beta_table ! nat (py_round r + 16))))]\<rparr>)"
    by (rule final_pitch_aim_success [OF m r(1) servo0_forward [OF k]])
  moreover have "events servo0 = []" by (simp add: servo0_def)
  ultimately show ?thesis by auto
qed

section \<open>Some beta between the ends has no alpha\<close>












section \<open>Aim\_pitch with no median\<close>

lemma Aim_pitch_loop_None_raises:
  assumes "0 < timeout" "lost_check env u s = Some (False, s1)"
  shows "Aim_pitch_loop env None timeout u s = Some (Inl TypeError)"
  using assms by (subst Aim_pitch_loop.simps) simp

lemma replicate_ten: "replicate 10 x = x # replicate 9 x"
  by (simp add: numeral_eq_Suc)

lemma update_dove_first_sample:
  "update_dove True 0 (Fin 100) (Fin 5) (Dove_fields False 0) =
     Inr \<lparr> is_valid = True, x_center = 0,
           y_center = Fin 100 # replicate 9 NaN,
           height = Fin 5 # replicate 9 NaN,
           index = 1 \<rparr>"
  by (simp add: update_dove_def Dove_fields_def FRAME_TO_PITCH_def Let_def replicate_ten)

lemma finite_samples_replicate_NaN: "finite_samples (replicate n NaN) = []"
  by (induction n) simp_all

lemma target_back_later:
  "0 < t \<Longrightarrow> target_back t =
     \<lparr> is_valid = True, x_center = 0,
       y_center = Fin 100 # replicate 9 NaN,
       height = Fin 5 # replicate 9 NaN,
       index = 1 \<rparr>"
  by (simp add: target_back_def update_dove_first_sample)

text \<open>
  C8. \<open>Aim_pitch\<close> on a target that comes back. At the first read the tracker has no
  sample yet (the fields the constructor assigns for an absent target: every slot NaN, so
  \<open>get_center\<close> gives None for the median); from the second read on it is the tracker
  after one \<open>update_dove(True, 0, 100, 5)\<close>, present and with median 100. The loop is
  entered on the missing median, the target is found present, and line 175 compares None
  with \<open>TOP_AIM\<close>: the call ends with TypeError. The pitch is not stepped, no angle is
  commanded and no failure is returned.
\<close>

theorem Aim_pitch_target_back_raises:
  "update_dove True 0 (Fin 100) (Fin 5) (target_back 0) = Inr (target_back 1)
   \<and> get_center (target_back 0) = (0, None)
   \<and> is_dove (target_back 1)
   \<and> get_center (target_back 1) = (0, Some 100)
   \<and> Aim_pitch target_back servo0 = Some (Inl TypeError)"
proof -
  have t0: "target_back 0 = Dove_fields False 0" by (simp add: target_back_def)
  have t1: "target_back 1 =
     \<lparr> is_valid = True, x_center = 0,
       y_center = Fin 100 # replicate 9 NaN,
       height = Fin 5 # replicate 9 NaN,
       index = 1 \<rparr>"
    by (rule target_back_later) simp
  have u: "update_dove True 0 (Fin 100) (Fin 5) (target_back 0) = Inr (target_back 1)"
    by (simp only: t0 t1 update_dove_first_sample)
  have c0: "get_center (target_back 0) = (0, None)"
    by (simp add: t0 get_center_def Dove_fields_def s_median_def finite_samples_replicate_NaN)
  have v: "is_dove (target_back 1)" by (simp add: is_dove_def target_back_later)
  have c1: "get_center (target_back 1) = (0, Some 100)"
    by (simp add: get_center_def target_back_later s_median_def finite_samples_replicate_NaN
        np_median_def)
  have r0: "reads servo0 = 0" by (simp add: servo0_def)
  have first: "observe target_back servo0 = (target_back 0, servo0\<lparr>reads := 1\<rparr>)"
    by (simp add: observe_def r0)
  have present: "lost_check target_back 5 (servo0\<lparr>reads := 1\<rparr>)
      = Some (False, servo0\<lparr>reads := 2\<rparr>)"
    by (simp add: lost_check_def observe_def is_dove_def target_back_later)
  have "Aim_pitch_loop target_back None TIMEOUT_S 5 (servo0\<lparr>reads := 1\<rparr>)
      = Some (Inl TypeError)"
    by (rule Aim_pitch_loop_None_raises [OF _ present]) (simp add: TIMEOUT_S_def)
  then have "Aim_pitch target_back servo0 = Some (Inl TypeError)"
    by (simp add: Aim_pitch_def first c0)
  then show ?thesis using u c0 v c1 by simp
qed

section \<open>The budgets in binary64\<close>

lemma fl64_scaled:
  fixes x :: real and n :: nat
  assumes "2 ^ 52 \<le> \<bar>x\<bar> * 2 ^ n" "\<bar>x\<bar> * 2 ^ n < 2 ^ 53"
  shows "fl64 x = real_of_int (py_round (x * 2 ^ n)) / 2 ^ n"
proof -
  have x0: "x \<noteq> 0" using assms(1) by auto
  have pos: "0 < \<bar>x\<bar>" using x0 by simp
  have l1: "2 powr (52 - real n) \<le> \<bar>x\<bar>"
  proof -
    have "2 powr (52 - real n) = 2 ^ 52 / 2 ^ n"
      by (simp add: powr_diff powr_realpow)
    also have "\<dots> \<le> \<bar>x\<bar>" using assms(1) by (simp add: divide_le_eq)
    finally show ?thesis .
  qed
  have l2: "\<bar>x\<bar> < 2 powr (53 - real n)"
  proof -
    have "\<bar>x\<bar> < 2 ^ 53 / 2 ^ n" using assms(2) by (simp add: less_divide_eq)
    also have "\<dots> = 2 powr (53 - real n)"
      by (simp add: powr_diff powr_realpow)
    finally show ?thesis .
  qed
  have "52 - real n \<le> log 2 \<bar>x\<bar>" using l1 pos by (simp add: le_log_iff)
  moreover have "log 2 \<bar>x\<bar> < 53 - real n" using l2 pos by (simp add: log_less_iff)
  ultimately have "\<lfloor>log 2 \<bar>x\<bar>\<rfloor> = 52 - int n"
    by (intro floor_unique) simp_all
  moreover have "2 powr (real_of_int (52 - int n) - 52) = 1 / 2 ^ n"
    by (simp add: powr_minus powr_realpow divide_inverse)
  ultimately show ?thesis using x0 by (simp add: fl64_def Let_def)
qed

lemma ROLL_TIME_AIM_value: "ROLL_TIME_AIM = 3602879701896397 / 36028797018963968"
  unfolding ROLL_TIME_AIM_def
  by (subst fl64_scaled [where n = 56]) (simp_all add: py_round_def Let_def)

text \<open>The grace period of 5 seconds lasts 51 polls.\<close>

lemma budget_ticks_grace: "budget_ticks 5 = Some 51"
proof -
  note r = fsub_def ROLL_TIME_AIM_value
  note e = py_round_def Let_def
  have s0: "fsub (5) ROLL_TIME_AIM = 2758454771764429 / 562949953421312"
    unfolding r by (subst fl64_scaled [where n = 50]) (simp_all add: e)
  have s1: "fsub (2758454771764429 / 562949953421312) ROLL_TIME_AIM = 1351079888211149 / 281474976710656"
    unfolding r by (subst fl64_scaled [where n = 50]) (simp_all add: e)
  have s2: "fsub (1351079888211149 / 281474976710656) ROLL_TIME_AIM = 2645864781080167 / 562949953421312"
    unfolding r by (subst fl64_scaled [where n = 50]) (simp_all add: e)
  have s3: "fsub (2645864781080167 / 562949953421312) ROLL_TIME_AIM = 647392446434509 / 140737488355328"
    unfolding r by (subst fl64_scaled [where n = 50]) (simp_all add: e)
  have s4: "fsub (647392446434509 / 140737488355328) ROLL_TIME_AIM = 2533274790395905 / 562949953421312"
    unfolding r by (subst fl64_scaled [where n = 50]) (simp_all add: e)
  have s5: "fsub (2533274790395905 / 562949953421312) ROLL_TIME_AIM = 1238489897526887 / 281474976710656"
    unfolding r by (subst fl64_scaled [where n = 50]) (simp_all add: e)
  have s6: "fsub (1238489897526887 / 281474976710656) ROLL_TIME_AIM = 2420684799711643 / 562949953421312"
    unfolding r by (subst fl64_scaled [where n = 50]) (simp_all add: e)
  have s7: "fsub (2420684799711643 / 562949953421312) ROLL_TIME_AIM = 295548725546189 / 70368744177664"
    unfolding r by (subst fl64_scaled [where n = 50]) (simp_all add: e)
  have s8: "fsub (295548725546189 / 70368744177664) ROLL_TIME_AIM = 2308094809027381 / 562949953421312"
    unfolding r by (subst fl64_scaled [where n = 50]) (simp_all add: e)
  have s9: "fsub (2308094809027381 / 562949953421312) ROLL_TIME_AIM = 1125899906842625 / 281474976710656"
    unfolding r by (subst fl64_scaled [where n = 50]) (simp_all add: e)
  have s10: "fsub (1125899906842625 / 281474976710656) ROLL_TIME_AIM = 8782019273372475 / 2251799813685248"
    unfolding r by (subst fl64_scaled [where n = 51]) (simp_all add: e)
  have s11: "fsub (8782019273372475 / 2251799813685248) ROLL_TIME_AIM = 4278419646001975 / 1125899906842624"
    unfolding r by (subst fl64_scaled [where n = 51]) (simp_all add: e)
  have s12: "fsub (4278419646001975 / 1125899906842624) ROLL_TIME_AIM = 8331659310635425 / 2251799813685248"
    unfolding r by (subst fl64_scaled [where n = 51]) (simp_all add: e)
  have s13: "fsub (8331659310635425 / 2251799813685248) ROLL_TIME_AIM = 2026619832316725 / 562949953421312"
    unfolding r by (subst fl64_scaled [where n = 51]) (simp_all add: e)
  have s14: "fsub (2026619832316725 / 562949953421312) ROLL_TIME_AIM = 7881299347898375 / 2251799813685248"
    unfolding r by (subst fl64_scaled [where n = 51]) (simp_all add: e)
  have s15: "fsub (7881299347898375 / 2251799813685248) ROLL_TIME_AIM = 3828059683264925 / 1125899906842624"
    unfolding r by (subst fl64_scaled [where n = 51]) (simp_all add: e)
  have s16: "fsub (3828059683264925 / 1125899906842624) ROLL_TIME_AIM = 7430939385161325 / 2251799813685248"
    unfolding r by (subst fl64_scaled [where n = 51]) (simp_all add: e)
  have s17: "fsub (7430939385161325 / 2251799813685248) ROLL_TIME_AIM = 225179981368525 / 70368744177664"
    unfolding r by (subst fl64_scaled [where n = 51]) (simp_all add: e)
  have s18: "fsub (225179981368525 / 70368744177664) ROLL_TIME_AIM = 6980579422424275 / 2251799813685248"
    unfolding r by (subst fl64_scaled [where n = 51]) (simp_all add: e)
  have s19: "fsub (6980579422424275 / 2251799813685248) ROLL_TIME_AIM = 3377699720527875 / 1125899906842624"
    unfolding r by (subst fl64_scaled [where n = 51]) (simp_all add: e)
  have s20: "fsub (3377699720527875 / 1125899906842624) ROLL_TIME_AIM = 6530219459687225 / 2251799813685248"
    unfolding r by (subst fl64_scaled [where n = 51]) (simp_all add: e)
  have s21: "fsub (6530219459687225 / 2251799813685248) ROLL_TIME_AIM = 1576259869579675 / 562949953421312"
    unfolding r by (subst fl64_scaled [where n = 51]) (simp_all add: e)
  have s22: "fsub (1576259869579675 / 562949953421312) ROLL_TIME_AIM = 6079859496950175 / 2251799813685248"
    unfolding r by (subst fl64_scaled [where n = 51]) (simp_all add: e)
  have s23: "fsub (6079859496950175 / 2251799813685248) ROLL_TIME_AIM = 2927339757790825 / 1125899906842624"
    unfolding r by (subst fl64_scaled [where n = 51]) (simp_all add: e)
  have s24: "fsub (2927339757790825 / 1125899906842624) ROLL_TIME_AIM = 5629499534213125 / 2251799813685248"
    unfolding r by (subst fl64_scaled [where n = 51]) (simp_all add: e)
  have s25: "fsub (5629499534213125 / 2251799813685248) ROLL_TIME_AIM = 675539944105575 / 281474976710656"
    unfolding r by (subst fl64_scaled [where n = 51]) (simp_all add: e)
  have s26: "fsub (675539944105575 / 281474976710656) ROLL_TIME_AIM = 5179139571476075 / 2251799813685248"
    unfolding r by (subst fl64_scaled [where n = 51]) (simp_all add: e)
  have s27: "fsub (5179139571476075 / 2251799813685248) ROLL_TIME_AIM = 2476979795053775 / 1125899906842624"
    unfolding r by (subst fl64_scaled [where n = 51]) (simp_all add: e)
  have s28: "fsub (2476979795053775 / 1125899906842624) ROLL_TIME_AIM = 4728779608739025 / 2251799813685248"
    unfolding r by (subst fl64_scaled [where n = 51]) (simp_all add: e)
  have s29: "fsub (4728779608739025 / 2251799813685248) ROLL_TIME_AIM = 1125899906842625 / 562949953421312"
    unfolding r by (subst fl64_scaled [where n = 51]) (simp_all add: e)
  have s30: "fsub (1125899906842625 / 562949953421312) ROLL_TIME_AIM = 4278419646001975 / 2251799813685248"
    unfolding r by (subst fl64_scaled [where n = 52]) (simp_all add: e)
  have s31: "fsub (4278419646001975 / 2251799813685248) ROLL_TIME_AIM = 2026619832316725 / 1125899906842624"
    unfolding r by (subst fl64_scaled [where n = 52]) (simp_all add: e)
  have s32: "fsub (2026619832316725 / 1125899906842624) ROLL_TIME_AIM = 3828059683264925 / 2251799813685248"
    unfolding r by (subst fl64_scaled [where n = 52]) (simp_all add: e)
  have s33: "fsub (3828059683264925 / 2251799813685248) ROLL_TIME_AIM = 225179981368525 / 140737488355328"
    unfolding r by (subst fl64_scaled [where n = 52]) (simp_all add: e)
  have s34: "fsub (225179981368525 / 140737488355328) ROLL_TIME_AIM = 3377699720527875 / 2251799813685248"
    unfolding r by (subst fl64_scaled [where n = 52]) (simp_all add: e)
  have s35: "fsub (3377699720527875 / 2251799813685248) ROLL_TIME_AIM = 1576259869579675 / 1125899906842624"
    unfolding r by (subst fl64_scaled [where n = 52]) (simp_all add: e)
  have s36: "fsub (1576259869579675 / 1125899906842624) ROLL_TIME_AIM = 2927339757790825 / 2251799813685248"
    unfolding r by (subst fl64_scaled [where n = 52]) (simp_all add: e)
  have s37: "fsub (2927339757790825 / 2251799813685248) ROLL_TIME_AIM = 675539944105575 / 562949953421312"
    unfolding r by (subst fl64_scaled [where n = 52]) (simp_all add: e)
  have s38: "fsub (675539944105575 / 562949953421312) ROLL_TIME_AIM = 2476979795053775 / 2251799813685248"
    unfolding r by (subst fl64_scaled [where n = 52]) (simp_all add: e)
  have s39: "fsub (2476979795053775 / 2251799813685248) ROLL_TIME_AIM = 1125899906842625 / 1125899906842624"
    unfolding r by (subst fl64_scaled [where n = 52]) (simp_all add: e)
  have s40: "fsub (1125899906842625 / 1125899906842624) ROLL_TIME_AIM = 8106479329266901 / 9007199254740992"
    unfolding r by (subst fl64_scaled [where n = 53]) (simp_all add: e)
  have s41: "fsub (8106479329266901 / 9007199254740992) ROLL_TIME_AIM = 3602879701896401 / 4503599627370496"
    unfolding r by (subst fl64_scaled [where n = 53]) (simp_all add: e)
  have s42: "fsub (3602879701896401 / 4503599627370496) ROLL_TIME_AIM = 6305039478318703 / 9007199254740992"
    unfolding r by (subst fl64_scaled [where n = 53]) (simp_all add: e)
  have s43: "fsub (6305039478318703 / 9007199254740992) ROLL_TIME_AIM = 1351079888211151 / 2251799813685248"
    unfolding r by (subst fl64_scaled [where n = 53]) (simp_all add: e)
  have s44: "fsub (1351079888211151 / 2251799813685248) ROLL_TIME_AIM = 4503599627370505 / 9007199254740992"
    unfolding r by (subst fl64_scaled [where n = 53]) (simp_all add: e)
  have s45: "fsub (4503599627370505 / 9007199254740992) ROLL_TIME_AIM = 1801439850948203 / 4503599627370496"
    unfolding r by (subst fl64_scaled [where n = 54]) (simp_all add: e)
  have s46: "fsub (1801439850948203 / 4503599627370496) ROLL_TIME_AIM = 2702159776422307 / 9007199254740992"
    unfolding r by (subst fl64_scaled [where n = 54]) (simp_all add: e)
  have s47: "fsub (2702159776422307 / 9007199254740992) ROLL_TIME_AIM = 7205759403792831 / 36028797018963968"
    unfolding r by (subst fl64_scaled [where n = 55]) (simp_all add: e)
  have s48: "fsub (7205759403792831 / 36028797018963968) ROLL_TIME_AIM = 1801439850948217 / 18014398509481984"
    unfolding r by (subst fl64_scaled [where n = 56]) (simp_all add: e)
  have s49: "fsub (1801439850948217 / 18014398509481984) ROLL_TIME_AIM = 37 / 36028797018963968"
    unfolding r by (subst fl64_scaled [where n = 102]) (simp_all add: e)
  have s50: "fsub (37 / 36028797018963968) ROLL_TIME_AIM = - (450359962737045 / 4503599627370496)"
    unfolding r by (subst fl64_scaled [where n = 56]) (simp_all add: e)
  have k51: "budget_ticks (- (450359962737045 / 4503599627370496)) = Some 0"
    by (subst budget_ticks.simps) simp
  have k50: "budget_ticks (37 / 36028797018963968) = Some 1"
    by (subst budget_ticks.simps) (simp add: s50 k51)
  have k49: "budget_ticks (1801439850948217 / 18014398509481984) = Some 2"
    by (subst budget_ticks.simps) (simp add: s49 k50)
  have k48: "budget_ticks (7205759403792831 / 36028797018963968) = Some 3"
    by (subst budget_ticks.simps) (simp add: s48 k49)
  have k47: "budget_ticks (2702159776422307 / 9007199254740992) = Some 4"
    by (subst budget_ticks.simps) (simp add: s47 k48)
  have k46: "budget_ticks (1801439850948203 / 4503599627370496) = Some 5"
    by (subst budget_ticks.simps) (simp add: s46 k47)
  have k45: "budget_ticks (4503599627370505 / 9007199254740992) = Some 6"
    by (subst budget_ticks.simps) (simp add: s45 k46)
  have k44: "budget_ticks (1351079888211151 / 2251799813685248) = Some 7"
    by (subst budget_ticks.simps) (simp add: s44 k45)
  have k43: "budget_ticks (6305039478318703 / 9007199254740992) = Some 8"
    by (subst budget_ticks.simps) (simp add: s43 k44)
  have k42: "budget_ticks (3602879701896401 / 4503599627370496) = Some 9"
    by (subst budget_ticks.simps) (simp add: s42 k43)
  have k41: "budget_ticks (8106479329266901 / 9007199254740992) = Some 10"
    by (subst budget_ticks.simps) (simp add: s41 k42)
  have k40: "budget_ticks (1125899906842625 / 1125899906842624) = Some 11"
    by (subst budget_ticks.simps) (simp add: s40 k41)
  have k39: "budget_ticks (2476979795053775 / 2251799813685248) = Some 12"
    by (subst budget_ticks.simps) (simp add: s39 k40)
  have k38: "budget_ticks (675539944105575 / 562949953421312) = Some 13"
    by (subst budget_ticks.simps) (simp add: s38 k39)
  have k37: "budget_ticks (2927339757790825 / 2251799813685248) = Some 14"
    by (subst budget_ticks.simps) (simp add: s37 k38)
  have k36: "budget_ticks (1576259869579675 / 1125899906842624) = Some 15"
    by (subst budget_ticks.simps) (simp add: s36 k37)
  have k35: "budget_ticks (3377699720527875 / 2251799813685248) = Some 16"
    by (subst budget_ticks.simps) (simp add: s35 k36)
  have k34: "budget_ticks (225179981368525 / 140737488355328) = Some 17"
    by (subst budget_ticks.simps) (simp add: s34 k35)
  have k33: "budget_ticks (3828059683264925 / 2251799813685248) = Some 18"
    by (subst budget_ticks.simps) (simp add: s33 k34)
  have k32: "budget_ticks (2026619832316725 / 1125899906842624) = Some 19"
    by (subst budget_ticks.simps) (simp add: s32 k33)
  have k31: "budget_ticks (4278419646001975 / 2251799813685248) = Some 20"
    by (subst budget_ticks.simps) (simp add: s31 k32)
  have k30: "budget_ticks (1125899906842625 / 562949953421312) = Some 21"
    by (subst budget_ticks.simps) (simp add: s30 k31)
  have k29: "budget_ticks (4728779608739025 / 2251799813685248) = Some 22"
    by (subst budget_ticks.simps) (simp add: s29 k30)
  have k28: "budget_ticks (2476979795053775 / 1125899906842624) = Some 23"
    by (subst budget_ticks.simps) (simp add: s28 k29)
  have k27: "budget_ticks (5179139571476075 / 2251799813685248) = Some 24"
    by (subst budget_ticks.simps) (simp add: s27 k28)
  have k26: "budget_ticks (675539944105575 / 281474976710656) = Some 25"
    by (subst budget_ticks.simps) (simp add: s26 k27)
  have k25: "budget_ticks (5629499534213125 / 2251799813685248) = Some 26"
    by (subst budget_ticks.simps) (simp add: s25 k26)
  have k24: "budget_ticks (2927339757790825 / 1125899906842624) = Some 27"
    by (subst budget_ticks.simps) (simp add: s24 k25)
  have k23: "budget_ticks (6079859496950175 / 2251799813685248) = Some 28"
    by (subst budget_ticks.simps) (simp add: s23 k24)
  have k22: "budget_ticks (1576259869579675 / 562949953421312) = Some 29"
    by (subst budget_ticks.simps) (simp add: s22 k23)
  have k21: "budget_ticks (6530219459687225 / 2251799813685248) = Some 30"
    by (subst budget_ticks.simps) (simp add: s21 k22)
  have k20: "budget_ticks (3377699720527875 / 1125899906842624) = Some 31"
    by (subst budget_ticks.simps) (simp add: s20 k21)
  have k19: "budget_ticks (6980579422424275 / 2251799813685248) = Some 32"
    by (subst budget_ticks.simps) (simp add: s19 k20)
  have k18: "budget_ticks (225179981368525 / 70368744177664) = Some 33"
    by (subst budget_ticks.simps) (simp add: s18 k19)
  have k17: "budget_ticks (7430939385161325 / 2251799813685248) = Some 34"
    by (subst budget_ticks.simps) (simp add: s17 k18)
  have k16: "budget_ticks (3828059683264925 / 1125899906842624) = Some 35"
    by (subst budget_ticks.simps) (simp add: s16 k17)
  have k15: "budget_ticks (7881299347898375 / 2251799813685248) = Some 36"
    by (subst budget_ticks.simps) (simp add: s15 k16)
  have k14: "budget_ticks (2026619832316725 / 562949953421312) = Some 37"
    by (subst budget_ticks.simps) (simp add: s14 k15)
  have k13: "budget_ticks (8331659310635425 / 2251799813685248) = Some 38"
    by (subst budget_ticks.simps) (simp add: s13 k14)
  have k12: "budget_ticks (4278419646001975 / 1125899906842624) = Some 39"
    by (subst budget_ticks.simps) (simp add: s12 k13)
  have k11: "budget_ticks (8782019273372475 / 2251799813685248) = Some 40"
    by (subst budget_ticks.simps) (simp add: s11 k12)
  have k10: "budget_ticks (1125899906842625 / 281474976710656) = Some 41"
    by (subst budget_ticks.simps) (simp add: s10 k11)
  have k9: "budget_ticks (2308094809027381 / 562949953421312) = Some 42"
    by (subst budget_ticks.simps) (simp add: s9 k10)
  have k8: "budget_ticks (295548725546189 / 70368744177664) = Some 43"
    by (subst budget_ticks.simps) (simp add: s8 k9)
  have k7: "budget_ticks (2420684799711643 / 562949953421312) = Some 44"
    by (subst budget_ticks.simps) (simp add: s7 k8)
  have k6: "budget_ticks (1238489897526887 / 281474976710656) = Some 45"
    by (subst budget_ticks.simps) (simp add: s6 k7)
  have k5: "budget_ticks (2533274790395905 / 562949953421312) = Some 46"
    by (subst budget_ticks.simps) (simp add: s5 k6)
  have k4: "budget_ticks (647392446434509 / 140737488355328) = Some 47"
    by (subst budget_ticks.simps) (simp add: s4 k5)
  have k3: "budget_ticks (2645864781080167 / 562949953421312) = Some 48"
    by (subst budget_ticks.simps) (simp add: s3 k4)
  have k2: "budget_ticks (1351079888211149 / 281474976710656) = Some 49"
    by (subst budget_ticks.simps) (simp add: s2 k3)
  have k1: "budget_ticks (2758454771764429 / 562949953421312) = Some 50"
    by (subst budget_ticks.simps) (simp add: s1 k2)
  have k0: "budget_ticks (5) = Some 51"
    by (subst budget_ticks.simps) (simp add: s0 k1)
  show ?thesis by (rule k0)
qed

text \<open>The budget of \<open>TIMEOUT_S = 15\<close> seconds lasts 151 iterations, one more than
  \<open>15 / 0.1\<close>: after 150 subtractions of the binary64 \<open>0.1\<close> a positive remainder
  is left.\<close>

lemma budget_ticks_timeout: "budget_ticks 15 = Some 151"
proof -
  note r = fsub_def ROLL_TIME_AIM_value
  note e = py_round_def Let_def
  have s0: "fsub (15) ROLL_TIME_AIM = 8387954305977549 / 562949953421312"
    unfolding r by (subst fl64_scaled [where n = 49]) (simp_all add: e)
  have s1: "fsub (8387954305977549 / 562949953421312) ROLL_TIME_AIM = 4165829655317709 / 281474976710656"
    unfolding r by (subst fl64_scaled [where n = 49]) (simp_all add: e)
  have s2: "fsub (4165829655317709 / 281474976710656) ROLL_TIME_AIM = 8275364315293287 / 562949953421312"
    unfolding r by (subst fl64_scaled [where n = 49]) (simp_all add: e)
  have s3: "fsub (8275364315293287 / 562949953421312) ROLL_TIME_AIM = 2054767329987789 / 140737488355328"
    unfolding r by (subst fl64_scaled [where n = 49]) (simp_all add: e)
  have s4: "fsub (2054767329987789 / 140737488355328) ROLL_TIME_AIM = 8162774324609025 / 562949953421312"
    unfolding r by (subst fl64_scaled [where n = 49]) (simp_all add: e)
  have s5: "fsub (8162774324609025 / 562949953421312) ROLL_TIME_AIM = 4053239664633447 / 281474976710656"
    unfolding r by (subst fl64_scaled [where n = 49]) (simp_all add: e)
  have s6: "fsub (4053239664633447 / 281474976710656) ROLL_TIME_AIM = 8050184333924763 / 562949953421312"
    unfolding r by (subst fl64_scaled [where n = 49]) (simp_all add: e)
  have s7: "fsub (8050184333924763 / 562949953421312) ROLL_TIME_AIM = 999236167322829 / 70368744177664"
    unfolding r by (subst fl64_scaled [where n = 49]) (simp_all add: e)
  have s8: "fsub (999236167322829 / 70368744177664) ROLL_TIME_AIM = 7937594343240501 / 562949953421312"
    unfolding r by (subst fl64_scaled [where n = 49]) (simp_all add: e)
  have s9: "fsub (7937594343240501 / 562949953421312) ROLL_TIME_AIM = 3940649673949185 / 281474976710656"
    unfolding r by (subst fl64_scaled [where n = 49]) (simp_all add: e)
  have s10: "fsub (3940649673949185 / 281474976710656) ROLL_TIME_AIM = 7825004352556239 / 562949953421312"
    unfolding r by (subst fl64_scaled [where n = 49]) (simp_all add: e)
  have s11: "fsub (7825004352556239 / 562949953421312) ROLL_TIME_AIM = 1942177339303527 / 140737488355328"
    unfolding r by (subst fl64_scaled [where n = 49]) (simp_all add: e)
  have s12: "fsub (1942177339303527 / 140737488355328) ROLL_TIME_AIM = 7712414361871977 / 562949953421312"
    unfolding r by (subst fl64_scaled [where n = 49]) (simp_all add: e)
  have s13: "fsub (7712414361871977 / 562949953421312) ROLL_TIME_AIM = 3828059683264923 / 281474976710656"
    unfolding r by (subst fl64_scaled [where n = 49]) (simp_all add: e)
  have s14: "fsub (3828059683264923 / 281474976710656) ROLL_TIME_AIM = 7599824371187715 / 562949953421312"
    unfolding r by (subst fl64_scaled [where n = 49]) (simp_all add: e)
  have s15: "fsub (7599824371187715 / 562949953421312) ROLL_TIME_AIM = 471470585990349 / 35184372088832"
    unfolding r by (subst fl64_scaled [where n = 49]) (simp_all add: e)
  have s16: "fsub (471470585990349 / 35184372088832) ROLL_TIME_AIM = 7487234380503453 / 562949953421312"
    unfolding r by (subst fl64_scaled [where n = 49]) (simp_all add: e)
  have s17: "fsub (7487234380503453 / 562949953421312) ROLL_TIME_AIM = 3715469692580661 / 281474976710656"
    unfolding r by (subst fl64_scaled [where n = 49]) (simp_all add: e)
  have s18: "fsub (3715469692580661 / 281474976710656) ROLL_TIME_AIM = 7374644389819191 / 562949953421312"
    unfolding r by (subst fl64_scaled [where n = 49]) (simp_all add: e)
  have s19: "fsub (7374644389819191 / 562949953421312) ROLL_TIME_AIM = 1829587348619265 / 140737488355328"
    unfolding r by (subst fl64_scaled [where n = 49]) (simp_all add: e)
  have s20: "fsub (1829587348619265 / 140737488355328) ROLL_TIME_AIM = 7262054399134929 / 562949953421312"
    unfolding r by (subst fl64_scaled [where n = 49]) (simp_all add: e)
  have s21: "fsub (7262054399134929 / 562949953421312) ROLL_TIME_AIM = 3602879701896399 / 281474976710656"
    unfolding r by (subst fl64_scaled [where n = 49]) (simp_all add: e)
  have s22: "fsub (3602879701896399 / 281474976710656) ROLL_TIME_AIM = 7149464408450667 / 562949953421312"
    unfolding r by (subst fl64_scaled [where n = 49]) (simp_all add: e)
  have s23: "fsub (7149464408450667 / 562949953421312) ROLL_TIME_AIM = 886646176638567 / 70368744177664"
    unfolding r by (subst fl64_scaled [where n = 49]) (simp_all add: e)
  have s24: "fsub (886646176638567 / 70368744177664) ROLL_TIME_AIM = 7036874417766405 / 562949953421312"
    unfolding r by (subst fl64_scaled [where n = 49]) (simp_all add: e)
  have s25: "fsub (7036874417766405 / 562949953421312) ROLL_TIME_AIM = 3490289711212137 / 281474976710656"
    unfolding r by (subst fl64_scaled [where n = 49]) (simp_all add: e)
  have s26: "fsub (3490289711212137 / 281474976710656) ROLL_TIME_AIM = 6924284427082143 / 562949953421312"
    unfolding r by (subst fl64_scaled [where n = 49]) (simp_all add: e)
  have s27: "fsub (6924284427082143 / 562949953421312) ROLL_TIME_AIM = 1716997357935003 / 140737488355328"
    unfolding r by (subst fl64_scaled [where n = 49]) (simp_all add: e)
  have s28: "fsub (1716997357935003 / 140737488355328) ROLL_TIME_AIM = 6811694436397881 / 562949953421312"
    unfolding r by (subst fl64_scaled [where n = 49]) (simp_all add: e)
  have s29: "fsub (6811694436397881 / 562949953421312) ROLL_TIME_AIM = 3377699720527875 / 281474976710656"
    unfolding r by (subst fl64_scaled [where n = 49]) (simp_all add: e)
  have s30: "fsub (3377699720527875 / 281474976710656) ROLL_TIME_AIM = 6699104445713619 / 562949953421312"
    unfolding r by (subst fl64_scaled [where n = 49]) (simp_all add: e)
  have s31: "fsub (6699104445713619 / 562949953421312) ROLL_TIME_AIM = 207587795324109 / 17592186044416"
    unfolding r by (subst fl64_scaled [where n = 49]) (simp_all add: e)
  have s32: "fsub (207587795324109 / 17592186044416) ROLL_TIME_AIM = 6586514455029357 / 562949953421312"
    unfolding r by (subst fl64_scaled [where n = 49]) (simp_all add: e)
  have s33: "fsub (6586514455029357 / 562949953421312) ROLL_TIME_AIM = 3265109729843613 / 281474976710656"
    unfolding r by (subst fl64_scaled [where n = 49]) (simp_all add: e)
  have s34: "fsub (3265109729843613 / 281474976710656) ROLL_TIME_AIM = 6473924464345095 / 562949953421312"
    unfolding r by (subst fl64_scaled [where n = 49]) (simp_all add: e)
  have s35: "fsub (6473924464345095 / 562949953421312) ROLL_TIME_AIM = 1604407367250741 / 140737488355328"
    unfolding r by (subst fl64_scaled [where n = 49]) (simp_all add: e)
  have s36: "fsub (1604407367250741 / 140737488355328) ROLL_TIME_AIM = 6361334473660833 / 562949953421312"
    unfolding r by (subst fl64_scaled [where n = 49]) (simp_all add: e)
  have s37: "fsub (6361334473660833 / 562949953421312) ROLL_TIME_AIM = 3152519739159351 / 281474976710656"
    unfolding r by (subst fl64_scaled [where n = 49]) (simp_all add: e)
  have s38: "fsub (3152519739159351 / 281474976710656) ROLL_TIME_AIM = 6248744482976571 / 562949953421312"
    unfolding r by (subst fl64_scaled [where n = 49]) (simp_all add: e)
  have s39: "fsub (6248744482976571 / 562949953421312) ROLL_TIME_AIM = 774056185954305 / 70368744177664"
    unfolding r by (subst fl64_scaled [where n = 49]) (simp_all add: e)
  have s40: "fsub (774056185954305 / 70368744177664) ROLL_TIME_AIM = 6136154492292309 / 562949953421312"
    unfolding r by (subst fl64_scaled [where n = 49]) (simp_all add: e)
  have s41: "fsub (6136154492292309 / 562949953421312) ROLL_TIME_AIM = 3039929748475089 / 281474976710656"
    unfolding r by (subst fl64_scaled [where n = 49]) (simp_all add: e)
  have s42: "fsub (3039929748475089 / 281474976710656) ROLL_TIME_AIM = 6023564501608047 / 562949953421312"
    unfolding r by (subst fl64_scaled [where n = 49]) (simp_all add: e)
  have s43: "fsub (6023564501608047 / 562949953421312) ROLL_TIME_AIM = 1491817376566479 / 140737488355328"
    unfolding r by (subst fl64_scaled [where n = 49]) (simp_all add: e)
  have s44: "fsub (1491817376566479 / 140737488355328) ROLL_TIME_AIM = 5910974510923785 / 562949953421312"
    unfolding r by (subst fl64_scaled [where n = 49]) (simp_all add: e)
  have s45: "fsub (5910974510923785 / 562949953421312) ROLL_TIME_AIM = 2927339757790827 / 281474976710656"
    unfolding r by (subst fl64_scaled [where n = 49]) (simp_all add: e)
  have s46: "fsub (2927339757790827 / 281474976710656) ROLL_TIME_AIM = 5798384520239523 / 562949953421312"
    unfolding r by (subst fl64_scaled [where n = 49]) (simp_all add: e)
  have s47: "fsub (5798384520239523 / 562949953421312) ROLL_TIME_AIM = 358880595306087 / 35184372088832"
    unfolding r by (subst fl64_scaled [where n = 49]) (simp_all add: e)
  have s48: "fsub (358880595306087 / 35184372088832) ROLL_TIME_AIM = 5685794529555261 / 562949953421312"
    unfolding r by (subst fl64_scaled [where n = 49]) (simp_all add: e)
  have s49: "fsub (5685794529555261 / 562949953421312) ROLL_TIME_AIM = 2814749767106565 / 281474976710656"
    unfolding r by (subst fl64_scaled [where n = 49]) (simp_all add: e)
  have s50: "fsub (2814749767106565 / 281474976710656) ROLL_TIME_AIM = 5573204538870999 / 562949953421312"
    unfolding r by (subst fl64_scaled [where n = 49]) (simp_all add: e)
  have s51: "fsub (5573204538870999 / 562949953421312) ROLL_TIME_AIM = 1379227385882217 / 140737488355328"
    unfolding r by (subst fl64_scaled [where n = 49]) (simp_all add: e)
  have s52: "fsub (1379227385882217 / 140737488355328) ROLL_TIME_AIM = 5460614548186737 / 562949953421312"
    unfolding r by (subst fl64_scaled [where n = 49]) (simp_all add: e)
  have s53: "fsub (5460614548186737 / 562949953421312) ROLL_TIME_AIM = 2702159776422303 / 281474976710656"
    unfolding r by (subst fl64_scaled [where n = 49]) (simp_all add: e)
  have s54: "fsub (2702159776422303 / 281474976710656) ROLL_TIME_AIM = 5348024557502475 / 562949953421312"
    unfolding r by (subst fl64_scaled [where n = 49]) (simp_all add: e)
  have s55: "fsub (5348024557502475 / 562949953421312) ROLL_TIME_AIM = 661466195270043 / 70368744177664"
    unfolding r by (subst fl64_scaled [where n = 49]) (simp_all add: e)
  have s56: "fsub (661466195270043 / 70368744177664) ROLL_TIME_AIM = 5235434566818213 / 562949953421312"
    unfolding r by (subst fl64_scaled [where n = 49]) (simp_all add: e)
  have s57: "fsub (5235434566818213 / 562949953421312) ROLL_TIME_AIM = 2589569785738041 / 281474976710656"
    unfolding r by (subst fl64_scaled [where n = 49]) (simp_all add: e)
  have s58: "fsub (2589569785738041 / 281474976710656) ROLL_TIME_AIM = 5122844576133951 / 562949953421312"
    unfolding r by (subst fl64_scaled [where n = 49]) (simp_all add: e)
  have s59: "fsub (5122844576133951 / 562949953421312) ROLL_TIME_AIM = 1266637395197955 / 140737488355328"
    unfolding r by (subst fl64_scaled [where n = 49]) (simp_all add: e)
  have s60: "fsub (1266637395197955 / 140737488355328) ROLL_TIME_AIM = 5010254585449689 / 562949953421312"
    unfolding r by (subst fl64_scaled [where n = 49]) (simp_all add: e)
  have s61: "fsub (5010254585449689 / 562949953421312) ROLL_TIME_AIM = 2476979795053779 / 281474976710656"
    unfolding r by (subst fl64_scaled [where n = 49]) (simp_all add: e)
  have s62: "fsub (2476979795053779 / 281474976710656) ROLL_TIME_AIM = 4897664594765427 / 562949953421312"
    unfolding r by (subst fl64_scaled [where n = 49]) (simp_all add: e)
  have s63: "fsub (4897664594765427 / 562949953421312) ROLL_TIME_AIM = 75646399990989 / 8796093022208"
    unfolding r by (subst fl64_scaled [where n = 49]) (simp_all add: e)
  have s64: "fsub (75646399990989 / 8796093022208) ROLL_TIME_AIM = 4785074604081165 / 562949953421312"
    unfolding r by (subst fl64_scaled [where n = 49]) (simp_all add: e)
  have s65: "fsub (4785074604081165 / 562949953421312) ROLL_TIME_AIM = 2364389804369517 / 281474976710656"
    unfolding r by (subst fl64_scaled [where n = 49]) (simp_all add: e)
  have s66: "fsub (2364389804369517 / 281474976710656) ROLL_TIME_AIM = 4672484613396903 / 562949953421312"
    unfolding r by (subst fl64_scaled [where n = 49]) (simp_all add: e)
  have s67: "fsub (4672484613396903 / 562949953421312) ROLL_TIME_AIM = 1154047404513693 / 140737488355328"
    unfolding r by (subst fl64_scaled [where n = 49]) (simp_all add: e)
  have s68: "fsub (1154047404513693 / 140737488355328) ROLL_TIME_AIM = 4559894622712641 / 562949953421312"
    unfolding r by (subst fl64_scaled [where n = 49]) (simp_all add: e)
  have s69: "fsub (4559894622712641 / 562949953421312) ROLL_TIME_AIM = 2251799813685255 / 281474976710656"
    unfolding r by (subst fl64_scaled [where n = 49]) (simp_all add: e)
  have s70: "fsub (2251799813685255 / 281474976710656) ROLL_TIME_AIM = 4447304632028379 / 562949953421312"
    unfolding r by (subst fl64_scaled [where n = 50]) (simp_all add: e)
  have s71: "fsub (4447304632028379 / 562949953421312) ROLL_TIME_AIM = 548876204585781 / 70368744177664"
    unfolding r by (subst fl64_scaled [where n = 50]) (simp_all add: e)
  have s72: "fsub (548876204585781 / 70368744177664) ROLL_TIME_AIM = 4334714641344117 / 562949953421312"
    unfolding r by (subst fl64_scaled [where n = 50]) (simp_all add: e)
  have s73: "fsub (4334714641344117 / 562949953421312) ROLL_TIME_AIM = 2139209823000993 / 281474976710656"
    unfolding r by (subst fl64_scaled [where n = 50]) (simp_all add: e)
  have s74: "fsub (2139209823000993 / 281474976710656) ROLL_TIME_AIM = 4222124650659855 / 562949953421312"
    unfolding r by (subst fl64_scaled [where n = 50]) (simp_all add: e)
  have s75: "fsub (4222124650659855 / 562949953421312) ROLL_TIME_AIM = 1041457413829431 / 140737488355328"
    unfolding r by (subst fl64_scaled [where n = 50]) (simp_all add: e)
  have s76: "fsub (1041457413829431 / 140737488355328) ROLL_TIME_AIM = 4109534659975593 / 562949953421312"
    unfolding r by (subst fl64_scaled [where n = 50]) (simp_all add: e)
  have s77: "fsub (4109534659975593 / 562949953421312) ROLL_TIME_AIM = 2026619832316731 / 281474976710656"
    unfolding r by (subst fl64_scaled [where n = 50]) (simp_all add: e)
  have s78: "fsub (2026619832316731 / 281474976710656) ROLL_TIME_AIM = 3996944669291331 / 562949953421312"
    unfolding r by (subst fl64_scaled [where n = 50]) (simp_all add: e)
  have s79: "fsub (3996944669291331 / 562949953421312) ROLL_TIME_AIM = 246290604621825 / 35184372088832"
    unfolding r by (subst fl64_scaled [where n = 50]) (simp_all add: e)
  have s80: "fsub (246290604621825 / 35184372088832) ROLL_TIME_AIM = 3884354678607069 / 562949953421312"
    unfolding r by (subst fl64_scaled [where n = 50]) (simp_all add: e)
  have s81: "fsub (3884354678607069 / 562949953421312) ROLL_TIME_AIM = 1914029841632469 / 281474976710656"
    unfolding r by (subst fl64_scaled [where n = 50]) (simp_all add: e)
  have s82: "fsub (1914029841632469 / 281474976710656) ROLL_TIME_AIM = 3771764687922807 / 562949953421312"
    unfolding r by (subst fl64_scaled [where n = 50]) (simp_all add: e)
  have s83: "fsub (3771764687922807 / 562949953421312) ROLL_TIME_AIM = 928867423145169 / 140737488355328"
    unfolding r by (subst fl64_scaled [where n = 50]) (simp_all add: e)
  have s84: "fsub (928867423145169 / 140737488355328) ROLL_TIME_AIM = 3659174697238545 / 562949953421312"
    unfolding r by (subst fl64_scaled [where n = 50]) (simp_all add: e)
  have s85: "fsub (3659174697238545 / 562949953421312) ROLL_TIME_AIM = 1801439850948207 / 281474976710656"
    unfolding r by (subst fl64_scaled [where n = 50]) (simp_all add: e)
  have s86: "fsub (1801439850948207 / 281474976710656) ROLL_TIME_AIM = 3546584706554283 / 562949953421312"
    unfolding r by (subst fl64_scaled [where n = 50]) (simp_all add: e)
  have s87: "fsub (3546584706554283 / 562949953421312) ROLL_TIME_AIM = 436286213901519 / 70368744177664"
    unfolding r by (subst fl64_scaled [where n = 50]) (simp_all add: e)
  have s88: "fsub (436286213901519 / 70368744177664) ROLL_TIME_AIM = 3433994715870021 / 562949953421312"
    unfolding r by (subst fl64_scaled [where n = 50]) (simp_all add: e)
  have s89: "fsub (3433994715870021 / 562949953421312) ROLL_TIME_AIM = 1688849860263945 / 281474976710656"
    unfolding r by (subst fl64_scaled [where n = 50]) (simp_all add: e)
  have s90: "fsub (1688849860263945 / 281474976710656) ROLL_TIME_AIM = 3321404725185759 / 562949953421312"
    unfolding r by (subst fl64_scaled [where n = 50]) (simp_all add: e)
  have s91: "fsub (3321404725185759 / 562949953421312) ROLL_TIME_AIM = 816277432460907 / 140737488355328"
    unfolding r by (subst fl64_scaled [where n = 50]) (simp_all add: e)
  have s92: "fsub (816277432460907 / 140737488355328) ROLL_TIME_AIM = 3208814734501497 / 562949953421312"
    unfolding r by (subst fl64_scaled [where n = 50]) (simp_all add: e)
  have s93: "fsub (3208814734501497 / 562949953421312) ROLL_TIME_AIM = 1576259869579683 / 281474976710656"
    unfolding r by (subst fl64_scaled [where n = 50]) (simp_all add: e)
  have s94: "fsub (1576259869579683 / 281474976710656) ROLL_TIME_AIM = 3096224743817235 / 562949953421312"
    unfolding r by (subst fl64_scaled [where n = 50]) (simp_all add: e)
  have s95: "fsub (3096224743817235 / 562949953421312) ROLL_TIME_AIM = 94997804639847 / 17592186044416"
    unfolding r by (subst fl64_scaled [where n = 50]) (simp_all add: e)
  have s96: "fsub (94997804639847 / 17592186044416) ROLL_TIME_AIM = 2983634753132973 / 562949953421312"
    unfolding r by (subst fl64_scaled [where n = 50]) (simp_all add: e)
  have s97: "fsub (2983634753132973 / 562949953421312) ROLL_TIME_AIM = 1463669878895421 / 281474976710656"
    unfolding r by (subst fl64_scaled [where n = 50]) (simp_all add: e)
  have s98: "fsub (1463669878895421 / 281474976710656) ROLL_TIME_AIM = 2871044762448711 / 562949953421312"
    unfolding r by (subst fl64_scaled [where n = 50]) (simp_all add: e)
  have s99: "fsub (2871044762448711 / 562949953421312) ROLL_TIME_AIM = 703687441776645 / 140737488355328"
    unfolding r by (subst fl64_scaled [where n = 50]) (simp_all add: e)
  have s100: "fsub (703687441776645 / 140737488355328) ROLL_TIME_AIM = 2758454771764449 / 562949953421312"
    unfolding r by (subst fl64_scaled [where n = 50]) (simp_all add: e)
  have s101: "fsub (2758454771764449 / 562949953421312) ROLL_TIME_AIM = 1351079888211159 / 281474976710656"
    unfolding r by (subst fl64_scaled [where n = 50]) (simp_all add: e)
  have s102: "fsub (1351079888211159 / 281474976710656) ROLL_TIME_AIM = 2645864781080187 / 562949953421312"
    unfolding r by (subst fl64_scaled [where n = 50]) (simp_all add: e)
  have s103: "fsub (2645864781080187 / 562949953421312) ROLL_TIME_AIM = 323696223217257 / 70368744177664"
    unfolding r by (subst fl64_scaled [where n = 50]) (simp_all add: e)
  have s104: "fsub (323696223217257 / 70368744177664) ROLL_TIME_AIM = 2533274790395925 / 562949953421312"
    unfolding r by (subst fl64_scaled [where n = 50]) (simp_all add: e)
  have s105: "fsub (2533274790395925 / 562949953421312) ROLL_TIME_AIM = 1238489897526897 / 281474976710656"
    unfolding r by (subst fl64_scaled [where n = 50]) (simp_all add: e)
  have s106: "fsub (1238489897526897 / 281474976710656) ROLL_TIME_AIM = 2420684799711663 / 562949953421312"
    unfolding r by (subst fl64_scaled [where n = 50]) (simp_all add: e)
  have s107: "fsub (2420684799711663 / 562949953421312) ROLL_TIME_AIM = 591097451092383 / 140737488355328"
    unfolding r by (subst fl64_scaled [where n = 50]) (simp_all add: e)
  have s108: "fsub (591097451092383 / 140737488355328) ROLL_TIME_AIM = 2308094809027401 / 562949953421312"
    unfolding r by (subst fl64_scaled [where n = 50]) (simp_all add: e)
  have s109: "fsub (2308094809027401 / 562949953421312) ROLL_TIME_AIM = 1125899906842635 / 281474976710656"
    unfolding r by (subst fl64_scaled [where n = 50]) (simp_all add: e)
  have s110: "fsub (1125899906842635 / 281474976710656) ROLL_TIME_AIM = 8782019273372555 / 2251799813685248"
    unfolding r by (subst fl64_scaled [where n = 51]) (simp_all add: e)
  have s111: "fsub (8782019273372555 / 2251799813685248) ROLL_TIME_AIM = 4278419646002015 / 1125899906842624"
    unfolding r by (subst fl64_scaled [where n = 51]) (simp_all add: e)
  have s112: "fsub (4278419646002015 / 1125899906842624) ROLL_TIME_AIM = 8331659310635505 / 2251799813685248"
    unfolding r by (subst fl64_scaled [where n = 51]) (simp_all add: e)
  have s113: "fsub (8331659310635505 / 2251799813685248) ROLL_TIME_AIM = 2026619832316745 / 562949953421312"
    unfolding r by (subst fl64_scaled [where n = 51]) (simp_all add: e)
  have s114: "fsub (2026619832316745 / 562949953421312) ROLL_TIME_AIM = 7881299347898455 / 2251799813685248"
    unfolding r by (subst fl64_scaled [where n = 51]) (simp_all add: e)
  have s115: "fsub (7881299347898455 / 2251799813685248) ROLL_TIME_AIM = 3828059683264965 / 1125899906842624"
    unfolding r by (subst fl64_scaled [where n = 51]) (simp_all add: e)
  have s116: "fsub (3828059683264965 / 1125899906842624) ROLL_TIME_AIM = 7430939385161405 / 2251799813685248"
    unfolding r by (subst fl64_scaled [where n = 51]) (simp_all add: e)
  have s117: "fsub (7430939385161405 / 2251799813685248) ROLL_TIME_AIM = 450359962737055 / 140737488355328"
    unfolding r by (subst fl64_scaled [where n = 51]) (simp_all add: e)
  have s118: "fsub (450359962737055 / 140737488355328) ROLL_TIME_AIM = 6980579422424355 / 2251799813685248"
    unfolding r by (subst fl64_scaled [where n = 51]) (simp_all add: e)
  have s119: "fsub (6980579422424355 / 2251799813685248) ROLL_TIME_AIM = 3377699720527915 / 1125899906842624"
    unfolding r by (subst fl64_scaled [where n = 51]) (simp_all add: e)
  have s120: "fsub (3377699720527915 / 1125899906842624) ROLL_TIME_AIM = 6530219459687305 / 2251799813685248"
    unfolding r by (subst fl64_scaled [where n = 51]) (simp_all add: e)
  have s121: "fsub (6530219459687305 / 2251799813685248) ROLL_TIME_AIM = 1576259869579695 / 562949953421312"
    unfolding r by (subst fl64_scaled [where n = 51]) (simp_all add: e)
  have s122: "fsub (1576259869579695 / 562949953421312) ROLL_TIME_AIM = 6079859496950255 / 2251799813685248"
    unfolding r by (subst fl64_scaled [where n = 51]) (simp_all add: e)
  have s123: "fsub (6079859496950255 / 2251799813685248) ROLL_TIME_AIM = 2927339757790865 / 1125899906842624"
    unfolding r by (subst fl64_scaled [where n = 51]) (simp_all add: e)
  have s124: "fsub (2927339757790865 / 1125899906842624) ROLL_TIME_AIM = 5629499534213205 / 2251799813685248"
    unfolding r by (subst fl64_scaled [where n = 51]) (simp_all add: e)
  have s125: "fsub (5629499534213205 / 2251799813685248) ROLL_TIME_AIM = 675539944105585 / 281474976710656"
    unfolding r by (subst fl64_scaled [where n = 51]) (simp_all add: e)
  have s126: "fsub (675539944105585 / 281474976710656) ROLL_TIME_AIM = 5179139571476155 / 2251799813685248"
    unfolding r by (subst fl64_scaled [where n = 51]) (simp_all add: e)
  have s127: "fsub (5179139571476155 / 2251799813685248) ROLL_TIME_AIM = 2476979795053815 / 1125899906842624"
    unfolding r by (subst fl64_scaled [where n = 51]) (simp_all add: e)
  have s128: "fsub (2476979795053815 / 1125899906842624) ROLL_TIME_AIM = 4728779608739105 / 2251799813685248"
    unfolding r by (subst fl64_scaled [where n = 51]) (simp_all add: e)
  have s129: "fsub (4728779608739105 / 2251799813685248) ROLL_TIME_AIM = 1125899906842645 / 562949953421312"
    unfolding r by (subst fl64_scaled [where n = 51]) (simp_all add: e)
  have s130: "fsub (1125899906842645 / 562949953421312) ROLL_TIME_AIM = 4278419646002055 / 2251799813685248"
    unfolding r by (subst fl64_scaled [where n = 52]) (simp_all add: e)
  have s131: "fsub (4278419646002055 / 2251799813685248) ROLL_TIME_AIM = 2026619832316765 / 1125899906842624"
    unfolding r by (subst fl64_scaled [where n = 52]) (simp_all add: e)
  have s132: "fsub (2026619832316765 / 1125899906842624) ROLL_TIME_AIM = 3828059683265005 / 2251799813685248"
    unfolding r by (subst fl64_scaled [where n = 52]) (simp_all add: e)
  have s133: "fsub (3828059683265005 / 2251799813685248) ROLL_TIME_AIM = 112589990684265 / 70368744177664"
    unfolding r by (subst fl64_scaled [where n = 52]) (simp_all add: e)
  have s134: "fsub (112589990684265 / 70368744177664) ROLL_TIME_AIM = 3377699720527955 / 2251799813685248"
    unfolding r by (subst fl64_scaled [where n = 52]) (simp_all add: e)
  have s135: "fsub (3377699720527955 / 2251799813685248) ROLL_TIME_AIM = 1576259869579715 / 1125899906842624"
    unfolding r by (subst fl64_scaled [where n = 52]) (simp_all add: e)
  have s136: "fsub (1576259869579715 / 1125899906842624) ROLL_TIME_AIM = 2927339757790905 / 2251799813685248"
    unfolding r by (subst fl64_scaled [where n = 52]) (simp_all add: e)
  have s137: "fsub (2927339757790905 / 2251799813685248) ROLL_TIME_AIM = 675539944105595 / 562949953421312"
    unfolding r by (subst fl64_scaled [where n = 52]) (simp_all add: e)
  have s138: "fsub (675539944105595 / 562949953421312) ROLL_TIME_AIM = 2476979795053855 / 2251799813685248"
    unfolding r by (subst fl64_scaled [where n = 52]) (simp_all add: e)
  have s139: "fsub (2476979795053855 / 2251799813685248) ROLL_TIME_AIM = 1125899906842665 / 1125899906842624"
    unfolding r by (subst fl64_scaled [where n = 52]) (simp_all add: e)
  have s140: "fsub (1125899906842665 / 1125899906842624) ROLL_TIME_AIM = 8106479329267221 / 9007199254740992"
    unfolding r by (subst fl64_scaled [where n = 53]) (simp_all add: e)
  have s141: "fsub (8106479329267221 / 9007199254740992) ROLL_TIME_AIM = 3602879701896561 / 4503599627370496"
    unfolding r by (subst fl64_scaled [where n = 53]) (simp_all add: e)
  have s142: "fsub (3602879701896561 / 4503599627370496) ROLL_TIME_AIM = 6305039478319023 / 9007199254740992"
    unfolding r by (subst fl64_scaled [where n = 53]) (simp_all add: e)
  have s143: "fsub (6305039478319023 / 9007199254740992) ROLL_TIME_AIM = 1351079888211231 / 2251799813685248"
    unfolding r by (subst fl64_scaled [where n = 53]) (simp_all add: e)
  have s144: "fsub (1351079888211231 / 2251799813685248) ROLL_TIME_AIM = 4503599627370825 / 9007199254740992"
    unfolding r by (subst fl64_scaled [where n = 53]) (simp_all add: e)
  have s145: "fsub (4503599627370825 / 9007199254740992) ROLL_TIME_AIM = 1801439850948363 / 4503599627370496"
    unfolding r by (subst fl64_scaled [where n = 54]) (simp_all add: e)
  have s146: "fsub (1801439850948363 / 4503599627370496) ROLL_TIME_AIM = 2702159776422627 / 9007199254740992"
    unfolding r by (subst fl64_scaled [where n = 54]) (simp_all add: e)
  have s147: "fsub (2702159776422627 / 9007199254740992) ROLL_TIME_AIM = 7205759403794111 / 36028797018963968"
    unfolding r by (subst fl64_scaled [where n = 55]) (simp_all add: e)
  have s148: "fsub (7205759403794111 / 36028797018963968) ROLL_TIME_AIM = 1801439850948857 / 18014398509481984"
    unfolding r by (subst fl64_scaled [where n = 56]) (simp_all add: e)
  have s149: "fsub (1801439850948857 / 18014398509481984) ROLL_TIME_AIM = 1317 / 36028797018963968"
    unfolding r by (subst fl64_scaled [where n = 97]) (simp_all add: e)
  have s150: "fsub (1317 / 36028797018963968) ROLL_TIME_AIM = - (450359962736885 / 4503599627370496)"
    unfolding r by (subst fl64_scaled [where n = 56]) (simp_all add: e)
  have k151: "budget_ticks (- (450359962736885 / 4503599627370496)) = Some 0"
    by (subst budget_ticks.simps) simp
  have k150: "budget_ticks (1317 / 36028797018963968) = Some 1"
    by (subst budget_ticks.simps) (simp add: s150 k151)
  have k149: "budget_ticks (1801439850948857 / 18014398509481984) = Some 2"
    by (subst budget_ticks.simps) (simp add: s149 k150)
  have k148: "budget_ticks (7205759403794111 / 36028797018963968) = Some 3"
    by (subst budget_ticks.simps) (simp add: s148 k149)
  have k147: "budget_ticks (2702159776422627 / 9007199254740992) = Some 4"
    by (subst budget_ticks.simps) (simp add: s147 k148)
  have k146: "budget_ticks (1801439850948363 / 4503599627370496) = Some 5"
    by (subst budget_ticks.simps) (simp add: s146 k147)
  have k145: "budget_ticks (4503599627370825 / 9007199254740992) = Some 6"
    by (subst budget_ticks.simps) (simp add: s145 k146)
  have k144: "budget_ticks (1351079888211231 / 2251799813685248) = Some 7"
    by (subst budget_ticks.simps) (simp add: s144 k145)
  have k143: "budget_ticks (6305039478319023 / 9007199254740992) = Some 8"
    by (subst budget_ticks.simps) (simp add: s143 k144)
  have k142: "budget_ticks (3602879701896561 / 4503599627370496) = Some 9"
    by (subst budget_ticks.simps) (simp add: s142 k143)
  have k141: "budget_ticks (8106479329267221 / 9007199254740992) = Some 10"
    by (subst budget_ticks.simps) (simp add: s141 k142)
  have k140: "budget_ticks (1125899906842665 / 1125899906842624) = Some 11"
    by (subst budget_ticks.simps) (simp add: s140 k141)
  have k139: "budget_ticks (2476979795053855 / 2251799813685248) = Some 12"
    by (subst budget_ticks.simps) (simp add: s139 k140)
  have k138: "budget_ticks (675539944105595 / 562949953421312) = Some 13"
    by (subst budget_ticks.simps) (simp add: s138 k139)
  have k137: "budget_ticks (2927339757790905 / 2251799813685248) = Some 14"
    by (subst budget_ticks.simps) (simp add: s137 k138)
  have k136: "budget_ticks (1576259869579715 / 1125899906842624) = Some 15"
    by (subst budget_ticks.simps) (simp add: s136 k137)
  have k135: "budget_ticks (3377699720527955 / 2251799813685248) = Some 16"
    by (subst budget_ticks.simps) (simp add: s135 k136)
  have k134: "budget_ticks (112589990684265 / 70368744177664) = Some 17"
    by (subst budget_ticks.simps) (simp add: s134 k135)
  have k133: "budget_ticks (3828059683265005 / 2251799813685248) = Some 18"
    by (subst budget_ticks.simps) (simp add: s133 k134)
  have k132: "budget_ticks (2026619832316765 / 1125899906842624) = Some 19"
    by (subst budget_ticks.simps) (simp add: s132 k133)
  have k131: "budget_ticks (4278419646002055 / 2251799813685248) = Some 20"
    by (subst budget_ticks.simps) (simp add: s131 k132)
  have k130: "budget_ticks (1125899906842645 / 562949953421312) = Some 21"
    by (subst budget_ticks.simps) (simp add: s130 k131)
  have k129: "budget_ticks (4728779608739105 / 2251799813685248) = Some 22"
    by (subst budget_ticks.simps) (simp add: s129 k130)
  have k128: "budget_ticks (2476979795053815 / 1125899906842624) = Some 23"
    by (subst budget_ticks.simps) (simp add: s128 k129)
  have k127: "budget_ticks (5179139571476155 / 2251799813685248) = Some 24"
    by (subst budget_ticks.simps) (simp add: s127 k128)
  have k126: "budget_ticks (675539944105585 / 281474976710656) = Some 25"
    by (subst budget_ticks.simps) (simp add: s126 k127)
  have k125: "budget_ticks (5629499534213205 / 2251799813685248) = Some 26"
    by (subst budget_ticks.simps) (simp add: s125 k126)
  have k124: "budget_ticks (2927339757790865 / 1125899906842624) = Some 27"
    by (subst budget_ticks.simps) (simp add: s124 k125)
  have k123: "budget_ticks (6079859496950255 / 2251799813685248) = Some 28"
    by (subst budget_ticks.simps) (simp add: s123 k124)
  have k122: "budget_ticks (1576259869579695 / 562949953421312) = Some 29"
    by (subst budget_ticks.simps) (simp add: s122 k123)
  have k121: "budget_ticks (6530219459687305 / 2251799813685248) = Some 30"
    by (subst budget_ticks.simps) (simp add: s121 k122)
  have k120: "budget_ticks (3377699720527915 / 1125899906842624) = Some 31"
    by (subst budget_ticks.simps) (simp add: s120 k121)
  have k119: "budget_ticks (6980579422424355 / 2251799813685248) = Some 32"
    by (subst budget_ticks.simps) (simp add: s119 k120)
  have k118: "budget_ticks (450359962737055 / 140737488355328) = Some 33"
    by (subst budget_ticks.simps) (simp add: s118 k119)
  have k117: "budget_ticks (7430939385161405 / 2251799813685248) = Some 34"
    by (subst budget_ticks.simps) (simp add: s117 k118)
  have k116: "budget_ticks (3828059683264965 / 1125899906842624) = Some 35"
    by (subst budget_ticks.simps) (simp add: s116 k117)
  have k115: "budget_ticks (7881299347898455 / 2251799813685248) = Some 36"
    by (subst budget_ticks.simps) (simp add: s115 k116)
  have k114: "budget_ticks (2026619832316745 / 562949953421312) = Some 37"
    by (subst budget_ticks.simps) (simp add: s114 k115)
  have k113: "budget_ticks (8331659310635505 / 2251799813685248) = Some 38"
    by (subst budget_ticks.simps) (simp add: s113 k114)
  have k112: "budget_ticks (4278419646002015 / 1125899906842624) = Some 39"
    by (subst budget_ticks.simps) (simp add: s112 k113)
  have k111: "budget_ticks (8782019273372555 / 2251799813685248) = Some 40"
    by (subst budget_ticks.simps) (simp add: s111 k112)
  have k110: "budget_ticks (1125899906842635 / 281474976710656) = Some 41"
    by (subst budget_ticks.simps) (simp add: s110 k111)
  have k109: "budget_ticks (2308094809027401 / 562949953421312) = Some 42"
    by (subst budget_ticks.simps) (simp add: s109 k110)
  have k108: "budget_ticks (591097451092383 / 140737488355328) = Some 43"
    by (subst budget_ticks.simps) (simp add: s108 k109)
  have k107: "budget_ticks (2420684799711663 / 562949953421312) = Some 44"
    by (subst budget_ticks.simps) (simp add: s107 k108)
  have k106: "budget_ticks (1238489897526897 / 281474976710656) = Some 45"
    by (subst budget_ticks.simps) (simp add: s106 k107)
  have k105: "budget_ticks (2533274790395925 / 562949953421312) = Some 46"
    by (subst budget_ticks.simps) (simp add: s105 k106)
  have k104: "budget_ticks (323696223217257 / 70368744177664) = Some 47"
    by (subst budget_ticks.simps) (simp add: s104 k105)
  have k103: "budget_ticks (2645864781080187 / 562949953421312) = Some 48"
    by (subst budget_ticks.simps) (simp add: s103 k104)
  have k102: "budget_ticks (1351079888211159 / 281474976710656) = Some 49"
    by (subst budget_ticks.simps) (simp add: s102 k103)
  have k101: "budget_ticks (2758454771764449 / 562949953421312) = Some 50"
    by (subst budget_ticks.simps) (simp add: s101 k102)
  have k100: "budget_ticks (703687441776645 / 140737488355328) = Some 51"
    by (subst budget_ticks.simps) (simp add: s100 k101)
  have k99: "budget_ticks (2871044762448711 / 562949953421312) = Some 52"
    by (subst budget_ticks.simps) (simp add: s99 k100)
  have k98: "budget_ticks (1463669878895421 / 281474976710656) = Some 53"
    by (subst budget_ticks.simps) (simp add: s98 k99)
  have k97: "budget_ticks (2983634753132973 / 562949953421312) = Some 54"
    by (subst budget_ticks.simps) (simp add: s97 k98)
  have k96: "budget_ticks (94997804639847 / 17592186044416) = Some 55"
    by (subst budget_ticks.simps) (simp add: s96 k97)
  have k95: "budget_ticks (3096224743817235 / 562949953421312) = Some 56"
    by (subst budget_ticks.simps) (simp add: s95 k96)
  have k94: "budget_ticks (1576259869579683 / 281474976710656) = Some 57"
    by (subst budget_ticks.simps) (simp add: s94 k95)
  have k93: "budget_ticks (3208814734501497 / 562949953421312) = Some 58"
    by (subst budget_ticks.simps) (simp add: s93 k94)
  have k92: "budget_ticks (816277432460907 / 140737488355328) = Some 59"
    by (subst budget_ticks.simps) (simp add: s92 k93)
  have k91: "budget_ticks (3321404725185759 / 562949953421312) = Some 60"
    by (subst budget_ticks.simps) (simp add: s91 k92)
  have k90: "budget_ticks (1688849860263945 / 281474976710656) = Some 61"
    by (subst budget_ticks.simps) (simp add: s90 k91)
  have k89: "budget_ticks (3433994715870021 / 562949953421312) = Some 62"
    by (subst budget_ticks.simps) (simp add: s89 k90)
  have k88: "budget_ticks (436286213901519 / 70368744177664) = Some 63"
    by (subst budget_ticks.simps) (simp add: s88 k89)
  have k87: "budget_ticks (3546584706554283 / 562949953421312) = Some 64"
    by (subst budget_ticks.simps) (simp add: s87 k88)
  have k86: "budget_ticks (1801439850948207 / 281474976710656) = Some 65"
    by (subst budget_ticks.simps) (simp add: s86 k87)
  have k85: "budget_ticks (3659174697238545 / 562949953421312) = Some 66"
    by (subst budget_ticks.simps) (simp add: s85 k86)
  have k84: "budget_ticks (928867423145169 / 140737488355328) = Some 67"
    by (subst budget_ticks.simps) (simp add: s84 k85)
  have k83: "budget_ticks (3771764687922807 / 562949953421312) = Some 68"
    by (subst budget_ticks.simps) (simp add: s83 k84)
  have k82: "budget_ticks (1914029841632469 / 281474976710656) = Some 69"
    by (subst budget_ticks.simps) (simp add: s82 k83)
  have k81: "budget_ticks (3884354678607069 / 562949953421312) = Some 70"
    by (subst budget_ticks.simps) (simp add: s81 k82)
  have k80: "budget_ticks (246290604621825 / 35184372088832) = Some 71"
    by (subst budget_ticks.simps) (simp add: s80 k81)
  have k79: "budget_ticks (3996944669291331 / 562949953421312) = Some 72"
    by (subst budget_ticks.simps) (simp add: s79 k80)
  have k78: "budget_ticks (2026619832316731 / 281474976710656) = Some 73"
    by (subst budget_ticks.simps) (simp add: s78 k79)
  have k77: "budget_ticks (4109534659975593 / 562949953421312) = Some 74"
    by (subst budget_ticks.simps) (simp add: s77 k78)
  have k76: "budget_ticks (1041457413829431 / 140737488355328) = Some 75"
    by (subst budget_ticks.simps) (simp add: s76 k77)
  have k75: "budget_ticks (4222124650659855 / 562949953421312) = Some 76"
    by (subst budget_ticks.simps) (simp add: s75 k76)
  have k74: "budget_ticks (2139209823000993 / 281474976710656) = Some 77"
    by (subst budget_ticks.simps) (simp add: s74 k75)
  have k73: "budget_ticks (4334714641344117 / 562949953421312) = Some 78"
    by (subst budget_ticks.simps) (simp add: s73 k74)
  have k72: "budget_ticks (548876204585781 / 70368744177664) = Some 79"
    by (subst budget_ticks.simps) (simp add: s72 k73)
  have k71: "budget_ticks (4447304632028379 / 562949953421312) = Some 80"
    by (subst budget_ticks.simps) (simp add: s71 k72)
  have k70: "budget_ticks (2251799813685255 / 281474976710656) = Some 81"
    by (subst budget_ticks.simps) (simp add: s70 k71)
  have k69: "budget_ticks (4559894622712641 / 562949953421312) = Some 82"
    by (subst budget_ticks.simps) (simp add: s69 k70)
  have k68: "budget_ticks (1154047404513693 / 140737488355328) = Some 83"
    by (subst budget_ticks.simps) (simp add: s68 k69)
  have k67: "budget_ticks (4672484613396903 / 562949953421312) = Some 84"
    by (subst budget_ticks.simps) (simp add: s67 k68)
  have k66: "budget_ticks (2364389804369517 / 281474976710656) = Some 85"
    by (subst budget_ticks.simps) (simp add: s66 k67)
  have k65: "budget_ticks (4785074604081165 / 562949953421312) = Some 86"
    by (subst budget_ticks.simps) (simp add: s65 k66)
  have k64: "budget_ticks (75646399990989 / 8796093022208) = Some 87"
    by (subst budget_ticks.simps) (simp add: s64 k65)
  have k63: "budget_ticks (4897664594765427 / 562949953421312) = Some 88"
    by (subst budget_ticks.simps) (simp add: s63 k64)
  have k62: "budget_ticks (2476979795053779 / 281474976710656) = Some 89"
    by (subst budget_ticks.simps) (simp add: s62 k63)
  have k61: "budget_ticks (5010254585449689 / 562949953421312) = Some 90"
    by (subst budget_ticks.simps) (simp add: s61 k62)
  have k60: "budget_ticks (1266637395197955 / 140737488355328) = Some 91"
    by (subst budget_ticks.simps) (simp add: s60 k61)
  have k59: "budget_ticks (5122844576133951 / 562949953421312) = Some 92"
    by (subst budget_ticks.simps) (simp add: s59 k60)
  have k58: "budget_ticks (2589569785738041 / 281474976710656) = Some 93"
    by (subst budget_ticks.simps) (simp add: s58 k59)
  have k57: "budget_ticks (5235434566818213 / 562949953421312) = Some 94"
    by (subst budget_ticks.simps) (simp add: s57 k58)
  have k56: "budget_ticks (661466195270043 / 70368744177664) = Some 95"
    by (subst budget_ticks.simps) (simp add: s56 k57)
  have k55: "budget_ticks (5348024557502475 / 562949953421312) = Some 96"
    by (subst budget_ticks.simps) (simp add: s55 k56)
  have k54: "budget_ticks (2702159776422303 / 281474976710656) = Some 97"
    by (subst budget_ticks.simps) (simp add: s54 k55)
  have k53: "budget_ticks (5460614548186737 / 562949953421312) = Some 98"
    by (subst budget_ticks.simps) (simp add: s53 k54)
  have k52: "budget_ticks (1379227385882217 / 140737488355328) = Some 99"
    by (subst budget_ticks.simps) (simp add: s52 k53)
  have k51: "budget_ticks (5573204538870999 / 562949953421312) = Some 100"
    by (subst budget_ticks.simps) (simp add: s51 k52)
  have k50: "budget_ticks (2814749767106565 / 281474976710656) = Some 101"
    by (subst budget_ticks.simps) (simp add: s50 k51)
  have k49: "budget_ticks (5685794529555261 / 562949953421312) = Some 102"
    by (subst budget_ticks.simps) (simp add: s49 k50)
  have k48: "budget_ticks (358880595306087 / 35184372088832) = Some 103"
    by (subst budget_ticks.simps) (simp add: s48 k49)
  have k47: "budget_ticks (5798384520239523 / 562949953421312) = Some 104"
    by (subst budget_ticks.simps) (simp add: s47 k48)
  have k46: "budget_ticks (2927339757790827 / 281474976710656) = Some 105"
    by (subst budget_ticks.simps) (simp add: s46 k47)
  have k45: "budget_ticks (5910974510923785 / 562949953421312) = Some 106"
    by (subst budget_ticks.simps) (simp add: s45 k46)
  have k44: "budget_ticks (1491817376566479 / 140737488355328) = Some 107"
    by (subst budget_ticks.simps) (simp add: s44 k45)
  have k43: "budget_ticks (6023564501608047 / 562949953421312) = Some 108"
    by (subst budget_ticks.simps) (simp add: s43 k44)
  have k42: "budget_ticks (3039929748475089 / 281474976710656) = Some 109"
    by (subst budget_ticks.simps) (simp add: s42 k43)
  have k41: "budget_ticks (6136154492292309 / 562949953421312) = Some 110"
    by (subst budget_ticks.simps) (simp add: s41 k42)
  have k40: "budget_ticks (774056185954305 / 70368744177664) = Some 111"
    by (subst budget_ticks.simps) (simp add: s40 k41)
  have k39: "budget_ticks (6248744482976571 / 562949953421312) = Some 112"
    by (subst budget_ticks.simps) (simp add: s39 k40)
  have k38: "budget_ticks (3152519739159351 / 281474976710656) = Some 113"
    by (subst budget_ticks.simps) (simp add: s38 k39)
  have k37: "budget_ticks (6361334473660833 / 562949953421312) = Some 114"
    by (subst budget_ticks.simps) (simp add: s37 k38)
  have k36: "budget_ticks (1604407367250741 / 140737488355328) = Some 115"
    by (subst budget_ticks.simps) (simp add: s36 k37)
  have k35: "budget_ticks (6473924464345095 / 562949953421312) = Some 116"
    by (subst budget_ticks.simps) (simp add: s35 k36)
  have k34: "budget_ticks (3265109729843613 / 281474976710656) = Some 117"
    by (subst budget_ticks.simps) (simp add: s34 k35)
  have k33: "budget_ticks (6586514455029357 / 562949953421312) = Some 118"
    by (subst budget_ticks.simps) (simp add: s33 k34)
  have k32: "budget_ticks (207587795324109 / 17592186044416) = Some 119"
    by (subst budget_ticks.simps) (simp add: s32 k33)
  have k31: "budget_ticks (6699104445713619 / 562949953421312) = Some 120"
    by (subst budget_ticks.simps) (simp add: s31 k32)
  have k30: "budget_ticks (3377699720527875 / 281474976710656) = Some 121"
    by (subst budget_ticks.simps) (simp add: s30 k31)
  have k29: "budget_ticks (6811694436397881 / 562949953421312) = Some 122"
    by (subst budget_ticks.simps) (simp add: s29 k30)
  have k28: "budget_ticks (1716997357935003 / 140737488355328) = Some 123"
    by (subst budget_ticks.simps) (simp add: s28 k29)
  have k27: "budget_ticks (6924284427082143 / 562949953421312) = Some 124"
    by (subst budget_ticks.simps) (simp add: s27 k28)
  have k26: "budget_ticks (3490289711212137 / 281474976710656) = Some 125"
    by (subst budget_ticks.simps) (simp add: s26 k27)
  have k25: "budget_ticks (7036874417766405 / 562949953421312) = Some 126"
    by (subst budget_ticks.simps) (simp add: s25 k26)
  have k24: "budget_ticks (886646176638567 / 70368744177664) = Some 127"
    by (subst budget_ticks.simps) (simp add: s24 k25)
  have k23: "budget_ticks (7149464408450667 / 562949953421312) = Some 128"
    by (subst budget_ticks.simps) (simp add: s23 k24)
  have k22: "budget_ticks (3602879701896399 / 281474976710656) = Some 129"
    by (subst budget_ticks.simps) (simp add: s22 k23)
  have k21: "budget_ticks (7262054399134929 / 562949953421312) = Some 130"
    by (subst budget_ticks.simps) (simp add: s21 k22)
  have k20: "budget_ticks (1829587348619265 / 140737488355328) = Some 131"
    by (subst budget_ticks.simps) (simp add: s20 k21)
  have k19: "budget_ticks (7374644389819191 / 562949953421312) = Some 132"
    by (subst budget_ticks.simps) (simp add: s19 k20)
  have k18: "budget_ticks (3715469692580661 / 281474976710656) = Some 133"
    by (subst budget_ticks.simps) (simp add: s18 k19)
  have k17: "budget_ticks (7487234380503453 / 562949953421312) = Some 134"
    by (subst budget_ticks.simps) (simp add: s17 k18)
  have k16: "budget_ticks (471470585990349 / 35184372088832) = Some 135"
    by (subst budget_ticks.simps) (simp add: s16 k17)
  have k15: "budget_ticks (7599824371187715 / 562949953421312) = Some 136"
    by (subst budget_ticks.simps) (simp add: s15 k16)
  have k14: "budget_ticks (3828059683264923 / 281474976710656) = Some 137"
    by (subst budget_ticks.simps) (simp add: s14 k15)
  have k13: "budget_ticks (7712414361871977 / 562949953421312) = Some 138"
    by (subst budget_ticks.simps) (simp add: s13 k14)
  have k12: "budget_ticks (1942177339303527 / 140737488355328) = Some 139"
    by (subst budget_ticks.simps) (simp add: s12 k13)
  have k11: "budget_ticks (7825004352556239 / 562949953421312) = Some 140"
    by (subst budget_ticks.simps) (simp add: s11 k12)
  have k10: "budget_ticks (3940649673949185 / 281474976710656) = Some 141"
    by (subst budget_ticks.simps) (simp add: s10 k11)
  have k9: "budget_ticks (7937594343240501 / 562949953421312) = Some 142"
    by (subst budget_ticks.simps) (simp add: s9 k10)
  have k8: "budget_ticks (999236167322829 / 70368744177664) = Some 143"
    by (subst budget_ticks.simps) (simp add: s8 k9)
  have k7: "budget_ticks (8050184333924763 / 562949953421312) = Some 144"
    by (subst budget_ticks.simps) (simp add: s7 k8)
  have k6: "budget_ticks (4053239664633447 / 281474976710656) = Some 145"
    by (subst budget_ticks.simps) (simp add: s6 k7)
  have k5: "budget_ticks (8162774324609025 / 562949953421312) = Some 146"
    by (subst budget_ticks.simps) (simp add: s5 k6)
  have k4: "budget_ticks (2054767329987789 / 140737488355328) = Some 147"
    by (subst budget_ticks.simps) (simp add: s4 k5)
  have k3: "budget_ticks (8275364315293287 / 562949953421312) = Some 148"
    by (subst budget_ticks.simps) (simp add: s3 k4)
  have k2: "budget_ticks (4165829655317709 / 281474976710656) = Some 149"
    by (subst budget_ticks.simps) (simp add: s2 k3)
  have k1: "budget_ticks (8387954305977549 / 562949953421312) = Some 150"
    by (subst budget_ticks.simps) (simp add: s1 k2)
  have k0: "budget_ticks (15) = Some 151"
    by (subst budget_ticks.simps) (simp add: s0 k1)
  show ?thesis by (rule k0)
qed

section \<open>The interpolation in binary64\<close>















section \<open>A shot straight up\<close>

text \<open>Machin's formula and the alternating series of the arc tangent give pi to 17
  digits, enough to round it to binary64.\<close>

lemma arctan_partial_sums:
  fixes x :: real
  assumes "0 \<le> x" "x \<le> 1"
  shows "(\<Sum>i<2 * n. (-1) ^ i * (1 / real (i * 2 + 1) * x ^ (i * 2 + 1))) \<le> arctan x"
    and "arctan x \<le> (\<Sum>i<2 * n + 1. (-1) ^ i * (1 / real (i * 2 + 1) * x ^ (i * 2 + 1)))"
proof -
  define a where "a = (\<lambda>i. 1 / real (i * 2 + 1) * x ^ (i * 2 + 1))"
  have ax: "\<bar>x\<bar> \<le> 1" using assms by simp
  have z: "a \<longlonglongrightarrow> 0" unfolding a_def by (rule zeroseq_arctan_series [OF ax])
  have p: "0 \<le> a i" for i using assms by (simp add: a_def)
  have m: "a (Suc i) \<le> a i" for i
  proof -
    have "x ^ (Suc i * 2 + 1) \<le> x ^ (i * 2 + 1)"
      using assms by (intro power_decreasing) simp_all
    moreover have "1 / real (Suc i * 2 + 1) \<le> 1 / real (i * 2 + 1)"
      by (intro divide_left_mono) simp_all
    ultimately show ?thesis
      unfolding a_def using assms by (intro mult_mono) simp_all
  qed
  have s: "arctan x = (\<Sum>i. (-1) ^ i * a i)"
    unfolding a_def by (rule arctan_series [OF ax])
  show "(\<Sum>i<2 * n. (-1) ^ i * (1 / real (i * 2 + 1) * x ^ (i * 2 + 1))) \<le> arctan x"
    unfolding s using summable_Leibniz'(2) [OF z p m, of n] by (simp add: a_def)
  show "arctan x \<le> (\<Sum>i<2 * n + 1. (-1) ^ i * (1 / real (i * 2 + 1) * x ^ (i * 2 + 1)))"
    unfolding s using summable_Leibniz'(4) [OF z p m, of n] by (simp add: a_def)
qed

lemma arctan_fifth_bounds:
  "197395559849880758369871 / 10 ^ 24 \<le> arctan (1 / 5)"
  "arctan (1 / 5) \<le> 197395559849880758370057 / 10 ^ 24"
proof -
  have "(197395559849880758369871 / 10 ^ 24 :: real)
      \<le> (\<Sum>i<2 * 7. (-1) ^ i * (1 / real (i * 2 + 1) * (1 / 5) ^ (i * 2 + 1)))"
    by (simp add: eval_nat_numeral)
  also have "\<dots> \<le> arctan (1 / 5)" by (rule arctan_partial_sums) simp_all
  finally show "197395559849880758369871 / 10 ^ 24 \<le> arctan (1 / 5)" .
  have "arctan (1 / 5)
      \<le> (\<Sum>i<2 * 7 + 1. (-1) ^ i * (1 / real (i * 2 + 1) * (1 / 5) ^ (i * 2 + 1)))"
    by (rule arctan_partial_sums) simp_all
  also have "\<dots> \<le> (197395559849880758370057 / 10 ^ 24 :: real)"
    by (simp add: eval_nat_numeral)
  finally show "arctan (1 / 5) \<le> 197395559849880758370057 / 10 ^ 24" .
qed

lemma arctan_239_bounds:
  "4184076002074723864494 / 10 ^ 24 \<le> arctan (1 / 239)"
  "arctan (1 / 239) \<le> 4184076002074723864539 / 10 ^ 24"
proof -
  have "(4184076002074723864494 / 10 ^ 24 :: real)
      \<le> (\<Sum>i<2 * 2. (-1) ^ i * (1 / real (i * 2 + 1) * (1 / 239) ^ (i * 2 + 1)))"
    by (simp add: eval_nat_numeral)
  also have "\<dots> \<le> arctan (1 / 239)" by (rule arctan_partial_sums) simp_all
  finally show "4184076002074723864494 / 10 ^ 24 \<le> arctan (1 / 239)" .
  have "arctan (1 / 239)
      \<le> (\<Sum>i<2 * 2 + 1. (-1) ^ i * (1 / real (i * 2 + 1) * (1 / 239) ^ (i * 2 + 1)))"
    by (rule arctan_partial_sums) simp_all
  also have "\<dots> \<le> (4184076002074723864539 / 10 ^ 24 :: real)"
    by (simp add: eval_nat_numeral)
  finally show "arctan (1 / 239) \<le> 4184076002074723864539 / 10 ^ 24" .
qed

lemma pi_near_binary64:
  "884279719003555 / 2 ^ 48 + 12 / 10 ^ 17 < pi"
  "pi < 884279719003555 / 2 ^ 48 + 13 / 10 ^ 17"
proof -
  have e: "pi = 16 * arctan (1 / 5) - 4 * arctan (1 / 239)" using machin by simp
  have "(884279719003555 / 2 ^ 48 + 12 / 10 ^ 17 :: real)
      < 16 * (197395559849880758369871 / 10 ^ 24) - 4 * (4184076002074723864539 / 10 ^ 24)"
    by simp
  also have "\<dots> \<le> pi"
    unfolding e using arctan_fifth_bounds(1) arctan_239_bounds(2) by linarith
  finally show "884279719003555 / 2 ^ 48 + 12 / 10 ^ 17 < pi" .
  have "pi \<le> 16 * (197395559849880758370057 / 10 ^ 24) - 4 * (4184076002074723864494 / 10 ^ 24)"
    unfolding e using arctan_fifth_bounds(2) arctan_239_bounds(1) by linarith
  also have "\<dots> < (884279719003555 / 2 ^ 48 + 13 / 10 ^ 17 :: real)" by simp
  finally show "pi < 884279719003555 / 2 ^ 48 + 13 / 10 ^ 17" .
qed

lemma py_round_unique:
  assumes "real_of_int k - 1 / 2 < y" "y < real_of_int k + 1 / 2"
  shows "py_round y = k"
proof -
  have f: "real_of_int \<lfloor>y\<rfloor> \<le> y" "y < real_of_int \<lfloor>y\<rfloor> + 1" by linarith+
  have "\<lfloor>y\<rfloor> = k \<or> \<lfloor>y\<rfloor> = k - 1" using assms f by linarith
  then show ?thesis
  proof
    assume e: "\<lfloor>y\<rfloor> = k"
    then have "y - real_of_int \<lfloor>y\<rfloor> < 1 / 2" using assms by simp
    then show ?thesis using e by (simp add: py_round_def Let_def)
  next
    assume e: "\<lfloor>y\<rfloor> = k - 1"
    then have "1 / 2 < y - real_of_int \<lfloor>y\<rfloor>" using assms by simp
    then show ?thesis using e by (simp add: py_round_def Let_def)
  qed
qed

text \<open>The binary64 number nearest to pi, and \<open>math.radians(90)\<close>.\<close>

lemma fl64_pi: "fl64 pi = 884279719003555 / 2 ^ 48"
proof -
  note b = pi_near_binary64
  have p: "3 \<le> pi" "pi \<le> 4" using pi_ge_three pi_less_4 by simp_all
  have "2 ^ 52 \<le> \<bar>pi\<bar> * 2 ^ 51" "\<bar>pi\<bar> * 2 ^ 51 < 2 ^ 53"
    using b by simp_all
  then have "fl64 pi = real_of_int (py_round (pi * 2 ^ 51)) / 2 ^ 51" by (rule fl64_scaled)
  moreover have "py_round (pi * 2 ^ 51) = 7074237752028440"
    by (rule py_round_unique) (use b in simp_all)
  ultimately show ?thesis by simp
qed

lemma radians64_90: "radians64 90 = 884279719003555 / 2 ^ 49"
proof -
  note e = py_round_def Let_def
  have c1: "fl64 (884279719003555 / 2 ^ 48 / 180) = 5030569068109113 / 288230376151711744"
    by (subst fl64_scaled [where n = 58]) (simp_all add: e)
  have c2: "fl64 (90 * (5030569068109113 / 288230376151711744)) = 884279719003555 / 2 ^ 49"
    by (subst fl64_scaled [where n = 52]) (simp_all add: e)
  show ?thesis by (simp only: radians64_def fl64_pi c1 c2)
qed


text \<open>A shot straight up at a target 400 pixels high: the cosine of \<open>math.radians(90)\<close>
  is positive and below \<open>1e-16\<close>, the quotient of line 70 is huge, the solved angle is
  next to 90 degrees, and NaN is returned from line 74.\<close>

lemma real_alpha_calc_balistics_straight_up:
  "real_alpha_calc_balistics [90] 400 = Inr NaN"
proof -
  define a :: real where "a = 884279719003555 / 2 ^ 49"
  define x where "x = pi / 2 - a"
  have x: "6 / 10 ^ 17 < x" "x < 65 / 10 ^ 18"
    using pi_near_binary64 by (simp_all add: x_def a_def)
  have x0: "0 \<le> x" using x(1) by simp
  have ca: "cos a = sin x" unfolding x_def using cos_sin_eq [of a] by simp
  have sa: "sin a = cos x" unfolding x_def using sin_cos_eq [of a] by simp
  have su: "sin x \<le> x" using x0 by (rule sin_x_le_x)
  have "x ^ 3 / 6 \<le> x / 2"
  proof -
    have e: "x ^ 3 = x * x\<^sup>2" by (simp add: power3_eq_cube power2_eq_square)
    have "x\<^sup>2 \<le> 1" using x by (simp add: power_le_one)
    then have "x * x\<^sup>2 \<le> x * 1" using x0 by (rule mult_left_mono)
    then have "x ^ 3 \<le> x" by (simp add: e)
    then show ?thesis using x0 by linarith
  qed
  then have sl: "x / 2 \<le> sin x" using sin_lower_cubic [OF x0] by linarith
  have c1: "3 / 10 ^ 17 \<le> cos a" "cos a \<le> 65 / 10 ^ 18"
    using sl su x by (simp_all add: ca)
  have cx0: "0 \<le> cos x"
    using x pi_ge_three by (intro cos_ge_zero) simp_all
  have "(sin x)\<^sup>2 \<le> x\<^sup>2"
    using su sl x0 by (intro power_mono) simp_all
  moreover have "x\<^sup>2 \<le> 1 / 100"
  proof -
    have "x\<^sup>2 \<le> (1 / 10)\<^sup>2" using x by (intro power_mono) simp_all
    then show ?thesis by (simp add: power2_eq_square)
  qed
  ultimately have "(sin x)\<^sup>2 \<le> 1 / 100" by linarith
  then have "99 / 100 \<le> (cos x)\<^sup>2"
    using sin_cos_squared_add [of x] by linarith
  moreover have "(cos x)\<^sup>2 \<le> cos x"
  proof -
    have "cos x * cos x \<le> 1 * cos x"
      using cx0 cos_le_one [of x] by (intro mult_right_mono) simp_all
    then show ?thesis by (simp add: power2_eq_square)
  qed
  ultimately have s1: "99 / 100 \<le> sin a" "sin a \<le> 1" by (simp_all add: sa)
  define t where "t = tan (radians64 FOV_deg / 2)"
  have t: "1 / 8 \<le> t" "t \<le> 1" using tan_half_fov_lower tan_half_fov_upper by (simp_all add: t_def)
  have "100 \<le> \<bar>2 * 400 * t\<bar>" using t(1) by simp
  moreover have "(1::real) / 2 ^ 1075 < 100" by simp
  ultimately have u1: "\<not> underflows (2 * 400 * t)"
    unfolding underflows_def by linarith
  have o1: "\<not> overflows (2 * 400)" by (simp add: overflows_def)
  have D: "36 / 400 \<le> ballistic_D 400" "ballistic_D 400 \<le> 288 / 400"
    using ballistic_D_bounds [of 400] by simp_all
  then have "\<bar>GRAVITY_CONSTANT * ballistic_D 400\<bar> \<le> 100"
    by (simp add: GRAVITY_CONSTANT_def abs_mult)
  moreover have "(100::real) < 2 ^ 1024 - 2 ^ 970" by simp
  ultimately have o2: "\<not> overflows (GRAVITY_CONSTANT * ballistic_D 400)"
    unfolding overflows_def by linarith
  define E where "E = ballistic_E 400"
  have E: "3 / 100 \<le> E" "E \<le> 27 / 100"
    using D by (simp_all add: E_def ballistic_E_D)
  have Ec: "9 / 10 ^ 19 \<le> E * cos a" "E * cos a \<le> 1 / 10 ^ 16"
  proof -
    have "3 / 100 * (3 / 10 ^ 17) \<le> E * cos a"
      using E(1) c1(1) by (intro mult_mono) simp_all
    then show "9 / 10 ^ 19 \<le> E * cos a" by simp
    have "E * cos a \<le> 27 / 100 * (65 / 10 ^ 18)"
      using E c1 by (intro mult_mono) simp_all
    then show "E * cos a \<le> 1 / 10 ^ 16" by simp
  qed
  have Ec2: "(E * cos a)\<^sup>2 \<le> 1 / 100"
  proof -
    have "(E * cos a)\<^sup>2 \<le> (1 / 10)\<^sup>2" using Ec by (intro power_mono) simp_all
    then show ?thesis by (simp add: power2_eq_square)
  qed
  have "0 \<le> (E * cos a)\<^sup>2" by simp
  with Ec2 have "\<bar>(E * cos a)\<^sup>2\<bar> \<le> 1" by simp
  moreover have "(1::real) < 2 ^ 1024 - 2 ^ 970" by simp
  ultimately have o3: "\<not> overflows ((E * cos a)\<^sup>2)"
    unfolding overflows_def by linarith
  define dis where "dis = ballistic_dis a 400"
  have dis: "dis = 1 - 2 * E * sin a - (E * cos a)\<^sup>2"
    by (simp add: dis_def ballistic_dis_def E_def)
  have Es: "3 / 100 * (99 / 100) \<le> E * sin a" "E * sin a \<le> 27 / 100 * 1"
    using E s1 by (intro mult_mono; simp)+
  have d0: "4 / 10 \<le> dis" using Es(2) Ec2 unfolding dis by linarith
  have d1: "dis \<le> (97 / 100)\<^sup>2"
  proof -
    have "dis \<le> 1 - 2 * (3 / 100 * (99 / 100))"
      using Es(1) zero_le_power2 [of "E * cos a"] unfolding dis by linarith
    also have "\<dots> \<le> (97 / 100)\<^sup>2" by (simp add: power2_eq_square)
    finally show ?thesis .
  qed
  have "sqrt dis \<le> 97 / 100" using d1 by (intro real_le_lsqrt) simp_all
  then have num: "3 / 100 \<le> 1 - sqrt dis" by simp
  have nd: "\<not> dis < 0" using d0 by simp
  have "(1::real) / 2 ^ 1075 < 9 / 10 ^ 19" by simp
  with Ec(1) have u2: "\<not> underflows (E * cos a)"
    unfolding underflows_def by linarith
  have q: "1 < (1 - sqrt dis) / (E * cos a)"
    using num Ec by (simp add: less_divide_eq)
  have "arctan 1 < arctan ((1 - sqrt dis) / (E * cos a))"
    using q by (simp only: arctan_less_iff)
  then have "pi / 4 < arctan ((1 - sqrt dis) / (E * cos a))" by (simp only: arctan_one)
  then have big: "45 < ballistic_real_alpha a 400"
    by (simp add: ballistic_real_alpha_def degrees_def dis_def [symmetric] E_def [symmetric]
        field_simps)
  have al: "radians64 (Min (set [90])) = a" by (simp add: a_def radians64_90)
  show ?thesis
    unfolding real_alpha_calc_balistics_def Let_def al
    using u1 o1 o2 o3 nd u2 big
    by (simp add: t_def E_def dis_def)
qed

end
